theory Spec2Isabelle
  imports Complex_Main
begin

section \<open>Vortexje: the source-doublet panel solver\<close>

text \<open>
  A shallow embedding of \<^verbatim>\<open>Solver\<close> (the translation unit that follows the dummy
  boundary layer header in \<^verbatim>\<open>src/vortexje/boundary-layers/dummy-boundary-layer.hpp\<close>).

  Conventions of the embedding.
  \<^item> A \<^verbatim>\<open>double\<close> is a \<open>real\<close>: rounding is not modelled. The one division of the solver
    whose divisor is not guarded, the one by the squared reference velocity, is written
    out: its result is a \<open>real option\<close>, and \<open>None\<close> stands for the non-finite double
    (an infinity or a NaN) that a division by zero produces.
  \<^item> Panel, node and vector indices are \<open>nat\<close>. A negative or out-of-range index is
    undefined behaviour in the source; here a write out of range leaves the vector as it
    is and the theorems state the ranges they need.
  \<^item> \<^verbatim>\<open>Surface\<close>, \<^verbatim>\<open>LiftingSurface\<close>, \<^verbatim>\<open>Wake\<close>, \<^verbatim>\<open>Body\<close>, \<^verbatim>\<open>Parameters\<close> and Eigen's
    \<^verbatim>\<open>BiCGSTAB\<close> are declared outside the solver. Their data members are record fields,
    their methods are function-valued fields, so every theorem holds for any geometry
    and any linear solver.
  \<^item> Wakes and boundary layers are mutated through references held by several owners.
    They live in two stores (address to object) that are part of the state; bodies,
    surfaces and the \<^verbatim>\<open>SurfaceData\<close> structs are not written by the solver and are held
    by value, a surface together with its address.
  \<^item> The OpenMP loops write disjoint entries and read nothing another iteration writes;
    they are modelled as sequential loops.
  \<^item> The standard error stream is the last field of the state. The progress messages on
    the standard output stream are not modelled.
\<close>

subsection \<open>Eigen::Vector3d\<close>

datatype vec3 = Vector3d (vx: real) (vy: real) (vz: real)

instantiation vec3 :: ab_group_add
begin

definition zero_vec3 :: vec3 where
  "zero_vec3 = Vector3d 0 0 0"

definition plus_vec3 :: "vec3 \<Rightarrow> vec3 \<Rightarrow> vec3" where
  "plus_vec3 u v = Vector3d (vx u + vx v) (vy u + vy v) (vz u + vz v)"

definition minus_vec3 :: "vec3 \<Rightarrow> vec3 \<Rightarrow> vec3" where
  "minus_vec3 u v = Vector3d (vx u - vx v) (vy u - vy v) (vz u - vz v)"

definition uminus_vec3 :: "vec3 \<Rightarrow> vec3" where
  "uminus_vec3 u = Vector3d (- vx u) (- vy u) (- vz u)"

instance
  by standard
    (simp_all add: zero_vec3_def plus_vec3_def minus_vec3_def uminus_vec3_def vec3.expand)

end

text \<open>\<^verbatim>\<open>a * v\<close>, \<^verbatim>\<open>u.dot(v)\<close>, \<^verbatim>\<open>v.squaredNorm()\<close> and \<^verbatim>\<open>v.norm()\<close>.\<close>

definition scale :: "real \<Rightarrow> vec3 \<Rightarrow> vec3" where
  "scale a v = Vector3d (a * vx v) (a * vy v) (a * vz v)"

definition dot :: "vec3 \<Rightarrow> vec3 \<Rightarrow> real" where
  "dot u v = vx u * vx v + vy u * vy v + vz u * vz v"

definition squaredNorm :: "vec3 \<Rightarrow> real" where
  "squaredNorm v = dot v v"

definition norm3 :: "vec3 \<Rightarrow> real" where
  "norm3 v = sqrt (squaredNorm v)"

subsection \<open>Parameters\<close>

text \<open>The process-wide tunables of the \<^verbatim>\<open>Parameters\<close> namespace, read by the solver.\<close>

record parameters =
  convect_wake :: bool
  static_wake_length :: real
  wake_emission_follow_bisector :: bool
  wake_emission_distance_factor :: real
  unsteady_bernoulli :: bool
  marcov_surface_velocity :: bool
  max_boundary_layer_iterations :: int
  boundary_layer_iteration_tolerance :: real
  linear_solver_max_iterations :: int
  linear_solver_tolerance :: real

subsection \<open>Surfaces, wakes, boundary layers, bodies\<close>

text \<open>
  A surface: \<open>addr\<close> is the address of the object (what \<^verbatim>\<open>&surface == &d->surface\<close>
  compares), \<open>surface_id\<close> its \<^verbatim>\<open>id\<close> member. The methods that take a point or a panel are
  fields; the methods that take another surface are in \<open>externals\<close> below.
\<close>

record surface =
  addr :: nat
  surface_id :: int
  n_panels :: nat
  n_nodes :: nat
  nodes :: "vec3 list"
  panel_normal :: "nat \<Rightarrow> vec3"
  panel_collocation_point :: "nat \<Rightarrow> bool \<Rightarrow> vec3"
  scalar_field_gradient :: "real list \<Rightarrow> nat \<Rightarrow> nat \<Rightarrow> vec3"
  vortex_ring_unit_velocity :: "vec3 \<Rightarrow> nat \<Rightarrow> vec3"
  source_unit_velocity :: "vec3 \<Rightarrow> nat \<Rightarrow> vec3"
  source_and_doublet_influence_at :: "vec3 \<Rightarrow> nat \<Rightarrow> real \<times> real"

record lifting_surface = surface +
  n_spanwise_panels :: nat
  n_spanwise_nodes :: nat
  trailing_edge_upper_panel :: "nat \<Rightarrow> nat"
  trailing_edge_lower_panel :: "nat \<Rightarrow> nat"
  trailing_edge_node :: "nat \<Rightarrow> nat"
  trailing_edge_bisector :: "nat \<Rightarrow> vec3"

text \<open>
  A wake: its node buffer, its count of panels and the doublet coefficient of each panel.
  \<^verbatim>\<open>n_nodes()\<close> of a wake is the length of its node buffer.
\<close>

record wake =
  wake_id :: int
  wake_nodes :: "vec3 list"
  wake_n_panels :: nat
  wake_doublet_coefficients :: "real list"

text \<open>
  A boundary layer is the null one or a user's, which answers \<^verbatim>\<open>blowing_velocity\<close> and
  \<^verbatim>\<open>friction\<close> and whose \<^verbatim>\<open>recalculate\<close> yields its next state.
\<close>

datatype boundary_layer_obj =
  DummyBoundaryLayer
| UserBoundaryLayer (user_blowing_velocity: "nat \<Rightarrow> real") (user_friction: "nat \<Rightarrow> vec3")
    (user_recalculate: "vec3 list \<Rightarrow> boundary_layer_obj")

text \<open>
  Modelled from the spec: the member functions of \<^verbatim>\<open>DummyBoundaryLayer\<close> (only its
  declaration is among the sources). The null implementation returns zero for both queries
  and does nothing on recalculate.
\<close>

fun blowing_velocity :: "boundary_layer_obj \<Rightarrow> nat \<Rightarrow> real" where
  "blowing_velocity DummyBoundaryLayer panel = 0"
| "blowing_velocity (UserBoundaryLayer bv fr rc) panel = bv panel"

fun friction :: "boundary_layer_obj \<Rightarrow> nat \<Rightarrow> vec3" where
  "friction DummyBoundaryLayer panel = 0"
| "friction (UserBoundaryLayer bv fr rc) panel = fr panel"

fun recalculate :: "boundary_layer_obj \<Rightarrow> vec3 list \<Rightarrow> boundary_layer_obj" where
  "recalculate DummyBoundaryLayer surface_velocities = DummyBoundaryLayer"
| "recalculate (UserBoundaryLayer bv fr rc) surface_velocities = rc surface_velocities"

text \<open>
  \<^verbatim>\<open>Body::SurfaceData\<close> and \<^verbatim>\<open>Body::LiftingSurfaceData\<close>: references to a surface and its
  boundary layer, and for a lifting surface also to the lifting surface and its wake.
  The boundary layer and the wake are addresses into the stores of the state.
\<close>

record surface_data =
  surface :: surface
  boundary_layer :: nat

record lifting_surface_data = surface_data +
  lifting_surface :: lifting_surface
  wake :: nat

record body =
  body_id :: string
  velocity :: vec3
  non_lifting_surfaces :: "surface_data list"
  lifting_surfaces :: "lifting_surface_data list"
  panel_kinematic_velocity :: "surface \<Rightarrow> nat \<Rightarrow> vec3"
  node_kinematic_velocity :: "surface \<Rightarrow> nat \<Rightarrow> vec3"

subsection \<open>What the solver calls and does not define\<close>

datatype computation_info = Success | NumericalIssue | NoConvergence | InvalidInput

record bicgstab =
  solution :: "real list"
  info :: computation_info
  iterations :: int
  error :: real

text \<open>
  The influence of one surface or wake on a panel of another surface, the wake's own
  updates, and \<^verbatim>\<open>solveWithGuess\<close> of a \<^verbatim>\<open>BiCGSTAB<MatrixXd>\<close> built from the matrix with
  the two tunables set (maximum iterations, tolerance, matrix, right-hand side, guess).
  \<open>uninitialized_Vector3d offset panel\<close> is the content of a default-constructed
  \<^verbatim>\<open>Vector3d\<close> local of \<^verbatim>\<open>compute_surface_velocity\<close>: Eigen leaves it uninitialised, so the
  value is whatever the call finds there.
\<close>

record externals =
  source_and_doublet_influence :: "surface \<Rightarrow> surface \<Rightarrow> nat \<Rightarrow> nat \<Rightarrow> real \<times> real"
  wake_vortex_ring_unit_velocity :: "wake \<Rightarrow> surface \<Rightarrow> nat \<Rightarrow> nat \<Rightarrow> vec3"
  wake_vortex_ring_unit_velocity_at :: "wake \<Rightarrow> vec3 \<Rightarrow> nat \<Rightarrow> vec3"
  wake_doublet_influence :: "wake \<Rightarrow> surface \<Rightarrow> nat \<Rightarrow> nat \<Rightarrow> real"
  wake_doublet_influence_at :: "wake \<Rightarrow> vec3 \<Rightarrow> nat \<Rightarrow> real"
  add_layer :: "wake \<Rightarrow> wake"
  update_properties :: "wake \<Rightarrow> real \<Rightarrow> wake"
  compute_geometry :: "wake \<Rightarrow> wake"
  solveWithGuess :: "int \<Rightarrow> real \<Rightarrow> real list list \<Rightarrow> real list \<Rightarrow> real list \<Rightarrow> bicgstab"
  uninitialized_Vector3d :: "nat \<Rightarrow> nat \<Rightarrow> vec3"

subsection \<open>The solver state\<close>

datatype cerr_item = Str string | Num int | Dbl real | Endl

record solver =
  log_folder :: string
  bodies :: "body list"
  non_wake_surfaces :: "surface_data list"
  surface_id_to_body :: "int \<rightharpoonup> body"
  n_non_wake_panels :: nat
  freestream_velocity :: vec3
  fluid_density :: real
  doublet_coefficients :: "real list"
  source_coefficients :: "real list"
  surface_velocity_potentials :: "real list"
  previous_surface_velocity_potentials :: "real list"
  surface_velocities :: "vec3 list"
  pressure_coefficients :: "real option list"
  wakes :: "nat \<Rightarrow> wake"
  boundary_layers :: "nat \<Rightarrow> boundary_layer_obj"
  cerr :: "cerr_item list"

subsection \<open>Per-panel queries\<close>

text \<open>
  Each query scans \<open>non_wake_surfaces\<close> for the surface, adding up panel counts, and
  returns its value together with what it writes to the standard error stream.
\<close>

fun surface_velocity_potential_scan ::
  "solver \<Rightarrow> surface \<Rightarrow> nat \<Rightarrow> surface_data list \<Rightarrow> nat \<Rightarrow> real \<times> cerr_item list" where
  "surface_velocity_potential_scan s sf panel [] offset =
     (0, [Str ''Solver::surface_velocity_potential():  Panel '', Num (int panel),
          Str '' not found on surface '', Num (surface_id sf), Str ''.'', Endl])"
| "surface_velocity_potential_scan s sf panel (d # ds) offset =
     (if addr sf = addr (surface d)
      then (surface_velocity_potentials s ! (offset + panel), [])
      else surface_velocity_potential_scan s sf panel ds (offset + n_panels (surface d)))"

definition surface_velocity_potential :: "solver \<Rightarrow> surface \<Rightarrow> nat \<Rightarrow> real \<times> cerr_item list" where
  "surface_velocity_potential s sf panel =
     surface_velocity_potential_scan s sf panel (non_wake_surfaces s) 0"

fun surface_velocity_scan ::
  "solver \<Rightarrow> surface \<Rightarrow> nat \<Rightarrow> surface_data list \<Rightarrow> nat \<Rightarrow> vec3 \<times> cerr_item list" where
  "surface_velocity_scan s sf panel [] offset =
     (Vector3d 0 0 0, [Str ''Solver::surface_velocity():  Panel '', Num (int panel),
          Str '' not found on surface '', Num (surface_id sf), Str ''.'', Endl])"
| "surface_velocity_scan s sf panel (d # ds) offset =
     (if addr sf = addr (surface d)
      then (surface_velocities s ! (offset + panel), [])
      else surface_velocity_scan s sf panel ds (offset + n_panels (surface d)))"

definition surface_velocity :: "solver \<Rightarrow> surface \<Rightarrow> nat \<Rightarrow> vec3 \<times> cerr_item list" where
  "surface_velocity s sf panel = surface_velocity_scan s sf panel (non_wake_surfaces s) 0"

fun pressure_coefficient_scan ::
  "solver \<Rightarrow> surface \<Rightarrow> nat \<Rightarrow> surface_data list \<Rightarrow> nat \<Rightarrow> real option \<times> cerr_item list" where
  "pressure_coefficient_scan s sf panel [] offset =
     (Some 0, [Str ''Solver::pressure_coefficient():  Panel '', Num (int panel),
          Str '' not found on surface '', Num (surface_id sf), Str ''.'', Endl])"
| "pressure_coefficient_scan s sf panel (d # ds) offset =
     (if addr sf = addr (surface d)
      then (pressure_coefficients s ! (offset + panel), [])
      else pressure_coefficient_scan s sf panel ds (offset + n_panels (surface d)))"

definition pressure_coefficient :: "solver \<Rightarrow> surface \<Rightarrow> nat \<Rightarrow> real option \<times> cerr_item list" where
  "pressure_coefficient s sf panel = pressure_coefficient_scan s sf panel (non_wake_surfaces s) 0"

subsection \<open>Source coefficient\<close>

text \<open>
  \<^verbatim>\<open>compute_source_coefficient\<close>. The wake loop runs over the bodies of the solver and
  their lifting surfaces, and for each over the wake panels below the newest strip.
\<close>

definition old_wake_panels :: "externals \<Rightarrow> solver \<Rightarrow> surface \<Rightarrow> nat \<Rightarrow> lifting_surface_data \<Rightarrow> vec3 \<Rightarrow> vec3" where
  "old_wake_panels g s sf panel d u =
     fold (\<lambda>k u.
             u - scale (wake_doublet_coefficients (wakes s (wake d)) ! k)
                          (wake_vortex_ring_unit_velocity g (wakes s (wake d)) sf panel k))
       [0 ..< wake_n_panels (wakes s (wake d)) - n_spanwise_panels (lifting_surface d)]
       u"

definition compute_source_coefficient ::
  "parameters \<Rightarrow> externals \<Rightarrow> solver \<Rightarrow> body \<Rightarrow> surface \<Rightarrow> nat \<Rightarrow> boundary_layer_obj \<Rightarrow> bool \<Rightarrow> real" where
  "compute_source_coefficient p g s body0 sf panel bl include_wake_influence =
     (let u = panel_kinematic_velocity body0 sf panel - freestream_velocity s;
          u =
            (if convect_wake p \<and> include_wake_influence
             then fold (\<lambda>body u.
                          fold (\<lambda>d u. old_wake_panels g s sf panel d u)
                            (lifting_surfaces body) u)
                    (bodies s) u
             else u);
          normal = panel_normal sf panel
      in dot u normal - blowing_velocity bl panel)"

subsection \<open>Disturbance velocity and potential at a point\<close>

definition surface_panels_velocity :: "solver \<Rightarrow> vec3 \<Rightarrow> surface_data \<Rightarrow> nat \<times> vec3 \<Rightarrow> nat \<times> vec3" where
  "surface_panels_velocity s x d = (\<lambda>(offset, gradient).
     (offset + n_panels (surface d),
      fold (\<lambda>i gradient.
              gradient
                + scale (doublet_coefficients s ! (offset + i)) (vortex_ring_unit_velocity (surface d) x i)
                + scale (source_coefficients s ! (offset + i)) (source_unit_velocity (surface d) x i))
        [0 ..< n_panels (surface d)] gradient))"

definition wake_panels_velocity :: "externals \<Rightarrow> solver \<Rightarrow> vec3 \<Rightarrow> lifting_surface_data \<Rightarrow> vec3 \<Rightarrow> vec3" where
  "wake_panels_velocity g s x d gradient =
     (if wake_n_panels (wakes s (wake d)) \<ge> n_spanwise_panels (lifting_surface d)
      then fold (\<lambda>i gradient.
                   gradient + scale (wake_doublet_coefficients (wakes s (wake d)) ! i)
                                (wake_vortex_ring_unit_velocity_at g (wakes s (wake d)) x i))
             [0 ..< wake_n_panels (wakes s (wake d))] gradient
      else gradient)"

definition compute_disturbance_velocity :: "externals \<Rightarrow> solver \<Rightarrow> vec3 \<Rightarrow> vec3" where
  "compute_disturbance_velocity g s x =
     (let gradient = snd (fold (surface_panels_velocity s x) (non_wake_surfaces s) (0, Vector3d 0 0 0))
      in fold (\<lambda>body gradient. fold (wake_panels_velocity g s x) (lifting_surfaces body) gradient)
           (bodies s) gradient)"

definition surface_panels_potential :: "solver \<Rightarrow> vec3 \<Rightarrow> surface_data \<Rightarrow> nat \<times> real \<Rightarrow> nat \<times> real" where
  "surface_panels_potential s x d = (\<lambda>(offset, phi).
     (offset + n_panels (surface d),
      fold (\<lambda>i phi.
              (case source_and_doublet_influence_at (surface d) x i of
                 (source_influence, doublet_influence) \<Rightarrow>
                   phi + doublet_influence * doublet_coefficients s ! (offset + i)
                       + source_influence * source_coefficients s ! (offset + i)))
        [0 ..< n_panels (surface d)] phi))"

definition wake_panels_potential :: "externals \<Rightarrow> solver \<Rightarrow> vec3 \<Rightarrow> lifting_surface_data \<Rightarrow> real \<Rightarrow> real" where
  "wake_panels_potential g s x d phi =
     fold (\<lambda>i phi. phi + wake_doublet_influence_at g (wakes s (wake d)) x i
                            * wake_doublet_coefficients (wakes s (wake d)) ! i)
       [0 ..< wake_n_panels (wakes s (wake d))] phi"

definition compute_disturbance_velocity_potential :: "externals \<Rightarrow> solver \<Rightarrow> vec3 \<Rightarrow> real" where
  "compute_disturbance_velocity_potential g s x =
     (let phi = snd (fold (surface_panels_potential s x) (non_wake_surfaces s) (0, 0))
      in fold (\<lambda>body phi. fold (wake_panels_potential g s x) (lifting_surfaces body) phi)
           (bodies s) phi)"

definition velocity_potential :: "externals \<Rightarrow> solver \<Rightarrow> vec3 \<Rightarrow> real" where
  "velocity_potential g s x = compute_disturbance_velocity_potential g s x + dot (freestream_velocity s) x"

definition stream_velocity :: "externals \<Rightarrow> solver \<Rightarrow> vec3 \<Rightarrow> vec3" where
  "stream_velocity g s x = compute_disturbance_velocity g s x + freestream_velocity s"

subsection \<open>Surface velocity, surface potential, pressure coefficient\<close>

text \<open>
  \<^verbatim>\<open>surface_id_to_body.find(id)->second\<close>: the body registered for a surface id. The source
  dereferences the iterator without a test; an id that was never registered is undefined
  behaviour there and an unspecified body here.
\<close>

definition body_of :: "solver \<Rightarrow> surface \<Rightarrow> body" where
  "body_of s sf = the (surface_id_to_body s (surface_id sf))"

text \<open>
  \<^verbatim>\<open>compute_surface_velocity\<close>. In the Marcov branch the source declares a second
  \<^verbatim>\<open>Vector3d tangential_velocity\<close> inside the braces: the disturbance velocity and the half
  gradient go to that inner variable, which ends with the block, and the outer variable,
  default-constructed and never assigned, is what the rest of the function reads.
\<close>

definition compute_surface_velocity :: "parameters \<Rightarrow> externals \<Rightarrow> solver \<Rightarrow> surface \<Rightarrow> nat \<Rightarrow> nat \<Rightarrow> vec3" where
  "compute_surface_velocity p g s sf offset panel =
     (let tangential_velocity = uninitialized_Vector3d g offset panel;
          tangential_velocity =
            (if marcov_surface_velocity p
             then (let x = panel_collocation_point sf panel False;
                       inner_tangential_velocity = compute_disturbance_velocity g s x;
                       inner_tangential_velocity =
                         inner_tangential_velocity
                           - scale (1 / 2) (scalar_field_gradient sf (doublet_coefficients s) offset panel)
                   in tangential_velocity)
             else - scalar_field_gradient sf (doublet_coefficients s) offset panel);
          body = body_of s sf;
          apparent_velocity = panel_kinematic_velocity body sf panel - freestream_velocity s;
          tangential_velocity = tangential_velocity - apparent_velocity;
          normal = panel_normal sf panel;
          tangential_velocity = tangential_velocity - scale (dot tangential_velocity normal) normal
      in tangential_velocity)"

definition compute_surface_velocity_potential :: "parameters \<Rightarrow> externals \<Rightarrow> solver \<Rightarrow> surface \<Rightarrow> nat \<Rightarrow> nat \<Rightarrow> real" where
  "compute_surface_velocity_potential p g s sf offset panel =
     (if marcov_surface_velocity p
      then velocity_potential g s (panel_collocation_point sf panel False)
      else (let phi = - doublet_coefficients s ! (offset + panel);
                body = body_of s sf;
                apparent_velocity = panel_kinematic_velocity body sf panel - freestream_velocity s;
                phi = phi - dot apparent_velocity (panel_collocation_point sf panel False)
            in phi))"

definition compute_surface_velocity_potential_time_derivative :: "parameters \<Rightarrow> solver \<Rightarrow> nat \<Rightarrow> nat \<Rightarrow> real \<Rightarrow> real" where
  "compute_surface_velocity_potential_time_derivative p s offset panel dt =
     (if unsteady_bernoulli p \<and> dt > 0
      then (surface_velocity_potentials s ! (offset + panel)
              - previous_surface_velocity_potentials s ! (offset + panel)) / dt
      else 0)"

definition compute_reference_velocity_squared :: "solver \<Rightarrow> body \<Rightarrow> real" where
  "compute_reference_velocity_squared s body = squaredNorm (velocity body - freestream_velocity s)"

text \<open>
  \<^verbatim>\<open>compute_pressure_coefficient\<close> divides by \<^verbatim>\<open>v_ref_squared\<close> without a test. A zero
  divisor gives a non-finite double: \<open>None\<close>.
\<close>

definition compute_pressure_coefficient :: "vec3 \<Rightarrow> real \<Rightarrow> real \<Rightarrow> real option" where
  "compute_pressure_coefficient surface_velocity0 dphidt v_ref_squared =
     (if v_ref_squared = 0 then None
      else (let C_p = 1 - (squaredNorm surface_velocity0 + 2 * dphidt) / v_ref_squared
            in Some C_p))"

definition compute_trailing_edge_vortex_displacement ::
  "parameters \<Rightarrow> solver \<Rightarrow> body \<Rightarrow> lifting_surface \<Rightarrow> nat \<Rightarrow> real \<Rightarrow> vec3" where
  "compute_trailing_edge_vortex_displacement p s body ls index dt =
     (let apparent_velocity =
            node_kinematic_velocity body (surface.truncate ls) (trailing_edge_node ls index)
              - freestream_velocity s;
          wake_velocity =
            (if wake_emission_follow_bisector p
             then scale (norm3 apparent_velocity) (trailing_edge_bisector ls index)
             else - apparent_velocity)
      in scale dt (scale (wake_emission_distance_factor p) wake_velocity))"

subsection \<open>The phases of \<^verbatim>\<open>solve\<close>\<close>

text \<open>
  Every loop over \<open>non_wake_surfaces\<close> carries the running \<^verbatim>\<open>offset\<close> of the surface in
  the global vectors. The source distribution, for \<^verbatim>\<open>include_wake_influence\<close> true (before
  the linear solve) or false (before the pressures).
\<close>

definition source_distribution_surface ::
  "parameters \<Rightarrow> externals \<Rightarrow> bool \<Rightarrow> surface_data \<Rightarrow> nat \<times> solver \<Rightarrow> nat \<times> solver" where
  "source_distribution_surface p g include_wake_influence d = (\<lambda>(offset, s).
     (let body = body_of s (surface d)
      in (offset + n_panels (surface d),
          fold (\<lambda>i s. s\<lparr>source_coefficients := (source_coefficients s)
                          [offset + i := compute_source_coefficient p g s body (surface d) i
                                           (boundary_layers s (boundary_layer d)) include_wake_influence]\<rparr>)
            [0 ..< n_panels (surface d)] s)))"

definition compute_source_distribution :: "parameters \<Rightarrow> externals \<Rightarrow> bool \<Rightarrow> solver \<Rightarrow> solver" where
  "compute_source_distribution p g include_wake_influence s =
     snd (fold (source_distribution_surface p g include_wake_influence) (non_wake_surfaces s) (0, s))"

text \<open>
  The matrices of influence coefficients, as lists of rows. \<^verbatim>\<open>MatrixXd A(n, n)\<close> starts
  uninitialised in the source and every entry of it is assigned by the first loop nest when
  the panel counts add up to \<open>n_non_wake_panels\<close>; here it starts at zero.
\<close>

type_synonym matrix = "real list list"

definition coeff :: "matrix \<Rightarrow> nat \<Rightarrow> nat \<Rightarrow> real" where
  "coeff A r c = A ! r ! c"

definition set_coeff :: "matrix \<Rightarrow> nat \<Rightarrow> nat \<Rightarrow> real \<Rightarrow> matrix" where
  "set_coeff A r c v = A[r := (A ! r)[c := v]]"

definition influence_block ::
  "externals \<Rightarrow> surface_data \<Rightarrow> nat \<Rightarrow> surface_data \<Rightarrow> nat \<times> matrix \<times> matrix \<Rightarrow> nat \<times> matrix \<times> matrix" where
  "influence_block g d_row offset_row d_col = (\<lambda>(offset_col, source_influence_coefficients, A).
     (offset_col + n_panels (surface d_col),
      fold (\<lambda>i. fold (\<lambda>j (source_influence_coefficients, A).
                        (case source_and_doublet_influence g (surface d_col) (surface d_row) i j of
                           (source_influence, doublet_influence) \<Rightarrow>
                             (set_coeff source_influence_coefficients (offset_row + i) (offset_col + j) source_influence,
                              set_coeff A (offset_row + i) (offset_col + j) doublet_influence)))
                   [0 ..< n_panels (surface d_col)])
        [0 ..< n_panels (surface d_row)] (source_influence_coefficients, A)))"

definition new_wake_panels_influence ::
  "externals \<Rightarrow> solver \<Rightarrow> surface_data \<Rightarrow> nat \<Rightarrow> nat \<Rightarrow> lifting_surface_data \<Rightarrow> nat \<times> matrix \<Rightarrow> nat \<times> matrix" where
  "new_wake_panels_influence g s d_row offset_row i d = (\<lambda>(lifting_surface_offset, A).
     (let wake_panel_offset = wake_n_panels (wakes s (wake d)) - n_spanwise_panels (lifting_surface d)
      in (lifting_surface_offset + n_panels (lifting_surface d),
          fold (\<lambda>j A.
                  (let pa = trailing_edge_upper_panel (lifting_surface d) j;
                       pb = trailing_edge_lower_panel (lifting_surface d) j;
                       A = set_coeff A (offset_row + i) (lifting_surface_offset + pa)
                             (coeff A (offset_row + i) (lifting_surface_offset + pa)
                                + wake_doublet_influence g (wakes s (wake d)) (surface d_row) i (wake_panel_offset + j));
                       A = set_coeff A (offset_row + i) (lifting_surface_offset + pb)
                             (coeff A (offset_row + i) (lifting_surface_offset + pb)
                                - wake_doublet_influence g (wakes s (wake d)) (surface d_row) i (wake_panel_offset + j))
                   in A))
            [0 ..< n_spanwise_panels (lifting_surface d)] A)))"

definition new_wake_influence_row :: "externals \<Rightarrow> solver \<Rightarrow> surface_data \<Rightarrow> nat \<Rightarrow> nat \<Rightarrow> matrix \<Rightarrow> matrix" where
  "new_wake_influence_row g s d_row offset_row i A =
     snd (fold (\<lambda>body (lifting_surface_offset, A).
                  fold (new_wake_panels_influence g s d_row offset_row i) (lifting_surfaces body)
                    (fold (\<lambda>d lifting_surface_offset. lifting_surface_offset + n_panels (surface d))
                       (non_lifting_surfaces body) lifting_surface_offset, A))
            (bodies s) (0, A))"

definition influence_rows ::
  "externals \<Rightarrow> solver \<Rightarrow> surface_data \<Rightarrow> nat \<times> matrix \<times> matrix \<Rightarrow> nat \<times> matrix \<times> matrix" where
  "influence_rows g s d_row = (\<lambda>(offset_row, source_influence_coefficients, A).
     (case snd (fold (influence_block g d_row offset_row) (non_wake_surfaces s)
                  (0, source_influence_coefficients, A)) of
        (source_influence_coefficients, A) \<Rightarrow>
          (offset_row + n_panels (surface d_row),
           source_influence_coefficients,
           fold (new_wake_influence_row g s d_row offset_row) [0 ..< n_panels (surface d_row)] A)))"

definition influence_coefficients :: "externals \<Rightarrow> solver \<Rightarrow> matrix \<times> matrix" where
  "influence_coefficients g s =
     (let A = replicate (n_non_wake_panels s) (replicate (n_non_wake_panels s) 0);
          source_influence_coefficients = replicate (n_non_wake_panels s) (replicate (n_non_wake_panels s) 0)
      in (case snd (fold (influence_rows g s) (non_wake_surfaces s) (0, source_influence_coefficients, A)) of
            (source_influence_coefficients, A) \<Rightarrow> (A, source_influence_coefficients)))"

text \<open>The matrix-vector product and the Euclidean norm of a difference of vectors.\<close>

definition matrix_times_vector :: "matrix \<Rightarrow> real list \<Rightarrow> real list" where
  "matrix_times_vector M v = map (\<lambda>row. \<Sum>(a, x) \<leftarrow> zip row v. a * x) M"

definition difference_norm :: "real list \<Rightarrow> real list \<Rightarrow> real" where
  "difference_norm xs ys = sqrt (\<Sum>(x, y) \<leftarrow> zip xs ys. (x - y)\<^sup>2)"

text \<open>
  The Kutta closure: the newest strip of every wake takes the jump of the doublet
  coefficients across the trailing edge. The offset runs over the bodies, past the
  non-lifting surfaces of each body first.
\<close>

definition wake_doublet_lifting_surface :: "lifting_surface_data \<Rightarrow> nat \<times> solver \<Rightarrow> nat \<times> solver" where
  "wake_doublet_lifting_surface d = (\<lambda>(offset, s).
     (offset + n_panels (lifting_surface d),
      fold (\<lambda>i s.
              (let doublet_coefficient_top =
                     doublet_coefficients s ! (offset + trailing_edge_upper_panel (lifting_surface d) i);
                   doublet_coefficient_bottom =
                     doublet_coefficients s ! (offset + trailing_edge_lower_panel (lifting_surface d) i);
                   doublet_coefficient = doublet_coefficient_top - doublet_coefficient_bottom;
                   idx = wake_n_panels (wakes s (wake d)) - n_spanwise_panels (lifting_surface d) + i
               in s\<lparr>wakes := (wakes s)(wake d := (wakes s (wake d))
                       \<lparr>wake_doublet_coefficients :=
                          (wake_doublet_coefficients (wakes s (wake d)))[idx := doublet_coefficient]\<rparr>)\<rparr>))
        [0 ..< n_spanwise_panels (lifting_surface d)] s))"

definition wake_doublet_body :: "body \<Rightarrow> nat \<times> solver \<Rightarrow> nat \<times> solver" where
  "wake_doublet_body body = (\<lambda>(offset, s).
     fold wake_doublet_lifting_surface (lifting_surfaces body)
       (fold (\<lambda>d offset. offset + n_panels (surface d)) (non_lifting_surfaces body) offset, s))"

definition update_wake_doublet_distribution :: "solver \<Rightarrow> solver" where
  "update_wake_doublet_distribution s = snd (fold wake_doublet_body (bodies s) (0, s))"

text \<open>The surface velocity distribution.\<close>

definition surface_velocity_surface :: "parameters \<Rightarrow> externals \<Rightarrow> surface_data \<Rightarrow> nat \<times> solver \<Rightarrow> nat \<times> solver" where
  "surface_velocity_surface p g d = (\<lambda>(offset, s).
     (offset + n_panels (surface d),
      fold (\<lambda>i s. s\<lparr>surface_velocities := (surface_velocities s)
                      [offset + i := compute_surface_velocity p g s (surface d) offset i]\<rparr>)
        [0 ..< n_panels (surface d)] s))"

definition compute_surface_velocity_distribution :: "parameters \<Rightarrow> externals \<Rightarrow> solver \<Rightarrow> solver" where
  "compute_surface_velocity_distribution p g s =
     snd (fold (surface_velocity_surface p g) (non_wake_surfaces s) (0, s))"

text \<open>
  The boundary layers: every surface whose boundary layer is not the dummy one recalculates
  it from its block of rows of the surface velocities; the flag tells whether one was found.
\<close>

definition recalculate_surface :: "surface_data \<Rightarrow> nat \<times> bool \<times> solver \<Rightarrow> nat \<times> bool \<times> solver" where
  "recalculate_surface d = (\<lambda>(offset, have_boundary_layer, s).
     (if boundary_layers s (boundary_layer d) \<noteq> DummyBoundaryLayer
      then (offset + n_panels (surface d), True,
            s\<lparr>boundary_layers := (boundary_layers s)(boundary_layer d :=
                 recalculate (boundary_layers s (boundary_layer d))
                   (take (n_panels (surface d)) (drop offset (surface_velocities s))))\<rparr>)
      else (offset + n_panels (surface d), have_boundary_layer, s)))"

definition recompute_boundary_layers :: "solver \<Rightarrow> bool \<times> solver" where
  "recompute_boundary_layers s = snd (fold recalculate_surface (non_wake_surfaces s) (0, False, s))"

text \<open>The pressure distribution, and the step forward in time.\<close>

definition pressure_surface :: "parameters \<Rightarrow> externals \<Rightarrow> real \<Rightarrow> surface_data \<Rightarrow> nat \<times> solver \<Rightarrow> nat \<times> solver" where
  "pressure_surface p g dt d = (\<lambda>(offset, s).
     (let body = body_of s (surface d);
          v_ref_squared = compute_reference_velocity_squared s body
      in (offset + n_panels (surface d),
          fold (\<lambda>i s.
                  (let s = s\<lparr>surface_velocity_potentials := (surface_velocity_potentials s)
                                [offset + i := compute_surface_velocity_potential p g s (surface d) offset i]\<rparr>;
                       dphidt = compute_surface_velocity_potential_time_derivative p s offset i dt
                   in s\<lparr>pressure_coefficients := (pressure_coefficients s)
                          [offset + i := compute_pressure_coefficient
                                           (surface_velocities s ! (offset + i)) dphidt v_ref_squared]\<rparr>))
            [0 ..< n_panels (surface d)] s)))"

definition compute_pressure_distribution :: "parameters \<Rightarrow> externals \<Rightarrow> real \<Rightarrow> solver \<Rightarrow> solver" where
  "compute_pressure_distribution p g dt s =
     snd (fold (pressure_surface p g dt) (non_wake_surfaces s) (0, s))"

definition propagate :: "solver \<Rightarrow> solver" where
  "propagate s = s\<lparr>previous_surface_velocity_potentials := surface_velocity_potentials s\<rparr>"

subsection \<open>\<^verbatim>\<open>solve\<close>\<close>

text \<open>
  The doublet distribution: the right-hand side, the \<^verbatim>\<open>BiCGSTAB\<close> object with its two
  tunables, and \<^verbatim>\<open>solveWithGuess\<close> from the present doublet coefficients.
\<close>

definition compute_doublet_distribution :: "parameters \<Rightarrow> externals \<Rightarrow> solver \<Rightarrow> bicgstab" where
  "compute_doublet_distribution p g s =
     (case influence_coefficients g s of
        (A, source_influence_coefficients) \<Rightarrow>
          (let b = matrix_times_vector source_influence_coefficients (source_coefficients s)
           in solveWithGuess g (linear_solver_max_iterations p) (linear_solver_tolerance p)
                A b (doublet_coefficients s)))"

text \<open>
  One pass of the \<^verbatim>\<open>while (true)\<close> loop of \<^verbatim>\<open>solve\<close>, for the value of
  \<^verbatim>\<open>boundary_layer_iteration\<close> it starts with. It ends in \<^verbatim>\<open>return false\<close>, in one of the
  three \<^verbatim>\<open>break\<close>s, or at the end of the loop body, where the counter is increased.
\<close>

datatype pass_end = Return_false solver | Break solver | Continue solver

definition boundary_layer_pass :: "parameters \<Rightarrow> externals \<Rightarrow> int \<Rightarrow> solver \<Rightarrow> pass_end" where
  "boundary_layer_pass p g boundary_layer_iteration s =
     (let s = compute_source_distribution p g True s;
          linear_solver = compute_doublet_distribution p g s;
          new_doublet_coefficients = solution linear_solver
      in if info linear_solver \<noteq> Success
         then Return_false
                (s\<lparr>cerr := cerr s @
                     [Str ''Solver: Computing doublet distribution failed ('', Num (iterations linear_solver),
                      Str '' iterations with estimated error='', Dbl (error linear_solver), Str '').'', Endl]\<rparr>)
         else (let converged =
                     (boundary_layer_iteration > 0
                      \<and> difference_norm new_doublet_coefficients (doublet_coefficients s)
                          < boundary_layer_iteration_tolerance p);
                   s = s\<lparr>doublet_coefficients := new_doublet_coefficients\<rparr>;
                   s = update_wake_doublet_distribution s;
                   s = compute_surface_velocity_distribution p g s
               in if converged then Break s
                  else if boundary_layer_iteration > max_boundary_layer_iterations p then Break s
                  else (case recompute_boundary_layers s of
                          (have_boundary_layer, s) \<Rightarrow>
                            if \<not> have_boundary_layer then Break s else Continue s)))"

lemma boundary_layer_pass_Continue_below_cap:
  "boundary_layer_pass p g boundary_layer_iteration s = Continue s' \<Longrightarrow>
   boundary_layer_iteration \<le> max_boundary_layer_iterations p"
  unfolding boundary_layer_pass_def Let_def
  by (simp split: if_splits prod.splits)

text \<open>
  The loop. The result is the value \<^verbatim>\<open>solve\<close> returns from inside the loop (\<open>False\<close>) or
  the fact that the loop was left by a \<^verbatim>\<open>break\<close> (\<open>True\<close>), the value of the counter at
  that moment, and the state. The counter is an unbounded integer here; the source's
  \<^verbatim>\<open>int\<close> cannot overflow as long as \<^verbatim>\<open>max_boundary_layer_iterations\<close> is below
  the largest \<^verbatim>\<open>int\<close>.
\<close>

function solve_loop :: "parameters \<Rightarrow> externals \<Rightarrow> int \<Rightarrow> solver \<Rightarrow> bool \<times> int \<times> solver" where
  "solve_loop p g boundary_layer_iteration s =
     (case boundary_layer_pass p g boundary_layer_iteration s of
        Return_false s \<Rightarrow> (False, boundary_layer_iteration, s)
      | Break s \<Rightarrow> (True, boundary_layer_iteration, s)
      | Continue s \<Rightarrow> solve_loop p g (boundary_layer_iteration + 1) s)"
  by pat_completeness auto
termination
  by (relation "measure (\<lambda>(p, g, boundary_layer_iteration, s).
                  nat (max_boundary_layer_iterations p + 1 - boundary_layer_iteration))")
     (auto dest: boundary_layer_pass_Continue_below_cap)

definition solve :: "parameters \<Rightarrow> externals \<Rightarrow> real \<Rightarrow> bool \<Rightarrow> solver \<Rightarrow> bool \<times> solver" where
  "solve p g dt propagate0 s =
     (case solve_loop p g 0 s of
        (left_by_break, boundary_layer_iteration, s) \<Rightarrow>
          if \<not> left_by_break then (False, s)
          else (let s = (if convect_wake p then compute_source_distribution p g False s else s);
                    s = compute_pressure_distribution p g dt s;
                    s = (if propagate0 then propagate s else s)
                in (True, s)))"

text \<open>
  The passes a call of \<^verbatim>\<open>solve\<close> on \<open>s0\<close> enters: the first with counter 0 in \<open>s0\<close>, and
  the next one after every pass that reaches the end of the loop body.
\<close>

inductive enters_pass :: "parameters \<Rightarrow> externals \<Rightarrow> solver \<Rightarrow> int \<Rightarrow> solver \<Rightarrow> bool"
  for p :: parameters and g :: externals and s0 :: solver where
  first_pass: "enters_pass p g s0 0 s0"
| next_pass: "enters_pass p g s0 boundary_layer_iteration s \<Longrightarrow>
              boundary_layer_pass p g boundary_layer_iteration s = Continue s' \<Longrightarrow>
              enters_pass p g s0 (boundary_layer_iteration + 1) s'"

subsection \<open>\<^verbatim>\<open>update_wakes\<close>\<close>

text \<open>
  With wake convection: first the stream velocity at every node of every wake, in the
  order of the bodies and their lifting surfaces, all sampled in the state the call
  starts from; then, wake by wake, the nodes of the newest strip move by the trailing-edge
  displacement, the other nodes by their sampled velocity times \<^verbatim>\<open>dt\<close>, the wake updates
  its properties and adds a layer.
\<close>

definition sample_wake_velocities :: "externals \<Rightarrow> solver \<Rightarrow> vec3 list list" where
  "sample_wake_velocities g s =
     concat (map (\<lambda>body.
                    map (\<lambda>d. map (\<lambda>i. stream_velocity g s (wake_nodes (wakes s (wake d)) ! i))
                                [0 ..< length (wake_nodes (wakes s (wake d)))])
                      (lifting_surfaces body))
               (bodies s))"

definition add_to_wake_node :: "nat \<Rightarrow> nat \<Rightarrow> vec3 \<Rightarrow> solver \<Rightarrow> solver" where
  "add_to_wake_node w i v s =
     s\<lparr>wakes := (wakes s)(w := (wakes s w)
          \<lparr>wake_nodes := (wake_nodes (wakes s w))[i := wake_nodes (wakes s w) ! i + v]\<rparr>)\<rparr>"

definition convect_wake_lifting_surface ::
  "parameters \<Rightarrow> externals \<Rightarrow> real \<Rightarrow> vec3 list list \<Rightarrow> body \<Rightarrow> lifting_surface_data \<Rightarrow> nat \<times> solver \<Rightarrow> nat \<times> solver" where
  "convect_wake_lifting_surface p g dt wake_velocities body d = (\<lambda>(idx, s).
     (let local_wake_velocities = wake_velocities ! idx;
          idx = idx + 1;
          s = fold (\<lambda>i s.
                      add_to_wake_node (wake d)
                        (length (wake_nodes (wakes s (wake d))) - n_spanwise_nodes (lifting_surface d) + i)
                        (compute_trailing_edge_vortex_displacement p s body (lifting_surface d) i dt) s)
                [0 ..< n_spanwise_nodes (lifting_surface d)] s;
          s = fold (\<lambda>i s. add_to_wake_node (wake d) i (scale dt (local_wake_velocities ! i)) s)
                [0 ..< length (wake_nodes (wakes s (wake d))) - n_spanwise_nodes (lifting_surface d)] s;
          s = s\<lparr>wakes := (wakes s)(wake d := update_properties g (wakes s (wake d)) dt)\<rparr>;
          s = s\<lparr>wakes := (wakes s)(wake d := add_layer g (wakes s (wake d)))\<rparr>
      in (idx, s)))"

definition convect_wakes :: "parameters \<Rightarrow> externals \<Rightarrow> real \<Rightarrow> solver \<Rightarrow> solver" where
  "convect_wakes p g dt s =
     (let wake_velocities = sample_wake_velocities g s
      in snd (fold (\<lambda>body. fold (convect_wake_lifting_surface p g dt wake_velocities body)
                               (lifting_surfaces body))
                (bodies s) (0, s)))"

text \<open>
  Without wake convection every wake is put back behind the trailing edge, at the distance
  \<^verbatim>\<open>static_wake_length\<close> along the normalised apparent velocity of the body. The source
  divides by the norm of that velocity without a test: when it is zero and a node is
  written, the nodes become non-finite and the result here is \<open>None\<close>.
\<close>

definition reposition_wake :: "parameters \<Rightarrow> externals \<Rightarrow> vec3 \<Rightarrow> lifting_surface_data \<Rightarrow> solver \<Rightarrow> solver option" where
  "reposition_wake p g body_apparent_velocity d s =
     (if n_spanwise_nodes (lifting_surface d) > 0 \<and> norm3 body_apparent_velocity = 0 then None
      else (let s = fold (\<lambda>i s.
                            (let te = nodes (lifting_surface d) ! trailing_edge_node (lifting_surface d) i;
                                 w = wakes s (wake d);
                                 w = w\<lparr>wake_nodes := (wake_nodes w)[n_spanwise_nodes (lifting_surface d) + i := te]\<rparr>;
                                 w = w\<lparr>wake_nodes := (wake_nodes w)
                                        [i := te - scale (static_wake_length p / norm3 body_apparent_velocity)
                                                     body_apparent_velocity]\<rparr>
                             in s\<lparr>wakes := (wakes s)(wake d := w)\<rparr>))
                     [0 ..< n_spanwise_nodes (lifting_surface d)] s
            in Some (s\<lparr>wakes := (wakes s)(wake d := compute_geometry g (wakes s (wake d)))\<rparr>)))"

fun reposition_wakes :: "parameters \<Rightarrow> externals \<Rightarrow> vec3 \<Rightarrow> lifting_surface_data list \<Rightarrow> solver \<Rightarrow> solver option" where
  "reposition_wakes p g body_apparent_velocity [] s = Some s"
| "reposition_wakes p g body_apparent_velocity (d # ds) s =
     (case reposition_wake p g body_apparent_velocity d s of
        None \<Rightarrow> None
      | Some s \<Rightarrow> reposition_wakes p g body_apparent_velocity ds s)"

fun reposition_bodies :: "parameters \<Rightarrow> externals \<Rightarrow> body list \<Rightarrow> solver \<Rightarrow> solver option" where
  "reposition_bodies p g [] s = Some s"
| "reposition_bodies p g (body # bs) s =
     (case reposition_wakes p g (velocity body - freestream_velocity s) (lifting_surfaces body) s of
        None \<Rightarrow> None
      | Some s \<Rightarrow> reposition_bodies p g bs s)"

definition update_wakes :: "parameters \<Rightarrow> externals \<Rightarrow> real \<Rightarrow> solver \<Rightarrow> solver option" where
  "update_wakes p g dt s =
     (if convect_wake p then Some (convect_wakes p g dt s)
      else reposition_bodies p g (bodies s) s)"

subsection \<open>Notions used to state the properties\<close>

text \<open>
  The offset of lifting surface \<open>l\<close> of body \<open>b\<close> in the global vectors: the panels of all
  surfaces of the bodies before \<open>b\<close>, of the non-lifting surfaces of \<open>b\<close>, and of the
  lifting surfaces of \<open>b\<close> before \<open>l\<close>.
\<close>

definition body_panels :: "body \<Rightarrow> nat" where
  "body_panels body =
     (\<Sum>d\<leftarrow>non_lifting_surfaces body. n_panels (surface d))
       + (\<Sum>d\<leftarrow>lifting_surfaces body. n_panels (lifting_surface d))"

definition lifting_surface_offset :: "body list \<Rightarrow> nat \<Rightarrow> nat \<Rightarrow> nat" where
  "lifting_surface_offset bs b l =
     (\<Sum>body\<leftarrow>take b bs. body_panels body)
       + (\<Sum>d\<leftarrow>non_lifting_surfaces (bs ! b). n_panels (surface d))
       + (\<Sum>d\<leftarrow>take l (lifting_surfaces (bs ! b)). n_panels (lifting_surface d))"

text \<open>The offset of the surface at position \<open>j\<close> of \<open>non_wake_surfaces\<close>.\<close>

definition surface_offset :: "surface_data list \<Rightarrow> nat \<Rightarrow> nat" where
  "surface_offset ds j = (\<Sum>d\<leftarrow>take j ds. n_panels (surface d))"

text \<open>
  A wake fits its lifting surface when it holds at least one strip and a doublet
  coefficient for each of its panels. The Kutta relation of the newest strip of a wake, for
  the doublet vector \<open>mu\<close> and the lifting surface at \<open>offset\<close>.
\<close>

definition wake_fits :: "lifting_surface_data \<Rightarrow> wake \<Rightarrow> bool" where
  "wake_fits d w \<longleftrightarrow>
     n_spanwise_panels (lifting_surface d) \<le> wake_n_panels w
     \<and> wake_n_panels w \<le> length (wake_doublet_coefficients w)"

definition kutta_strip :: "real list \<Rightarrow> nat \<Rightarrow> lifting_surface_data \<Rightarrow> wake \<Rightarrow> bool" where
  "kutta_strip mu offset d w \<longleftrightarrow>
     (\<forall>k < n_spanwise_panels (lifting_surface d).
        wake_doublet_coefficients w ! (wake_n_panels w - n_spanwise_panels (lifting_surface d) + k)
          = mu ! (offset + trailing_edge_upper_panel (lifting_surface d) k)
              - mu ! (offset + trailing_edge_lower_panel (lifting_surface d) k))"

text \<open>The state in which a pass of the loop ends.\<close>

fun state_of :: "pass_end \<Rightarrow> solver" where
  "state_of (Return_false s) = s"
| "state_of (Break s) = s"
| "state_of (Continue s) = s"

text \<open>
  The wake of lifting surface \<open>d\<close> of \<open>body\<close> after one convection step from the state \<open>s\<close>,
  given the velocities \<open>local_wake_velocities\<close> for its nodes: the nodes below the newest
  strip moved by their velocity times \<open>dt\<close>, the nodes of the newest strip by the
  trailing-edge displacement, then the wake's own update and a new layer.
\<close>

definition convected_wake ::
  "parameters \<Rightarrow> externals \<Rightarrow> real \<Rightarrow> solver \<Rightarrow> body \<Rightarrow> lifting_surface_data \<Rightarrow> vec3 list \<Rightarrow> wake" where
  "convected_wake p g dt s body d local_wake_velocities =
     (let w = wakes s (wake d);
          n = length (wake_nodes w);
          m = n - n_spanwise_nodes (lifting_surface d)
      in add_layer g
           (update_properties g
              (w\<lparr>wake_nodes :=
                   map (\<lambda>i. if i < m then wake_nodes w ! i + scale dt (local_wake_velocities ! i)
                            else wake_nodes w ! i
                                   + compute_trailing_edge_vortex_displacement p s body (lifting_surface d) (i - m) dt)
                     [0 ..< n]\<rparr>)
              dt))"

text \<open>
  The surface velocity of the Marcov formula in the words of the specification: the
  disturbance velocity at the collocation point, minus one half of the surface gradient of
  the doublet coefficients, minus the apparent velocity of the panel, with the component
  along the panel normal projected out.
\<close>

definition specified_marcov_surface_velocity :: "externals \<Rightarrow> solver \<Rightarrow> surface \<Rightarrow> nat \<Rightarrow> nat \<Rightarrow> vec3" where
  "specified_marcov_surface_velocity g s sf offset panel =
     (let v = compute_disturbance_velocity g s (panel_collocation_point sf panel False)
                - scale (1 / 2) (scalar_field_gradient sf (doublet_coefficients s) offset panel);
          v = v - (panel_kinematic_velocity (body_of s sf) sf panel - freestream_velocity s);
          normal = panel_normal sf panel
      in v - scale (dot v normal) normal)"


subsection \<open>A small configuration\<close>

text \<open>
  One body moving at unit speed against the x axis in still fluid, with one non-lifting
  surface of two panels and one lifting surface of two panels (one spanwise station, its
  upper panel 0, its lower panel 1) whose wake holds an old strip and the newest strip.
\<close>

definition example_surface :: "nat \<Rightarrow> int \<Rightarrow> surface" where
  "example_surface a i =
     \<lparr>addr = a, surface_id = i, n_panels = 2, n_nodes = 4,
      nodes = [Vector3d 0 0 0, Vector3d 1 0 0, Vector3d 1 1 0, Vector3d 0 1 0],
      panel_normal = (\<lambda>panel. Vector3d 0 0 1),
      panel_collocation_point = (\<lambda>panel above. Vector3d (real panel) 0 0),
      scalar_field_gradient = (\<lambda>mu offset panel. Vector3d (mu ! (offset + panel)) 0 0),
      vortex_ring_unit_velocity = (\<lambda>x panel. Vector3d 0 0 1),
      source_unit_velocity = (\<lambda>x panel. Vector3d 1 0 0),
      source_and_doublet_influence_at = (\<lambda>x panel. (1, 2))\<rparr>"

definition example_lifting_surface :: "nat \<Rightarrow> int \<Rightarrow> lifting_surface" where
  "example_lifting_surface a i =
     surface.extend (example_surface a i)
       (lifting_surface.fields 1 2 (\<lambda>k. 0) (\<lambda>k. 1) (\<lambda>k. k) (\<lambda>k. Vector3d 1 0 0))"

definition example_wake :: wake where
  "example_wake =
     \<lparr>wake_id = 30,
      wake_nodes = [Vector3d 3 0 0, Vector3d 3 1 0, Vector3d 2 0 0, Vector3d 2 1 0,
                    Vector3d 1 0 0, Vector3d 1 1 0],
      wake_n_panels = 2,
      wake_doublet_coefficients = [5, 0]\<rparr>"

definition example_non_lifting_data :: surface_data where
  "example_non_lifting_data = \<lparr>surface = example_surface 1 10, boundary_layer = 0\<rparr>"

definition example_lifting_data :: lifting_surface_data where
  "example_lifting_data =
     \<lparr>surface = surface.truncate (example_lifting_surface 2 20), boundary_layer = 1,
      lifting_surface = example_lifting_surface 2 20, wake = 0\<rparr>"

definition example_body :: body where
  "example_body =
     \<lparr>body_id = ''wing'', velocity = Vector3d (- 1) 0 0,
      non_lifting_surfaces = [example_non_lifting_data],
      lifting_surfaces = [example_lifting_data],
      panel_kinematic_velocity = (\<lambda>sf panel. Vector3d (- 1) 0 0),
      node_kinematic_velocity = (\<lambda>sf node. Vector3d (- 1) 0 0)\<rparr>"

definition example_solver :: solver where
  "example_solver =
     \<lparr>log_folder = ''log'',
      bodies = [example_body],
      non_wake_surfaces = [example_non_lifting_data, surface_data.truncate example_lifting_data],
      surface_id_to_body = [10 \<mapsto> example_body, 20 \<mapsto> example_body, 30 \<mapsto> example_body],
      n_non_wake_panels = 4,
      freestream_velocity = Vector3d 0 0 0,
      fluid_density = 1,
      doublet_coefficients = [1, 2, 7, 3],
      source_coefficients = [0, 0, 0, 0],
      surface_velocity_potentials = [0, 0, 0, 0],
      previous_surface_velocity_potentials = [0, 0, 0, 0],
      surface_velocities = [Vector3d 0 0 0, Vector3d 0 0 0, Vector3d 0 0 0, Vector3d 0 0 0],
      pressure_coefficients = [Some 0, Some 0, Some 0, Some 0],
      wakes = (\<lambda>a. example_wake),
      boundary_layers = (\<lambda>a. DummyBoundaryLayer),
      cerr = []\<rparr>"

definition example_parameters :: parameters where
  "example_parameters =
     \<lparr>convect_wake = True, static_wake_length = 100,
      wake_emission_follow_bisector = False, wake_emission_distance_factor = 1 / 4,
      unsteady_bernoulli = True, marcov_surface_velocity = False,
      max_boundary_layer_iterations = 2, boundary_layer_iteration_tolerance = 1 / 1000,
      linear_solver_max_iterations = 100, linear_solver_tolerance = 1 / 1000000\<rparr>"

text \<open>
  Externals whose linear solver reports the given \<open>info\<close> after three iterations, with
  estimated error one eighth, and returns the right-hand side as the solution.
\<close>

definition example_externals :: "computation_info \<Rightarrow> externals" where
  "example_externals reported =
     \<lparr>source_and_doublet_influence = (\<lambda>sf observer i j. (if i = j then 1 else 0, 1 / 2)),
      wake_vortex_ring_unit_velocity = (\<lambda>w sf panel k. Vector3d 0 0 1),
      wake_vortex_ring_unit_velocity_at = (\<lambda>w x k. Vector3d 0 0 (1 / 10)),
      wake_doublet_influence = (\<lambda>w sf i k. 1 / 4),
      wake_doublet_influence_at = (\<lambda>w x k. 0),
      add_layer = (\<lambda>w. w\<lparr>wake_nodes := wake_nodes w @ [Vector3d 0 0 0, Vector3d 0 1 0],
                            wake_n_panels := wake_n_panels w + 1,
                            wake_doublet_coefficients := wake_doublet_coefficients w @ [0]\<rparr>),
      update_properties = (\<lambda>w dt. w),
      compute_geometry = (\<lambda>w. w),
      solveWithGuess = (\<lambda>max_iterations tolerance A b guess.
                          \<lparr>solution = b, info = reported, iterations = 3, error = 1 / 8\<rparr>),
      uninitialized_Vector3d = (\<lambda>offset panel. Vector3d 9 9 9)\<rparr>"

text \<open>
  The same configuration at rest in still fluid: the body and its panels and nodes do not
  move, and every coefficient of the surfaces and of the wake starts at zero.
\<close>

definition example_body_at_rest :: body where
  "example_body_at_rest =
     example_body\<lparr>velocity := Vector3d 0 0 0,
       panel_kinematic_velocity := (\<lambda>sf panel. Vector3d 0 0 0),
       node_kinematic_velocity := (\<lambda>sf node. Vector3d 0 0 0)\<rparr>"

definition example_solver_at_rest :: solver where
  "example_solver_at_rest =
     example_solver\<lparr>bodies := [example_body_at_rest],
       surface_id_to_body := [10 \<mapsto> example_body_at_rest, 20 \<mapsto> example_body_at_rest,
                              30 \<mapsto> example_body_at_rest],
       doublet_coefficients := [0, 0, 0, 0],
       wakes := (\<lambda>a. example_wake\<lparr>wake_doublet_coefficients := [0, 0]\<rparr>)\<rparr>"




section \<open>Properties\<close>

subsection \<open>Source coefficient\<close>

lemma fold_minus_sum_list:
  fixes u :: vec3
  shows "fold (\<lambda>k u. u - f k) xs u = u - (\<Sum>k\<leftarrow>xs. f k)"
  by (induction xs arbitrary: u) (simp_all add: diff_diff_eq)

lemma old_wake_panels_sum:
  "old_wake_panels g s sf panel d u =
     u - (\<Sum>k\<leftarrow>[0 ..< wake_n_panels (wakes s (wake d)) - n_spanwise_panels (lifting_surface d)].
            scale (wake_doublet_coefficients (wakes s (wake d)) ! k)
              (wake_vortex_ring_unit_velocity g (wakes s (wake d)) sf panel k))"
  unfolding old_wake_panels_def by (rule fold_minus_sum_list)

lemma fold_old_wake_panels_sum:
  "fold (\<lambda>d u. old_wake_panels g s sf panel d u) ds u =
     u - (\<Sum>d\<leftarrow>ds. \<Sum>k\<leftarrow>[0 ..< wake_n_panels (wakes s (wake d)) - n_spanwise_panels (lifting_surface d)].
            scale (wake_doublet_coefficients (wakes s (wake d)) ! k)
              (wake_vortex_ring_unit_velocity g (wakes s (wake d)) sf panel k))"
  by (induction ds arbitrary: u) (simp_all add: old_wake_panels_sum diff_diff_eq)

lemma fold_bodies_old_wake_panels_sum:
  "fold (\<lambda>body u. fold (\<lambda>d u. old_wake_panels g s sf panel d u) (lifting_surfaces body) u) bs u =
     u - (\<Sum>d\<leftarrow>concat (map lifting_surfaces bs).
            \<Sum>k\<leftarrow>[0 ..< wake_n_panels (wakes s (wake d)) - n_spanwise_panels (lifting_surface d)].
            scale (wake_doublet_coefficients (wakes s (wake d)) ! k)
              (wake_vortex_ring_unit_velocity g (wakes s (wake d)) sf panel k))"
  by (induction bs arbitrary: u) (simp_all add: fold_old_wake_panels_sum diff_diff_eq)

text \<open>
  C3. For every panel, \<^verbatim>\<open>compute_source_coefficient\<close> returns \<open>u \<cdot> n - v_blow\<close>: \<open>u\<close> is the
  kinematic velocity of the panel minus the freestream velocity, reduced, exactly when wake
  convection is enabled and \<^verbatim>\<open>include_wake_influence\<close> is true, by the sum over all lifting
  surfaces of all bodies and over the wake panels \<open>k\<close> below the newest strip of the
  vortex-ring unit velocity of panel \<open>k\<close> times its doublet coefficient; \<open>n\<close> is the panel
  normal and \<open>v_blow\<close> the blowing velocity of the boundary layer.
\<close>

theorem source_coefficient_formula:
  "compute_source_coefficient p g s body sf panel bl include_wake_influence =
     dot (panel_kinematic_velocity body sf panel - freestream_velocity s
            - (if convect_wake p \<and> include_wake_influence
               then (\<Sum>d\<leftarrow>concat (map lifting_surfaces (bodies s)).
                      \<Sum>k\<leftarrow>[0 ..< wake_n_panels (wakes s (wake d)) - n_spanwise_panels (lifting_surface d)].
                        scale (wake_doublet_coefficients (wakes s (wake d)) ! k)
                          (wake_vortex_ring_unit_velocity g (wakes s (wake d)) sf panel k))
               else 0))
         (panel_normal sf panel)
       - blowing_velocity bl panel"
  unfolding compute_source_coefficient_def Let_def
  by (simp add: fold_bodies_old_wake_panels_sum)

subsection \<open>Queries for a surface that is not registered\<close>

lemma surface_velocity_potential_scan_not_found:
  "addr sf \<notin> set (map (\<lambda>d. addr (surface d)) ds) \<Longrightarrow>
   surface_velocity_potential_scan s sf panel ds offset =
     (0, [Str ''Solver::surface_velocity_potential():  Panel '', Num (int panel),
          Str '' not found on surface '', Num (surface_id sf), Str ''.'', Endl])"
  by (induction ds arbitrary: offset) auto

lemma surface_velocity_scan_not_found:
  "addr sf \<notin> set (map (\<lambda>d. addr (surface d)) ds) \<Longrightarrow>
   surface_velocity_scan s sf panel ds offset =
     (Vector3d 0 0 0, [Str ''Solver::surface_velocity():  Panel '', Num (int panel),
          Str '' not found on surface '', Num (surface_id sf), Str ''.'', Endl])"
  by (induction ds arbitrary: offset) auto

lemma pressure_coefficient_scan_not_found:
  "addr sf \<notin> set (map (\<lambda>d. addr (surface d)) ds) \<Longrightarrow>
   pressure_coefficient_scan s sf panel ds offset =
     (Some 0, [Str ''Solver::pressure_coefficient():  Panel '', Num (int panel),
          Str '' not found on surface '', Num (surface_id sf), Str ''.'', Endl])"
  by (induction ds arbitrary: offset) auto

text \<open>
  C9. A query of \<^verbatim>\<open>surface_velocity_potential\<close>, \<^verbatim>\<open>surface_velocity\<close> or
  \<^verbatim>\<open>pressure_coefficient\<close> for a surface that is none of the registered surfaces (its
  address is not among theirs) writes the message naming the panel and the surface id to
  the standard error stream and returns zero: \<open>0\<close> for the two scalars, the zero vector for
  the surface velocity.
\<close>

theorem panel_not_found:
  assumes "addr sf \<notin> set (map (\<lambda>d. addr (surface d)) (non_wake_surfaces s))"
  shows "surface_velocity_potential s sf panel =
           (0, [Str ''Solver::surface_velocity_potential():  Panel '', Num (int panel),
                Str '' not found on surface '', Num (surface_id sf), Str ''.'', Endl])
       \<and> surface_velocity s sf panel =
           (Vector3d 0 0 0, [Str ''Solver::surface_velocity():  Panel '', Num (int panel),
                Str '' not found on surface '', Num (surface_id sf), Str ''.'', Endl])
       \<and> pressure_coefficient s sf panel =
           (Some 0, [Str ''Solver::pressure_coefficient():  Panel '', Num (int panel),
                Str '' not found on surface '', Num (surface_id sf), Str ''.'', Endl])"
  unfolding surface_velocity_potential_def surface_velocity_def pressure_coefficient_def
  using assms
  by (simp only: surface_velocity_potential_scan_not_found surface_velocity_scan_not_found
        pressure_coefficient_scan_not_found simp_thms)

theorem panel_not_found_witness:
  "addr (example_surface 9 90) \<notin> set (map (\<lambda>d. addr (surface d)) (non_wake_surfaces example_solver))
   \<and> surface_velocity_potential example_solver (example_surface 9 90) 1 =
       (0, [Str ''Solver::surface_velocity_potential():  Panel '', Num 1,
            Str '' not found on surface '', Num 90, Str ''.'', Endl])
   \<and> surface_velocity example_solver (example_surface 9 90) 1 =
       (Vector3d 0 0 0, [Str ''Solver::surface_velocity():  Panel '', Num 1,
            Str '' not found on surface '', Num 90, Str ''.'', Endl])
   \<and> pressure_coefficient example_solver (example_surface 9 90) 1 =
       (Some 0, [Str ''Solver::pressure_coefficient():  Panel '', Num 1,
            Str '' not found on surface '', Num 90, Str ''.'', Endl])"
proof -
  have h: "addr (example_surface 9 90)
             \<notin> set (map (\<lambda>d. addr (surface d)) (non_wake_surfaces example_solver))"
    by (simp add: example_solver_def example_surface_def example_non_lifting_data_def
          example_lifting_data_def example_lifting_surface_def surface_data.truncate_def
          surface.truncate_def surface.extend_def)
  have e: "surface_id (example_surface 9 90) = 90"
    by (simp add: example_surface_def)
  show ?thesis
    using h panel_not_found [OF h, of 1] by (simp add: e)
qed

subsection \<open>What each phase writes\<close>

lemma fold_source_coefficients_frame:
  "\<exists>v. length v = length (source_coefficients s)
     \<and> fold (\<lambda>i s. s\<lparr>source_coefficients := (source_coefficients s)[k i := F i s]\<rparr>) xs s
         = s\<lparr>source_coefficients := v\<rparr>"
proof (induction xs arbitrary: s)
  case Nil
  show ?case by (rule exI [of _ "source_coefficients s"]) simp
next
  case (Cons x xs)
  from Cons [of "s\<lparr>source_coefficients := (source_coefficients s)[k x := F x s]\<rparr>"]
  show ?case by auto
qed

lemma source_distribution_surface_frame:
  "\<exists>v. length v = length (source_coefficients s)
     \<and> source_distribution_surface p g w d (offset, s)
         = (offset + n_panels (surface d), s\<lparr>source_coefficients := v\<rparr>)"
  unfolding source_distribution_surface_def Let_def
  using fold_source_coefficients_frame by simp

lemma fold_source_distribution_surface_frame:
  "\<exists>offset' v. length v = length (source_coefficients s)
     \<and> fold (source_distribution_surface p g w) ds (offset, s) = (offset', s\<lparr>source_coefficients := v\<rparr>)"
proof (induction ds arbitrary: offset s)
  case Nil
  show ?case by (intro exI [of _ offset] exI [of _ "source_coefficients s"]) simp
next
  case (Cons d ds)
  obtain v where v: "length v = length (source_coefficients s)"
    "source_distribution_surface p g w d (offset, s)
       = (offset + n_panels (surface d), s\<lparr>source_coefficients := v\<rparr>)"
    using source_distribution_surface_frame by blast
  from Cons.IH [where offset = "offset + n_panels (surface d)" and s = "s\<lparr>source_coefficients := v\<rparr>"] v
  show ?case by auto
qed

lemma compute_source_distribution_frame:
  "\<exists>v. length v = length (source_coefficients s)
     \<and> compute_source_distribution p g w s = s\<lparr>source_coefficients := v\<rparr>"
proof -
  obtain offset' v where "length v = length (source_coefficients s)"
    "fold (source_distribution_surface p g w) (non_wake_surfaces s) (0, s)
       = (offset', s\<lparr>source_coefficients := v\<rparr>)"
    using fold_source_distribution_surface_frame by blast
  then show ?thesis unfolding compute_source_distribution_def by auto
qed

subsection \<open>The Kutta closure, wake by wake\<close>

lemma length_fold_list_update [simp]:
  "length (fold (\<lambda>i xs. xs[f i := val i]) js xs) = length xs"
  by (induction js arbitrary: xs) simp_all

lemma fold_list_update_range_nth:
  "base + n \<le> length xs \<Longrightarrow> k < n \<Longrightarrow>
   fold (\<lambda>i xs. xs[base + i := val i]) [0 ..< n] xs ! (base + k) = val k"
proof (induction n)
  case 0
  then show ?case by simp
next
  case (Suc n)
  show ?case
  proof (cases "k = n")
    case True
    with Suc.prems show ?thesis by simp
  next
    case False
    with Suc show ?thesis by (simp add: nth_list_update)
  qed
qed

lemma fold_wake_doublet_coefficients:
  "fold (\<lambda>i s.
           s\<lparr>wakes := (wakes s)(wake d := (wakes s (wake d))
               \<lparr>wake_doublet_coefficients :=
                  (wake_doublet_coefficients (wakes s (wake d)))
                    [wake_n_panels (wakes s (wake d)) - n_spanwise_panels (lifting_surface d) + i :=
                       doublet_coefficients s ! (offset + trailing_edge_upper_panel (lifting_surface d) i)
                         - doublet_coefficients s ! (offset + trailing_edge_lower_panel (lifting_surface d) i)]\<rparr>)\<rparr>)
     js s
   = s\<lparr>wakes := (wakes s)(wake d := (wakes s (wake d))
         \<lparr>wake_doublet_coefficients :=
            fold (\<lambda>i xs. xs[wake_n_panels (wakes s (wake d)) - n_spanwise_panels (lifting_surface d) + i :=
                     doublet_coefficients s ! (offset + trailing_edge_upper_panel (lifting_surface d) i)
                       - doublet_coefficients s ! (offset + trailing_edge_lower_panel (lifting_surface d) i)])
              js (wake_doublet_coefficients (wakes s (wake d)))\<rparr>)\<rparr>"
  by (induction js arbitrary: s) simp_all

lemma wake_doublet_lifting_surface_eq:
  "wake_doublet_lifting_surface d (offset, s) =
     (offset + n_panels (lifting_surface d),
      s\<lparr>wakes := (wakes s)(wake d := (wakes s (wake d))
         \<lparr>wake_doublet_coefficients :=
            fold (\<lambda>i xs. xs[wake_n_panels (wakes s (wake d)) - n_spanwise_panels (lifting_surface d) + i :=
                     doublet_coefficients s ! (offset + trailing_edge_upper_panel (lifting_surface d) i)
                       - doublet_coefficients s ! (offset + trailing_edge_lower_panel (lifting_surface d) i)])
              [0 ..< n_spanwise_panels (lifting_surface d)] (wake_doublet_coefficients (wakes s (wake d)))\<rparr>)\<rparr>)"
  unfolding wake_doublet_lifting_surface_def Let_def
  by (simp add: fold_wake_doublet_coefficients)

lemma wake_doublet_lifting_surface_step:
  assumes "wake_fits d (wakes s (wake d))"
  shows "\<exists>W. wake_doublet_lifting_surface d (offset, s) = (offset + n_panels (lifting_surface d), s\<lparr>wakes := W\<rparr>)
           \<and> (\<forall>a. wake_n_panels (W a) = wake_n_panels (wakes s a)
                  \<and> length (wake_doublet_coefficients (W a)) = length (wake_doublet_coefficients (wakes s a)))
           \<and> (\<forall>a. a \<noteq> wake d \<longrightarrow> W a = wakes s a)
           \<and> kutta_strip (doublet_coefficients s) offset d (W (wake d))"
proof -
  let ?base = "wake_n_panels (wakes s (wake d)) - n_spanwise_panels (lifting_surface d)"
  let ?val = "\<lambda>i. doublet_coefficients s ! (offset + trailing_edge_upper_panel (lifting_surface d) i)
                  - doublet_coefficients s ! (offset + trailing_edge_lower_panel (lifting_surface d) i)"
  let ?L = "fold (\<lambda>i xs. xs[?base + i := ?val i]) [0 ..< n_spanwise_panels (lifting_surface d)]
              (wake_doublet_coefficients (wakes s (wake d)))"
  let ?W = "(wakes s)(wake d := (wakes s (wake d))\<lparr>wake_doublet_coefficients := ?L\<rparr>)"
  have fits: "?base + n_spanwise_panels (lifting_surface d) \<le> length (wake_doublet_coefficients (wakes s (wake d)))"
    using assms by (simp add: wake_fits_def)
  have "kutta_strip (doublet_coefficients s) offset d (?W (wake d))"
    unfolding kutta_strip_def using fold_list_update_range_nth [OF fits, of _ ?val] by simp
  moreover have "wake_doublet_lifting_surface d (offset, s) = (offset + n_panels (lifting_surface d), s\<lparr>wakes := ?W\<rparr>)"
    by (rule wake_doublet_lifting_surface_eq)
  moreover have "\<forall>a. wake_n_panels (?W a) = wake_n_panels (wakes s a)
                  \<and> length (wake_doublet_coefficients (?W a)) = length (wake_doublet_coefficients (wakes s a))"
    by simp
  moreover have "\<forall>a. a \<noteq> wake d \<longrightarrow> ?W a = wakes s a"
    by simp
  ultimately show ?thesis by blast
qed

lemma fold_wake_doublet_lifting_surface:
  assumes "distinct (map wake ds)"
      and "\<forall>d \<in> set ds. wake_fits d (wakes s (wake d))"
  shows "\<exists>W. fold wake_doublet_lifting_surface ds (offset, s)
               = (offset + (\<Sum>d\<leftarrow>ds. n_panels (lifting_surface d)), s\<lparr>wakes := W\<rparr>)
           \<and> (\<forall>a. wake_n_panels (W a) = wake_n_panels (wakes s a)
                  \<and> length (wake_doublet_coefficients (W a)) = length (wake_doublet_coefficients (wakes s a)))
           \<and> (\<forall>a. a \<notin> wake ` set ds \<longrightarrow> W a = wakes s a)
           \<and> (\<forall>l < length ds.
                  kutta_strip (doublet_coefficients s)
                    (offset + (\<Sum>d\<leftarrow>take l ds. n_panels (lifting_surface d))) (ds ! l) (W (wake (ds ! l))))"
  using assms
proof (induction ds arbitrary: offset s)
  case Nil
  show ?case by (rule exI [of _ "wakes s"]) simp
next
  case (Cons d ds)
  from Cons.prems have fits: "wake_fits d (wakes s (wake d))" by simp
  obtain W1 where W1:
    "wake_doublet_lifting_surface d (offset, s) = (offset + n_panels (lifting_surface d), s\<lparr>wakes := W1\<rparr>)"
    "\<forall>a. wake_n_panels (W1 a) = wake_n_panels (wakes s a)
        \<and> length (wake_doublet_coefficients (W1 a)) = length (wake_doublet_coefficients (wakes s a))"
    "\<forall>a. a \<noteq> wake d \<longrightarrow> W1 a = wakes s a"
    "kutta_strip (doublet_coefficients s) offset d (W1 (wake d))"
    using wake_doublet_lifting_surface_step [OF fits] by blast
  let ?s1 = "s\<lparr>wakes := W1\<rparr>"
  have d1: "distinct (map wake ds)" and notin: "wake d \<notin> wake ` set ds"
    using Cons.prems(1) by auto
  have f1: "\<forall>d' \<in> set ds. wake_fits d' (wakes ?s1 (wake d'))"
    using Cons.prems(2) W1(2) by (simp add: wake_fits_def)
  obtain W where W:
    "fold wake_doublet_lifting_surface ds (offset + n_panels (lifting_surface d), ?s1)
       = (offset + n_panels (lifting_surface d) + (\<Sum>d\<leftarrow>ds. n_panels (lifting_surface d)), ?s1\<lparr>wakes := W\<rparr>)"
    "\<forall>a. wake_n_panels (W a) = wake_n_panels (wakes ?s1 a)
        \<and> length (wake_doublet_coefficients (W a)) = length (wake_doublet_coefficients (wakes ?s1 a))"
    "\<forall>a. a \<notin> wake ` set ds \<longrightarrow> W a = wakes ?s1 a"
    "\<forall>l < length ds.
        kutta_strip (doublet_coefficients ?s1)
          (offset + n_panels (lifting_surface d) + (\<Sum>d\<leftarrow>take l ds. n_panels (lifting_surface d)))
          (ds ! l) (W (wake (ds ! l)))"
    using Cons.IH [OF d1 f1, of "offset + n_panels (lifting_surface d)"] by blast
  have a: "fold wake_doublet_lifting_surface (d # ds) (offset, s)
             = (offset + (\<Sum>d\<leftarrow>d # ds. n_panels (lifting_surface d)), s\<lparr>wakes := W\<rparr>)"
    using W1(1) W(1) by (simp add: add.assoc)
  have b: "\<forall>a. wake_n_panels (W a) = wake_n_panels (wakes s a)
        \<and> length (wake_doublet_coefficients (W a)) = length (wake_doublet_coefficients (wakes s a))"
    using W(2) W1(2) by simp
  have c: "\<forall>a. a \<notin> wake ` set (d # ds) \<longrightarrow> W a = wakes s a"
    using W(3) W1(3) by simp
  have e: "\<forall>l < length (d # ds).
        kutta_strip (doublet_coefficients s)
          (offset + (\<Sum>d\<leftarrow>take l (d # ds). n_panels (lifting_surface d)))
          ((d # ds) ! l) (W (wake ((d # ds) ! l)))"
  proof (intro allI impI)
    fix l assume l: "l < length (d # ds)"
    show "kutta_strip (doublet_coefficients s)
          (offset + (\<Sum>d\<leftarrow>take l (d # ds). n_panels (lifting_surface d)))
          ((d # ds) ! l) (W (wake ((d # ds) ! l)))"
    proof (cases l)
      case 0
      have "W (wake d) = W1 (wake d)" using W(3) notin by simp
      with W1(4) 0 show ?thesis by simp
    next
      case (Suc l')
      with l have "l' < length ds" by simp
      with W(4) Suc show ?thesis by (simp add: add.assoc)
    qed
  qed
  from a b c e show ?case by blast
qed

lemma fold_add_panels:
  "fold (\<lambda>d offset. offset + f d) ds (offset :: nat) = offset + (\<Sum>d\<leftarrow>ds. f d)"
  by (induction ds arbitrary: offset) simp_all

lemma lifting_surface_offset_first:
  "lifting_surface_offset (body # bs) 0 l =
     (\<Sum>d\<leftarrow>non_lifting_surfaces body. n_panels (surface d))
       + (\<Sum>d\<leftarrow>take l (lifting_surfaces body). n_panels (lifting_surface d))"
  by (simp add: lifting_surface_offset_def)

lemma lifting_surface_offset_later:
  "lifting_surface_offset (body # bs) (Suc b) l = body_panels body + lifting_surface_offset bs b l"
  by (simp add: lifting_surface_offset_def add.assoc)

lemma fold_wake_doublet_body:
  assumes "distinct (map wake (concat (map lifting_surfaces bs)))"
      and "\<forall>d \<in> set (concat (map lifting_surfaces bs)). wake_fits d (wakes s (wake d))"
  shows "\<exists>W. fold wake_doublet_body bs (offset, s)
               = (offset + (\<Sum>body\<leftarrow>bs. body_panels body), s\<lparr>wakes := W\<rparr>)
           \<and> (\<forall>a. wake_n_panels (W a) = wake_n_panels (wakes s a)
                  \<and> length (wake_doublet_coefficients (W a)) = length (wake_doublet_coefficients (wakes s a)))
           \<and> (\<forall>a. a \<notin> wake ` set (concat (map lifting_surfaces bs)) \<longrightarrow> W a = wakes s a)
           \<and> (\<forall>b < length bs. \<forall>l < length (lifting_surfaces (bs ! b)).
                  kutta_strip (doublet_coefficients s) (offset + lifting_surface_offset bs b l)
                    (lifting_surfaces (bs ! b) ! l) (W (wake (lifting_surfaces (bs ! b) ! l))))"
  using assms
proof (induction bs arbitrary: offset s)
  case Nil
  show ?case by (rule exI [of _ "wakes s"]) simp
next
  case (Cons body bs)
  let ?o1 = "offset + (\<Sum>d\<leftarrow>non_lifting_surfaces body. n_panels (surface d))"
  have dl: "distinct (map wake (lifting_surfaces body))"
    and dr: "distinct (map wake (concat (map lifting_surfaces bs)))"
    and disj: "wake ` set (lifting_surfaces body) \<inter> wake ` set (concat (map lifting_surfaces bs)) = {}"
    using Cons.prems(1) by auto
  have fl: "\<forall>d \<in> set (lifting_surfaces body). wake_fits d (wakes s (wake d))"
    using Cons.prems(2) by simp
  obtain W1 where W1:
    "fold wake_doublet_lifting_surface (lifting_surfaces body) (?o1, s)
       = (?o1 + (\<Sum>d\<leftarrow>lifting_surfaces body. n_panels (lifting_surface d)), s\<lparr>wakes := W1\<rparr>)"
    "\<forall>a. wake_n_panels (W1 a) = wake_n_panels (wakes s a)
        \<and> length (wake_doublet_coefficients (W1 a)) = length (wake_doublet_coefficients (wakes s a))"
    "\<forall>a. a \<notin> wake ` set (lifting_surfaces body) \<longrightarrow> W1 a = wakes s a"
    "\<forall>l < length (lifting_surfaces body).
        kutta_strip (doublet_coefficients s)
          (?o1 + (\<Sum>d\<leftarrow>take l (lifting_surfaces body). n_panels (lifting_surface d)))
          (lifting_surfaces body ! l) (W1 (wake (lifting_surfaces body ! l)))"
    using fold_wake_doublet_lifting_surface [OF dl fl, of ?o1] by blast
  let ?s1 = "s\<lparr>wakes := W1\<rparr>"
  let ?o2 = "offset + body_panels body"
  have step: "wake_doublet_body body (offset, s) = (?o2, ?s1)"
    unfolding wake_doublet_body_def using W1(1)
    by (simp add: fold_add_panels body_panels_def add.assoc)
  have fr: "\<forall>d \<in> set (concat (map lifting_surfaces bs)). wake_fits d (wakes ?s1 (wake d))"
    using Cons.prems(2) W1(2) by (simp add: wake_fits_def)
  obtain W where W:
    "fold wake_doublet_body bs (?o2, ?s1) = (?o2 + (\<Sum>body\<leftarrow>bs. body_panels body), ?s1\<lparr>wakes := W\<rparr>)"
    "\<forall>a. wake_n_panels (W a) = wake_n_panels (wakes ?s1 a)
        \<and> length (wake_doublet_coefficients (W a)) = length (wake_doublet_coefficients (wakes ?s1 a))"
    "\<forall>a. a \<notin> wake ` set (concat (map lifting_surfaces bs)) \<longrightarrow> W a = wakes ?s1 a"
    "\<forall>b < length bs. \<forall>l < length (lifting_surfaces (bs ! b)).
        kutta_strip (doublet_coefficients ?s1) (?o2 + lifting_surface_offset bs b l)
          (lifting_surfaces (bs ! b) ! l) (W (wake (lifting_surfaces (bs ! b) ! l)))"
    using Cons.IH [OF dr fr, of ?o2] by blast
  have a: "fold wake_doublet_body (body # bs) (offset, s)
             = (offset + (\<Sum>body\<leftarrow>body # bs. body_panels body), s\<lparr>wakes := W\<rparr>)"
    using step W(1) by (simp add: add.assoc)
  have b: "\<forall>a. wake_n_panels (W a) = wake_n_panels (wakes s a)
        \<and> length (wake_doublet_coefficients (W a)) = length (wake_doublet_coefficients (wakes s a))"
    using W(2) W1(2) by simp
  have c: "\<forall>a. a \<notin> wake ` set (concat (map lifting_surfaces (body # bs))) \<longrightarrow> W a = wakes s a"
    using W(3) W1(3) by (auto simp: image_Un)
  have e: "\<forall>b < length (body # bs). \<forall>l < length (lifting_surfaces ((body # bs) ! b)).
        kutta_strip (doublet_coefficients s) (offset + lifting_surface_offset (body # bs) b l)
          (lifting_surfaces ((body # bs) ! b) ! l) (W (wake (lifting_surfaces ((body # bs) ! b) ! l)))"
  proof (intro allI impI)
    fix b l
    assume b: "b < length (body # bs)" and l: "l < length (lifting_surfaces ((body # bs) ! b))"
    show "kutta_strip (doublet_coefficients s) (offset + lifting_surface_offset (body # bs) b l)
          (lifting_surfaces ((body # bs) ! b) ! l) (W (wake (lifting_surfaces ((body # bs) ! b) ! l)))"
    proof (cases b)
      case 0
      with l have l': "l < length (lifting_surfaces body)" by simp
      then have "wake (lifting_surfaces body ! l) \<in> wake ` set (lifting_surfaces body)" by simp
      with disj have "wake (lifting_surfaces body ! l) \<notin> wake ` set (concat (map lifting_surfaces bs))"
        by blast
      with W(3) have "W (wake (lifting_surfaces body ! l)) = W1 (wake (lifting_surfaces body ! l))"
        by simp
      with W1(4) l' 0 show ?thesis
        by (simp add: lifting_surface_offset_first add.assoc)
    next
      case (Suc b')
      with b l have "b' < length bs" "l < length (lifting_surfaces (bs ! b'))" by simp_all
      with W(4) Suc show ?thesis
        by (simp add: lifting_surface_offset_later add.assoc)
    qed
  qed
  from a b c e show ?case by blast
qed

lemma update_wake_doublet_distribution_kutta:
  assumes "distinct (map wake (concat (map lifting_surfaces (bodies s))))"
      and "\<forall>d \<in> set (concat (map lifting_surfaces (bodies s))). wake_fits d (wakes s (wake d))"
  shows "\<exists>W. update_wake_doublet_distribution s = s\<lparr>wakes := W\<rparr>
           \<and> (\<forall>a. wake_n_panels (W a) = wake_n_panels (wakes s a)
                  \<and> length (wake_doublet_coefficients (W a)) = length (wake_doublet_coefficients (wakes s a)))
           \<and> (\<forall>b < length (bodies s). \<forall>l < length (lifting_surfaces (bodies s ! b)).
                  kutta_strip (doublet_coefficients s) (lifting_surface_offset (bodies s) b l)
                    (lifting_surfaces (bodies s ! b) ! l) (W (wake (lifting_surfaces (bodies s ! b) ! l))))"
proof -
  obtain W where W:
    "fold wake_doublet_body (bodies s) (0, s)
       = (0 + (\<Sum>body\<leftarrow>bodies s. body_panels body), s\<lparr>wakes := W\<rparr>)"
    "\<forall>a. wake_n_panels (W a) = wake_n_panels (wakes s a)
        \<and> length (wake_doublet_coefficients (W a)) = length (wake_doublet_coefficients (wakes s a))"
    "\<forall>b < length (bodies s). \<forall>l < length (lifting_surfaces (bodies s ! b)).
        kutta_strip (doublet_coefficients s) (0 + lifting_surface_offset (bodies s) b l)
          (lifting_surfaces (bodies s ! b) ! l) (W (wake (lifting_surfaces (bodies s ! b) ! l)))"
    using fold_wake_doublet_body [OF assms, of 0] by blast
  have "update_wake_doublet_distribution s = s\<lparr>wakes := W\<rparr>"
    unfolding update_wake_doublet_distribution_def using W(1) by simp
  with W(2,3) show ?thesis by auto
qed

lemma fold_surface_velocities_frame:
  "\<exists>v. length v = length (surface_velocities s)
     \<and> fold (\<lambda>i s. s\<lparr>surface_velocities := (surface_velocities s)[k i := F i s]\<rparr>) xs s
         = s\<lparr>surface_velocities := v\<rparr>"
proof (induction xs arbitrary: s)
  case Nil
  show ?case by (rule exI [of _ "surface_velocities s"]) simp
next
  case (Cons x xs)
  from Cons [of "s\<lparr>surface_velocities := (surface_velocities s)[k x := F x s]\<rparr>"]
  show ?case by auto
qed

lemma fold_surface_velocity_surface_frame:
  "\<exists>offset' v. length v = length (surface_velocities s)
     \<and> fold (surface_velocity_surface p g) ds (offset, s) = (offset', s\<lparr>surface_velocities := v\<rparr>)"
proof (induction ds arbitrary: offset s)
  case Nil
  show ?case by (intro exI [of _ offset] exI [of _ "surface_velocities s"]) simp
next
  case (Cons d ds)
  obtain v where v: "length v = length (surface_velocities s)"
    "surface_velocity_surface p g d (offset, s)
       = (offset + n_panels (surface d), s\<lparr>surface_velocities := v\<rparr>)"
    unfolding surface_velocity_surface_def
    using fold_surface_velocities_frame
            [where s = s and k = "\<lambda>i. offset + i"
               and F = "\<lambda>i s. compute_surface_velocity p g s (surface d) offset i"
               and xs = "[0 ..< n_panels (surface d)]"]
    by auto
  from Cons.IH [where offset = "offset + n_panels (surface d)" and s = "s\<lparr>surface_velocities := v\<rparr>"] v
  show ?case by auto
qed

lemma compute_surface_velocity_distribution_frame:
  "\<exists>v. length v = length (surface_velocities s)
     \<and> compute_surface_velocity_distribution p g s = s\<lparr>surface_velocities := v\<rparr>"
proof -
  obtain offset' v where "length v = length (surface_velocities s)"
    "fold (surface_velocity_surface p g) (non_wake_surfaces s) (0, s)
       = (offset', s\<lparr>surface_velocities := v\<rparr>)"
    using fold_surface_velocity_surface_frame by blast
  then show ?thesis unfolding compute_surface_velocity_distribution_def by auto
qed

lemma fold_recalculate_surface_frame:
  "\<exists>offset' h B. fold recalculate_surface ds (offset, have_boundary_layer, s)
                    = (offset', h, s\<lparr>boundary_layers := B\<rparr>)"
proof (induction ds arbitrary: offset have_boundary_layer s)
  case Nil
  show ?case by (intro exI [of _ offset] exI [of _ have_boundary_layer] exI [of _ "boundary_layers s"]) simp
next
  case (Cons d ds)
  obtain o1 h1 B1 where "recalculate_surface d (offset, have_boundary_layer, s) = (o1, h1, s\<lparr>boundary_layers := B1\<rparr>)"
  proof (cases "boundary_layers s (boundary_layer d) = DummyBoundaryLayer")
    case True
    then have "recalculate_surface d (offset, have_boundary_layer, s)
                 = (offset + n_panels (surface d), have_boundary_layer, s\<lparr>boundary_layers := boundary_layers s\<rparr>)"
      unfolding recalculate_surface_def by simp
    then show ?thesis using that by blast
  next
    case False
    then show ?thesis using that unfolding recalculate_surface_def by simp
  qed
  with Cons.IH [where offset = o1 and have_boundary_layer = h1 and s = "s\<lparr>boundary_layers := B1\<rparr>"]
  show ?case by auto
qed

lemma recompute_boundary_layers_frame:
  "\<exists>h B. recompute_boundary_layers s = (h, s\<lparr>boundary_layers := B\<rparr>)"
proof -
  obtain offset' h B where
    "fold recalculate_surface (non_wake_surfaces s) (0, False, s) = (offset', h, s\<lparr>boundary_layers := B\<rparr>)"
    using fold_recalculate_surface_frame by blast
  then show ?thesis unfolding recompute_boundary_layers_def by auto
qed

subsection \<open>One pass of the loop\<close>

lemma boundary_layer_pass_failure:
  assumes "info (compute_doublet_distribution p g (compute_source_distribution p g True s)) \<noteq> Success"
  shows "boundary_layer_pass p g boundary_layer_iteration s =
           Return_false ((compute_source_distribution p g True s)
             \<lparr>cerr := cerr s @
                [Str ''Solver: Computing doublet distribution failed ('',
                 Num (iterations (compute_doublet_distribution p g (compute_source_distribution p g True s))),
                 Str '' iterations with estimated error='',
                 Dbl (error (compute_doublet_distribution p g (compute_source_distribution p g True s))),
                 Str '').'', Endl]\<rparr>)"
proof -
  obtain v where "compute_source_distribution p g True s = s\<lparr>source_coefficients := v\<rparr>"
    using compute_source_distribution_frame by blast
  with assms show ?thesis
    unfolding boundary_layer_pass_def Let_def by simp
qed

lemma boundary_layer_pass_success:
  assumes "info (compute_doublet_distribution p g (compute_source_distribution p g True s)) = Success"
  shows "\<exists>s' V B. (boundary_layer_pass p g boundary_layer_iteration s = Break s'
                    \<or> boundary_layer_pass p g boundary_layer_iteration s = Continue s')
               \<and> s' = (update_wake_doublet_distribution
                          ((compute_source_distribution p g True s)
                             \<lparr>doublet_coefficients :=
                                solution (compute_doublet_distribution p g (compute_source_distribution p g True s))\<rparr>))
                        \<lparr>surface_velocities := V, boundary_layers := B\<rparr>"
proof -
  let ?s1 = "compute_source_distribution p g True s"
  let ?r = "compute_doublet_distribution p g ?s1"
  let ?s3 = "update_wake_doublet_distribution (?s1\<lparr>doublet_coefficients := solution ?r\<rparr>)"
  obtain V where V: "compute_surface_velocity_distribution p g ?s3 = ?s3\<lparr>surface_velocities := V\<rparr>"
    using compute_surface_velocity_distribution_frame by blast
  let ?s4 = "?s3\<lparr>surface_velocities := V\<rparr>"
  obtain h B where B: "recompute_boundary_layers ?s4 = (h, ?s4\<lparr>boundary_layers := B\<rparr>)"
    using recompute_boundary_layers_frame by blast
  have s4: "?s4 = ?s3\<lparr>surface_velocities := V, boundary_layers := boundary_layers ?s3\<rparr>"
    by simp
  have s5: "?s4\<lparr>boundary_layers := B\<rparr> = ?s3\<lparr>surface_velocities := V, boundary_layers := B\<rparr>"
    by simp
  have "boundary_layer_pass p g boundary_layer_iteration s = Break ?s4
        \<or> boundary_layer_pass p g boundary_layer_iteration s = Break (?s4\<lparr>boundary_layers := B\<rparr>)
        \<or> boundary_layer_pass p g boundary_layer_iteration s = Continue (?s4\<lparr>boundary_layers := B\<rparr>)"
    unfolding boundary_layer_pass_def Let_def
    using assms V B by simp
  then show ?thesis using s4 s5 by metis
qed

lemma boundary_layer_pass_not_failed:
  assumes "boundary_layer_pass p g boundary_layer_iteration s = Break s'
           \<or> boundary_layer_pass p g boundary_layer_iteration s = Continue s'"
  shows "info (compute_doublet_distribution p g (compute_source_distribution p g True s)) = Success"
proof (rule ccontr)
  assume "info (compute_doublet_distribution p g (compute_source_distribution p g True s)) \<noteq> Success"
  from boundary_layer_pass_failure [OF this, of boundary_layer_iteration] assms show False by auto
qed

subsection \<open>The loop\<close>

declare solve_loop.simps [simp del]

lemma solve_loop_Return_false:
  "boundary_layer_pass p g boundary_layer_iteration s = Return_false s' \<Longrightarrow>
   solve_loop p g boundary_layer_iteration s = (False, boundary_layer_iteration, s')"
  by (subst solve_loop.simps) simp

lemma solve_loop_Break:
  "boundary_layer_pass p g boundary_layer_iteration s = Break s' \<Longrightarrow>
   solve_loop p g boundary_layer_iteration s = (True, boundary_layer_iteration, s')"
  by (subst solve_loop.simps) simp

lemma solve_loop_Continue:
  "boundary_layer_pass p g boundary_layer_iteration s = Continue s' \<Longrightarrow>
   solve_loop p g boundary_layer_iteration s = solve_loop p g (boundary_layer_iteration + 1) s'"
  by (subst solve_loop.simps) simp

lemma enters_pass_solve_loop:
  "enters_pass p g s0 boundary_layer_iteration s \<Longrightarrow>
   solve_loop p g 0 s0 = solve_loop p g boundary_layer_iteration s"
  by (induction rule: enters_pass.induct) (simp_all add: solve_loop_Continue)

lemma solve_of_failed_pass:
  assumes "enters_pass p g s0 boundary_layer_iteration s"
      and "boundary_layer_pass p g boundary_layer_iteration s = Return_false s'"
  shows "solve p g dt propagate0 s0 = (False, s')"
  unfolding solve_def
  using enters_pass_solve_loop [OF assms(1)] solve_loop_Return_false [OF assms(2)] by simp

lemma solve_of_last_pass:
  assumes "enters_pass p g s0 boundary_layer_iteration s"
      and "boundary_layer_pass p g boundary_layer_iteration s = Break s'"
  shows "solve p g dt propagate0 s0 =
           (True,
            (let s = (if convect_wake p then compute_source_distribution p g False s' else s');
                 s = compute_pressure_distribution p g dt s;
                 s = (if propagate0 then propagate s else s)
             in s))"
  unfolding solve_def
  using enters_pass_solve_loop [OF assms(1)] solve_loop_Break [OF assms(2)] by (simp add: Let_def)

lemma solve_loop_all_succeed:
  assumes "enters_pass p g s0 boundary_layer_iteration s"
      and "\<forall>i s. enters_pass p g s0 i s \<longrightarrow>
             info (compute_doublet_distribution p g (compute_source_distribution p g True s)) = Success"
  shows "fst (solve_loop p g boundary_layer_iteration s) = True
       \<and> fst (snd (solve_loop p g boundary_layer_iteration s))
           \<le> max boundary_layer_iteration (max_boundary_layer_iterations p + 1)"
  using assms
proof (induction p g boundary_layer_iteration s rule: solve_loop.induct)
  case (1 p g boundary_layer_iteration s)
  have ok: "info (compute_doublet_distribution p g (compute_source_distribution p g True s)) = Success"
    using "1.prems" by blast
  show ?case
  proof (cases "boundary_layer_pass p g boundary_layer_iteration s")
    case (Return_false s')
    with boundary_layer_pass_success [OF ok, of boundary_layer_iteration] show ?thesis by auto
  next
    case (Break s')
    then show ?thesis by (simp add: solve_loop_Break)
  next
    case (Continue s')
    have below: "boundary_layer_iteration \<le> max_boundary_layer_iterations p"
      using Continue by (rule boundary_layer_pass_Continue_below_cap)
    have "enters_pass p g s0 (boundary_layer_iteration + 1) s'"
      using "1.prems"(1) Continue by (rule enters_pass.next_pass)
    with "1.IH" [OF Continue] "1.prems"(2) Continue below show ?thesis
      by (simp add: solve_loop_Continue)
  qed
qed

lemma boundary_layer_pass_converged:
  assumes "info (compute_doublet_distribution p g (compute_source_distribution p g True s)) = Success"
      and "0 < boundary_layer_iteration"
      and "difference_norm
             (solution (compute_doublet_distribution p g (compute_source_distribution p g True s)))
             (doublet_coefficients s) < boundary_layer_iteration_tolerance p"
  shows "\<exists>s'. boundary_layer_pass p g boundary_layer_iteration s = Break s'"
proof -
  obtain v where "compute_source_distribution p g True s = s\<lparr>source_coefficients := v\<rparr>"
    using compute_source_distribution_frame by blast
  then have "doublet_coefficients (compute_source_distribution p g True s) = doublet_coefficients s"
    by simp
  with assms show ?thesis
    unfolding boundary_layer_pass_def Let_def by simp
qed

lemma boundary_layer_pass_capped:
  assumes "info (compute_doublet_distribution p g (compute_source_distribution p g True s)) = Success"
      and "max_boundary_layer_iterations p < boundary_layer_iteration"
  shows "\<exists>s'. boundary_layer_pass p g boundary_layer_iteration s = Break s'"
  using assms unfolding boundary_layer_pass_def Let_def by simp

lemma fold_wake_doublet_lifting_surface_frame:
  "\<exists>offset' W. fold wake_doublet_lifting_surface ds (offset, s) = (offset', s\<lparr>wakes := W\<rparr>)
     \<and> (\<forall>a. wake_n_panels (W a) = wake_n_panels (wakes s a)
            \<and> length (wake_doublet_coefficients (W a)) = length (wake_doublet_coefficients (wakes s a)))"
proof (induction ds arbitrary: offset s)
  case Nil
  show ?case by (intro exI [of _ offset] exI [of _ "wakes s"]) simp
next
  case (Cons d ds)
  obtain W1 where W1: "wake_doublet_lifting_surface d (offset, s)
                     = (offset + n_panels (lifting_surface d), s\<lparr>wakes := W1\<rparr>)"
    "\<forall>a. wake_n_panels (W1 a) = wake_n_panels (wakes s a)
        \<and> length (wake_doublet_coefficients (W1 a)) = length (wake_doublet_coefficients (wakes s a))"
    using wake_doublet_lifting_surface_eq [of d offset s] by simp
  obtain offset' W where W:
    "fold wake_doublet_lifting_surface ds (offset + n_panels (lifting_surface d), s\<lparr>wakes := W1\<rparr>)
       = (offset', s\<lparr>wakes := W1, wakes := W\<rparr>)"
    "\<forall>a. wake_n_panels (W a) = wake_n_panels (W1 a)
        \<and> length (wake_doublet_coefficients (W a)) = length (wake_doublet_coefficients (W1 a))"
    using Cons.IH [where offset = "offset + n_panels (lifting_surface d)" and s = "s\<lparr>wakes := W1\<rparr>"]
    by auto
  show ?case
    by (intro exI [of _ offset'] exI [of _ W]) (use W1 W in simp)
qed

lemma fold_wake_doublet_body_frame:
  "\<exists>offset' W. fold wake_doublet_body bs (offset, s) = (offset', s\<lparr>wakes := W\<rparr>)
     \<and> (\<forall>a. wake_n_panels (W a) = wake_n_panels (wakes s a)
            \<and> length (wake_doublet_coefficients (W a)) = length (wake_doublet_coefficients (wakes s a)))"
proof (induction bs arbitrary: offset s)
  case Nil
  show ?case by (intro exI [of _ offset] exI [of _ "wakes s"]) simp
next
  case (Cons body bs)
  obtain o1 W1 where W1:
    "fold wake_doublet_lifting_surface (lifting_surfaces body)
       (fold (\<lambda>d offset. offset + n_panels (surface d)) (non_lifting_surfaces body) offset, s)
     = (o1, s\<lparr>wakes := W1\<rparr>)"
    "\<forall>a. wake_n_panels (W1 a) = wake_n_panels (wakes s a)
        \<and> length (wake_doublet_coefficients (W1 a)) = length (wake_doublet_coefficients (wakes s a))"
    using fold_wake_doublet_lifting_surface_frame by blast
  then have step: "wake_doublet_body body (offset, s) = (o1, s\<lparr>wakes := W1\<rparr>)"
    unfolding wake_doublet_body_def by simp
  obtain offset' W where W:
    "fold wake_doublet_body bs (o1, s\<lparr>wakes := W1\<rparr>) = (offset', s\<lparr>wakes := W1, wakes := W\<rparr>)"
    "\<forall>a. wake_n_panels (W a) = wake_n_panels (W1 a)
        \<and> length (wake_doublet_coefficients (W a)) = length (wake_doublet_coefficients (W1 a))"
    using Cons.IH [where offset = o1 and s = "s\<lparr>wakes := W1\<rparr>"] by auto
  show ?case
    by (intro exI [of _ offset'] exI [of _ W]) (use step W1 W in simp)
qed

lemma update_wake_doublet_distribution_frame:
  "\<exists>W. update_wake_doublet_distribution s = s\<lparr>wakes := W\<rparr>
     \<and> (\<forall>a. wake_n_panels (W a) = wake_n_panels (wakes s a)
            \<and> length (wake_doublet_coefficients (W a)) = length (wake_doublet_coefficients (wakes s a)))"
proof -
  obtain offset' W where "fold wake_doublet_body (bodies s) (0, s) = (offset', s\<lparr>wakes := W\<rparr>)"
    "\<forall>a. wake_n_panels (W a) = wake_n_panels (wakes s a)
        \<and> length (wake_doublet_coefficients (W a)) = length (wake_doublet_coefficients (wakes s a))"
    using fold_wake_doublet_body_frame by blast
  then show ?thesis unfolding update_wake_doublet_distribution_def by auto
qed


lemma fold_pressure_frame:
  "\<exists>P C. length P = length (surface_velocity_potentials s)
     \<and> length C = length (pressure_coefficients s)
     \<and> fold (\<lambda>i s. s\<lparr>surface_velocity_potentials := (surface_velocity_potentials s)[k i := F i s],
                         pressure_coefficients := (pressure_coefficients s)[k i := G i s]\<rparr>) xs s
         = s\<lparr>surface_velocity_potentials := P, pressure_coefficients := C\<rparr>"
proof (induction xs arbitrary: s)
  case Nil
  show ?case
    by (intro exI [of _ "surface_velocity_potentials s"] exI [of _ "pressure_coefficients s"]) simp
next
  case (Cons x xs)
  from Cons [of "s\<lparr>surface_velocity_potentials := (surface_velocity_potentials s)[k x := F x s],
                   pressure_coefficients := (pressure_coefficients s)[k x := G x s]\<rparr>"]
  show ?case by auto
qed

lemma pressure_surface_frame:
  "\<exists>P C. length P = length (surface_velocity_potentials s)
     \<and> length C = length (pressure_coefficients s)
     \<and> pressure_surface p g dt d (offset, s)
         = (offset + n_panels (surface d), s\<lparr>surface_velocity_potentials := P, pressure_coefficients := C\<rparr>)"
  unfolding pressure_surface_def Let_def
  using fold_pressure_frame
          [where s = s and k = "\<lambda>i. offset + i"
             and F = "\<lambda>i s. compute_surface_velocity_potential p g s (surface d) offset i"
             and xs = "[0 ..< n_panels (surface d)]"]
  by simp

lemma fold_pressure_surface_frame:
  "\<exists>offset' P C. length P = length (surface_velocity_potentials s)
     \<and> length C = length (pressure_coefficients s)
     \<and> fold (pressure_surface p g dt) ds (offset, s)
         = (offset', s\<lparr>surface_velocity_potentials := P, pressure_coefficients := C\<rparr>)"
proof (induction ds arbitrary: offset s)
  case Nil
  show ?case
    by (intro exI [of _ offset] exI [of _ "surface_velocity_potentials s"]
          exI [of _ "pressure_coefficients s"]) simp
next
  case (Cons d ds)
  obtain P C where PC: "length P = length (surface_velocity_potentials s)"
    "length C = length (pressure_coefficients s)"
    "pressure_surface p g dt d (offset, s)
       = (offset + n_panels (surface d), s\<lparr>surface_velocity_potentials := P, pressure_coefficients := C\<rparr>)"
    using pressure_surface_frame by blast
  from Cons.IH [where offset = "offset + n_panels (surface d)"
                  and s = "s\<lparr>surface_velocity_potentials := P, pressure_coefficients := C\<rparr>"] PC
  show ?case by auto
qed

lemma compute_pressure_distribution_frame:
  "\<exists>P C. length P = length (surface_velocity_potentials s)
     \<and> length C = length (pressure_coefficients s)
     \<and> compute_pressure_distribution p g dt s
         = s\<lparr>surface_velocity_potentials := P, pressure_coefficients := C\<rparr>"
proof -
  obtain offset' P C where "length P = length (surface_velocity_potentials s)"
    "length C = length (pressure_coefficients s)"
    "fold (pressure_surface p g dt) (non_wake_surfaces s) (0, s)
       = (offset', s\<lparr>surface_velocity_potentials := P, pressure_coefficients := C\<rparr>)"
    using fold_pressure_surface_frame by blast
  then show ?thesis unfolding compute_pressure_distribution_def by auto
qed


lemma boundary_layer_pass_Continue_frame:
  assumes "boundary_layer_pass p g boundary_layer_iteration s = Continue s'"
  shows "bodies s' = bodies s
       \<and> (\<forall>a. wake_n_panels (wakes s' a) = wake_n_panels (wakes s a)
              \<and> length (wake_doublet_coefficients (wakes s' a)) = length (wake_doublet_coefficients (wakes s a)))"
proof -
  let ?s1 = "compute_source_distribution p g True s"
  let ?r = "compute_doublet_distribution p g ?s1"
  have ok: "info ?r = Success"
    using assms boundary_layer_pass_not_failed by blast
  obtain s'' V B where s'':
    "boundary_layer_pass p g boundary_layer_iteration s = Break s''
     \<or> boundary_layer_pass p g boundary_layer_iteration s = Continue s''"
    "s'' = (update_wake_doublet_distribution (?s1\<lparr>doublet_coefficients := solution ?r\<rparr>))
             \<lparr>surface_velocities := V, boundary_layers := B\<rparr>"
    using boundary_layer_pass_success [OF ok, of boundary_layer_iteration] by blast
  from s''(1) assms have eq: "s'' = s'" by auto
  obtain v where v: "?s1 = s\<lparr>source_coefficients := v\<rparr>"
    using compute_source_distribution_frame by blast
  obtain W where W: "update_wake_doublet_distribution (?s1\<lparr>doublet_coefficients := solution ?r\<rparr>)
                    = ?s1\<lparr>doublet_coefficients := solution ?r, wakes := W\<rparr>"
    "\<forall>a. wake_n_panels (W a) = wake_n_panels (wakes (?s1\<lparr>doublet_coefficients := solution ?r\<rparr>) a)
        \<and> length (wake_doublet_coefficients (W a))
            = length (wake_doublet_coefficients (wakes (?s1\<lparr>doublet_coefficients := solution ?r\<rparr>) a))"
    using update_wake_doublet_distribution_frame [of "?s1\<lparr>doublet_coefficients := solution ?r\<rparr>"] by auto
  have "s' = s\<lparr>doublet_coefficients := solution ?r, source_coefficients := v,
                 surface_velocities := V, wakes := W, boundary_layers := B\<rparr>"
    using s''(2) eq W(1) v by simp
  moreover have "\<forall>a. wake_n_panels (W a) = wake_n_panels (wakes s a)
        \<and> length (wake_doublet_coefficients (W a)) = length (wake_doublet_coefficients (wakes s a))"
    using W(2) v by simp
  ultimately show ?thesis by simp
qed

lemma enters_pass_invariant:
  "enters_pass p g s0 boundary_layer_iteration s \<Longrightarrow>
   bodies s = bodies s0
   \<and> (\<forall>a. wake_n_panels (wakes s a) = wake_n_panels (wakes s0 a)
          \<and> length (wake_doublet_coefficients (wakes s a)) = length (wake_doublet_coefficients (wakes s0 a)))"
proof (induction rule: enters_pass.induct)
  case first_pass
  show ?case by simp
next
  case (next_pass boundary_layer_iteration s s')
  from boundary_layer_pass_Continue_frame [OF next_pass.hyps(2)] next_pass.IH
  show ?case by simp
qed

lemma boundary_layer_pass_kutta:
  assumes "distinct (map wake (concat (map lifting_surfaces (bodies s))))"
      and "\<forall>d \<in> set (concat (map lifting_surfaces (bodies s))). wake_fits d (wakes s (wake d))"
      and "info (compute_doublet_distribution p g (compute_source_distribution p g True s)) = Success"
      and "b < length (bodies s)"
      and "l < length (lifting_surfaces (bodies s ! b))"
  shows "kutta_strip (doublet_coefficients (state_of (boundary_layer_pass p g boundary_layer_iteration s)))
           (lifting_surface_offset (bodies s) b l) (lifting_surfaces (bodies s ! b) ! l)
           (wakes (state_of (boundary_layer_pass p g boundary_layer_iteration s))
              (wake (lifting_surfaces (bodies s ! b) ! l)))
       \<and> doublet_coefficients (state_of (boundary_layer_pass p g boundary_layer_iteration s))
           = solution (compute_doublet_distribution p g (compute_source_distribution p g True s))"
proof -
  let ?s1 = "compute_source_distribution p g True s"
  let ?r = "compute_doublet_distribution p g ?s1"
  let ?s2 = "?s1\<lparr>doublet_coefficients := solution ?r\<rparr>"
  obtain v where v: "?s1 = s\<lparr>source_coefficients := v\<rparr>"
    using compute_source_distribution_frame by blast
  have b2: "bodies ?s2 = bodies s" and w2: "wakes ?s2 = wakes s"
    and d2: "doublet_coefficients ?s2 = solution ?r"
    using v by simp_all
  obtain W where W: "update_wake_doublet_distribution ?s2 = ?s2\<lparr>wakes := W\<rparr>"
    "\<forall>b < length (bodies ?s2). \<forall>l < length (lifting_surfaces (bodies ?s2 ! b)).
        kutta_strip (doublet_coefficients ?s2) (lifting_surface_offset (bodies ?s2) b l)
          (lifting_surfaces (bodies ?s2 ! b) ! l) (W (wake (lifting_surfaces (bodies ?s2 ! b) ! l)))"
    using update_wake_doublet_distribution_kutta [of ?s2] assms(1,2) unfolding b2 w2 by blast
  obtain s' V B where s':
    "boundary_layer_pass p g boundary_layer_iteration s = Break s'
     \<or> boundary_layer_pass p g boundary_layer_iteration s = Continue s'"
    "s' = (update_wake_doublet_distribution ?s2)\<lparr>surface_velocities := V, boundary_layers := B\<rparr>"
    using boundary_layer_pass_success [OF assms(3), of boundary_layer_iteration] by blast
  from s'(1) have st: "state_of (boundary_layer_pass p g boundary_layer_iteration s) = s'" by auto
  have ws: "wakes s' = W" and ds: "doublet_coefficients s' = solution ?r"
    using s'(2) W(1) d2 by simp_all
  from W(2) assms(4,5) show ?thesis
    unfolding st ws ds b2 d2 by blast
qed

subsection \<open>Failure of the linear solve\<close>

text \<open>
  C5. Whenever the linear solve of a pass that \<^verbatim>\<open>solve\<close> enters does not succeed (its
  \<^verbatim>\<open>info()\<close> is not \<^verbatim>\<open>Success\<close>: no convergence within the iteration budget, a numerical
  issue), \<^verbatim>\<open>solve\<close> returns false; the standard error stream receives the message with
  the iteration count and the estimated error of that solve; and the state is not rolled
  back: it is the state the failing pass had reached, source coefficients overwritten.
\<close>

theorem linear_solve_failure_returns_false:
  assumes "enters_pass p g s0 boundary_layer_iteration s"
      and "info (compute_doublet_distribution p g (compute_source_distribution p g True s)) \<noteq> Success"
  shows "solve p g dt propagate0 s0 =
           (False,
            (compute_source_distribution p g True s)
              \<lparr>cerr := cerr s @
                 [Str ''Solver: Computing doublet distribution failed ('',
                  Num (iterations (compute_doublet_distribution p g (compute_source_distribution p g True s))),
                  Str '' iterations with estimated error='',
                  Dbl (error (compute_doublet_distribution p g (compute_source_distribution p g True s))),
                  Str '').'', Endl]\<rparr>)"
  using solve_of_failed_pass [OF assms(1) boundary_layer_pass_failure [OF assms(2)]] .

lemma example_linear_solve_info:
  "info (compute_doublet_distribution example_parameters (example_externals reported) s) = reported"
  "iterations (compute_doublet_distribution example_parameters (example_externals reported) s) = 3"
  "error (compute_doublet_distribution example_parameters (example_externals reported) s) = 1 / 8"
  by (simp_all add: compute_doublet_distribution_def example_externals_def split: prod.splits)

lemma cerr_compute_source_distribution:
  "cerr (compute_source_distribution p g w s) = cerr s"
proof -
  obtain v where "compute_source_distribution p g w s = s\<lparr>source_coefficients := v\<rparr>"
    using compute_source_distribution_frame by blast
  then show ?thesis by simp
qed

theorem linear_solve_failure_returns_false_witness:
  "enters_pass example_parameters (example_externals NoConvergence) example_solver 0 example_solver
   \<and> info (compute_doublet_distribution example_parameters (example_externals NoConvergence)
             (compute_source_distribution example_parameters (example_externals NoConvergence) True
                example_solver)) \<noteq> Success
   \<and> fst (solve example_parameters (example_externals NoConvergence) 1 True example_solver) = False
   \<and> cerr (snd (solve example_parameters (example_externals NoConvergence) 1 True example_solver)) =
       [Str ''Solver: Computing doublet distribution failed ('', Num 3,
        Str '' iterations with estimated error='', Dbl (1 / 8), Str '').'', Endl]"
proof -
  have h1: "enters_pass example_parameters (example_externals NoConvergence) example_solver 0 example_solver"
    by (rule enters_pass.first_pass)
  have h2: "info (compute_doublet_distribution example_parameters (example_externals NoConvergence)
             (compute_source_distribution example_parameters (example_externals NoConvergence) True
                example_solver)) \<noteq> Success"
    by (simp add: example_linear_solve_info)
  have e: "cerr example_solver = []"
    by (simp add: example_solver_def)
  show ?thesis
    using h1 h2 linear_solve_failure_returns_false [OF h1 h2, of 1 True]
    by (simp add: example_linear_solve_info e)
qed

text \<open>
  C10. If \<^verbatim>\<open>solve\<close> returns false because the linear solve of a pass failed, the doublet
  coefficients, the wakes with their doublet coefficients, the surface velocities, the
  surface velocity potentials, the previous surface velocity potentials and the pressure
  coefficients are those of the state in which that pass began; the source coefficients
  are the source distribution with wake influence that the pass computed.
\<close>

theorem linear_solve_failure_frame:
  assumes "enters_pass p g s0 boundary_layer_iteration s"
      and "info (compute_doublet_distribution p g (compute_source_distribution p g True s)) \<noteq> Success"
  shows "fst (solve p g dt propagate0 s0) = False
       \<and> doublet_coefficients (snd (solve p g dt propagate0 s0)) = doublet_coefficients s
       \<and> wakes (snd (solve p g dt propagate0 s0)) = wakes s
       \<and> surface_velocities (snd (solve p g dt propagate0 s0)) = surface_velocities s
       \<and> surface_velocity_potentials (snd (solve p g dt propagate0 s0)) = surface_velocity_potentials s
       \<and> previous_surface_velocity_potentials (snd (solve p g dt propagate0 s0))
           = previous_surface_velocity_potentials s
       \<and> pressure_coefficients (snd (solve p g dt propagate0 s0)) = pressure_coefficients s
       \<and> source_coefficients (snd (solve p g dt propagate0 s0))
           = source_coefficients (compute_source_distribution p g True s)"
proof -
  obtain v where v: "compute_source_distribution p g True s = s\<lparr>source_coefficients := v\<rparr>"
    using compute_source_distribution_frame by blast
  show ?thesis
    unfolding solve_of_failed_pass [OF assms(1) boundary_layer_pass_failure [OF assms(2)]]
    by (simp add: v)
qed

theorem linear_solve_failure_frame_witness:
  "enters_pass example_parameters (example_externals NumericalIssue) example_solver 0 example_solver
   \<and> info (compute_doublet_distribution example_parameters (example_externals NumericalIssue)
             (compute_source_distribution example_parameters (example_externals NumericalIssue) True
                example_solver)) \<noteq> Success
   \<and> fst (solve example_parameters (example_externals NumericalIssue) 1 False example_solver) = False
   \<and> doublet_coefficients
         (snd (solve example_parameters (example_externals NumericalIssue) 1 False example_solver))
       = [1, 2, 7, 3]
   \<and> wake_doublet_coefficients
         (wakes (snd (solve example_parameters (example_externals NumericalIssue) 1 False example_solver)) 0)
       = [5, 0]
   \<and> pressure_coefficients
         (snd (solve example_parameters (example_externals NumericalIssue) 1 False example_solver))
       = [Some 0, Some 0, Some 0, Some 0]"
proof -
  have h1: "enters_pass example_parameters (example_externals NumericalIssue) example_solver 0 example_solver"
    by (rule enters_pass.first_pass)
  have h2: "info (compute_doublet_distribution example_parameters (example_externals NumericalIssue)
             (compute_source_distribution example_parameters (example_externals NumericalIssue) True
                example_solver)) \<noteq> Success"
    by (simp add: example_linear_solve_info)
  have e: "doublet_coefficients example_solver = [1, 2, 7, 3]"
    "wake_doublet_coefficients (wakes example_solver 0) = [5, 0]"
    "pressure_coefficients example_solver = [Some 0, Some 0, Some 0, Some 0]"
    by (simp_all add: example_solver_def example_wake_def)
  show ?thesis
    using h1 h2 linear_solve_failure_frame [OF h1 h2, of 1 False]
    by (simp add: e)
qed

subsection \<open>The Kutta closure\<close>

text \<open>
  C1. In a call of \<^verbatim>\<open>solve\<close> on a state whose wakes each belong to one lifting surface
  and fit it, after every pass whose linear solve succeeds, for every lifting surface
  (number \<open>l\<close> of body \<open>b\<close>) and every spanwise station \<open>k\<close> below \<open>n_spanwise_panels\<close>: the
  doublet coefficient of the panel \<open>k\<close> of the newest wake strip equals the doublet
  coefficient of the trailing-edge upper panel at \<open>k\<close> minus that of the lower panel at \<open>k\<close>,
  both read at the global offset of the lifting surface from the doublet vector of the
  state, which is the solution the linear solve just returned.
\<close>

theorem kutta_closure:
  fixes p g s0 boundary_layer_iteration s b l k
  defines "s' \<equiv> state_of (boundary_layer_pass p g boundary_layer_iteration s)"
      and "d \<equiv> lifting_surfaces (bodies s0 ! b) ! l"
  assumes "distinct (map wake (concat (map lifting_surfaces (bodies s0))))"
      and "\<forall>d \<in> set (concat (map lifting_surfaces (bodies s0))). wake_fits d (wakes s0 (wake d))"
      and "enters_pass p g s0 boundary_layer_iteration s"
      and "info (compute_doublet_distribution p g (compute_source_distribution p g True s)) = Success"
      and "b < length (bodies s0)"
      and "l < length (lifting_surfaces (bodies s0 ! b))"
      and "k < n_spanwise_panels (lifting_surface d)"
  shows "wake_doublet_coefficients (wakes s' (wake d))
           ! (wake_n_panels (wakes s' (wake d)) - n_spanwise_panels (lifting_surface d) + k)
         = doublet_coefficients s'
             ! (lifting_surface_offset (bodies s0) b l + trailing_edge_upper_panel (lifting_surface d) k)
           - doublet_coefficients s'
               ! (lifting_surface_offset (bodies s0) b l + trailing_edge_lower_panel (lifting_surface d) k)
       \<and> doublet_coefficients s'
           = solution (compute_doublet_distribution p g (compute_source_distribution p g True s))"
proof -
  have inv: "bodies s = bodies s0"
    "\<forall>a. wake_n_panels (wakes s a) = wake_n_panels (wakes s0 a)
       \<and> length (wake_doublet_coefficients (wakes s a)) = length (wake_doublet_coefficients (wakes s0 a))"
    using enters_pass_invariant [OF assms(5)] by simp_all
  have dist: "distinct (map wake (concat (map lifting_surfaces (bodies s))))"
    using assms(3) inv(1) by simp
  have fits: "\<forall>d \<in> set (concat (map lifting_surfaces (bodies s))). wake_fits d (wakes s (wake d))"
    using assms(4) inv by (simp add: wake_fits_def)
  have bl: "b < length (bodies s)" "l < length (lifting_surfaces (bodies s ! b))"
    using assms(7,8) inv(1) by simp_all
  from boundary_layer_pass_kutta [OF dist fits assms(6) bl, of boundary_layer_iteration] assms(9)
  show ?thesis
    unfolding s'_def d_def inv(1) kutta_strip_def by blast
qed

theorem kutta_closure_witness:
  "distinct (map wake (concat (map lifting_surfaces (bodies example_solver))))
   \<and> list_all (\<lambda>d. wake_fits d (wakes example_solver (wake d)))
        (concat (map lifting_surfaces (bodies example_solver)))
   \<and> enters_pass example_parameters (example_externals Success) example_solver 0 example_solver
   \<and> info (compute_doublet_distribution example_parameters (example_externals Success)
             (compute_source_distribution example_parameters (example_externals Success) True
                example_solver)) = Success
   \<and> wake_doublet_coefficients
         (wakes (state_of (boundary_layer_pass example_parameters (example_externals Success) 0
                             example_solver)) 0)
       ! (wake_n_panels
            (wakes (state_of (boundary_layer_pass example_parameters (example_externals Success) 0
                                example_solver)) 0) - 1 + 0)
     = doublet_coefficients
         (state_of (boundary_layer_pass example_parameters (example_externals Success) 0 example_solver))
         ! (2 + 0)
       - doublet_coefficients
           (state_of (boundary_layer_pass example_parameters (example_externals Success) 0 example_solver))
           ! (2 + 1)"
proof -
  have h1: "distinct (map wake (concat (map lifting_surfaces (bodies example_solver))))"
    by (simp add: example_solver_def example_body_def)
  have h2: "\<forall>d \<in> set (concat (map lifting_surfaces (bodies example_solver))).
              wake_fits d (wakes example_solver (wake d))"
    by (simp add: example_solver_def example_body_def example_lifting_data_def wake_fits_def
          example_wake_def example_lifting_surface_def surface.extend_def lifting_surface.fields_def)
  have h3: "enters_pass example_parameters (example_externals Success) example_solver 0 example_solver"
    by (rule enters_pass.first_pass)
  have h4: "info (compute_doublet_distribution example_parameters (example_externals Success)
             (compute_source_distribution example_parameters (example_externals Success) True
                example_solver)) = Success"
    by (simp add: example_linear_solve_info)
  have h5: "0 < length (bodies example_solver)"
    "0 < length (lifting_surfaces (bodies example_solver ! 0))"
    "0 < n_spanwise_panels (lifting_surface (lifting_surfaces (bodies example_solver ! 0) ! 0))"
    by (simp_all add: example_solver_def example_body_def example_lifting_data_def
          example_lifting_surface_def surface.extend_def lifting_surface.fields_def)
  have e: "lifting_surfaces (bodies example_solver ! 0) ! 0 = example_lifting_data"
    "wake example_lifting_data = 0"
    "n_spanwise_panels (lifting_surface example_lifting_data) = 1"
    "trailing_edge_upper_panel (lifting_surface example_lifting_data) 0 = 0"
    "trailing_edge_lower_panel (lifting_surface example_lifting_data) 0 = 1"
    "lifting_surface_offset (bodies example_solver) 0 0 = 2"
    by (simp_all add: example_solver_def example_body_def example_lifting_data_def
          example_lifting_surface_def surface.extend_def lifting_surface.fields_def
          lifting_surface_offset_def example_non_lifting_data_def example_surface_def)
  show ?thesis
    using h1 h2 h3 h4 kutta_closure [OF h1 h2 h3 h4 h5]
    by (simp add: e list_all_iff)
qed

subsection \<open>The boundary-layer loop\<close>





lemma fst_solve:
  "fst (solve p g dt propagate0 s0) = fst (solve_loop p g 0 s0)"
  unfolding solve_def by (simp add: Let_def split: prod.splits)


















subsection \<open>The pressure coefficients\<close>

lemma fold_pressure_values:
  fixes F :: "nat \<Rightarrow> solver \<Rightarrow> real"
  shows "\<exists>P C.
     fold (\<lambda>i s.
             (let s = s\<lparr>surface_velocity_potentials := (surface_velocity_potentials s)[offset + i := F i s]\<rparr>;
                  dphidt = compute_surface_velocity_potential_time_derivative p s offset i dt
              in s\<lparr>pressure_coefficients := (pressure_coefficients s)
                     [offset + i := compute_pressure_coefficient
                                      (surface_velocities s ! (offset + i)) dphidt v_ref_squared]\<rparr>))
       [0 ..< n] t
     = t\<lparr>surface_velocity_potentials := P, pressure_coefficients := C\<rparr>
     \<and> length P = length (surface_velocity_potentials t)
     \<and> length C = length (pressure_coefficients t)
     \<and> (\<forall>k. k < offset \<or> offset + n \<le> k \<longrightarrow>
            P ! k = surface_velocity_potentials t ! k \<and> C ! k = pressure_coefficients t ! k)
     \<and> (\<forall>i < n. offset + i < length (surface_velocity_potentials t) \<longrightarrow>
                 offset + i < length (pressure_coefficients t) \<longrightarrow>
            C ! (offset + i) =
              compute_pressure_coefficient (surface_velocities t ! (offset + i))
                (if unsteady_bernoulli p \<and> dt > 0
                 then (P ! (offset + i) - previous_surface_velocity_potentials t ! (offset + i)) / dt
                 else 0)
                v_ref_squared)"
proof (induction n)
  case 0
  show ?case
    by (intro exI [of _ "surface_velocity_potentials t"] exI [of _ "pressure_coefficients t"]) simp
next
  case (Suc n)
  let ?step = "\<lambda>i s.
             (let s = s\<lparr>surface_velocity_potentials := (surface_velocity_potentials s)[offset + i := F i s]\<rparr>;
                  dphidt = compute_surface_velocity_potential_time_derivative p s offset i dt
              in s\<lparr>pressure_coefficients := (pressure_coefficients s)
                     [offset + i := compute_pressure_coefficient
                                      (surface_velocities s ! (offset + i)) dphidt v_ref_squared]\<rparr>)"
  obtain P C where PC:
    "fold ?step [0 ..< n] t = t\<lparr>surface_velocity_potentials := P, pressure_coefficients := C\<rparr>"
    "length P = length (surface_velocity_potentials t)"
    "length C = length (pressure_coefficients t)"
    "\<forall>k. k < offset \<or> offset + n \<le> k \<longrightarrow>
            P ! k = surface_velocity_potentials t ! k \<and> C ! k = pressure_coefficients t ! k"
    "\<forall>i < n. offset + i < length (surface_velocity_potentials t) \<longrightarrow>
                 offset + i < length (pressure_coefficients t) \<longrightarrow>
            C ! (offset + i) =
              compute_pressure_coefficient (surface_velocities t ! (offset + i))
                (if unsteady_bernoulli p \<and> dt > 0
                 then (P ! (offset + i) - previous_surface_velocity_potentials t ! (offset + i)) / dt
                 else 0)
                v_ref_squared"
    using Suc.IH by blast
  let ?tn = "t\<lparr>surface_velocity_potentials := P, pressure_coefficients := C\<rparr>"
  let ?P = "P[offset + n := F n ?tn]"
  let ?C = "C[offset + n := compute_pressure_coefficient (surface_velocities t ! (offset + n))
                (if unsteady_bernoulli p \<and> dt > 0
                 then (?P ! (offset + n) - previous_surface_velocity_potentials t ! (offset + n)) / dt
                 else 0)
                v_ref_squared]"
  have step: "fold ?step [0 ..< Suc n] t = t\<lparr>surface_velocity_potentials := ?P, pressure_coefficients := ?C\<rparr>"
  proof -
    have "fold ?step [0 ..< Suc n] t = ?step n (fold ?step [0 ..< n] t)"
      by (simp only: upt_Suc_append [OF le0] fold_append fold_simps comp_apply id_apply)
    also have "\<dots> = ?step n ?tn"
      by (simp only: PC(1))
    also have "\<dots> = t\<lparr>surface_velocity_potentials := ?P, pressure_coefficients := ?C\<rparr>"
      by (simp add: Let_def compute_surface_velocity_potential_time_derivative_def)
    finally show ?thesis .
  qed
  have len: "length ?P = length (surface_velocity_potentials t)" "length ?C = length (pressure_coefficients t)"
    using PC(2,3) by simp_all
  have frame: "\<forall>k. k < offset \<or> offset + Suc n \<le> k \<longrightarrow>
            ?P ! k = surface_velocity_potentials t ! k \<and> ?C ! k = pressure_coefficients t ! k"
    using PC(4) by (simp add: nth_list_update)
  have vals: "\<forall>i < Suc n. offset + i < length (surface_velocity_potentials t) \<longrightarrow>
                 offset + i < length (pressure_coefficients t) \<longrightarrow>
            ?C ! (offset + i) =
              compute_pressure_coefficient (surface_velocities t ! (offset + i))
                (if unsteady_bernoulli p \<and> dt > 0
                 then (?P ! (offset + i) - previous_surface_velocity_potentials t ! (offset + i)) / dt
                 else 0)
                v_ref_squared"
  proof (intro allI impI)
    fix i
    assume i: "i < Suc n" and r1: "offset + i < length (surface_velocity_potentials t)"
      and r2: "offset + i < length (pressure_coefficients t)"
    show "?C ! (offset + i) =
              compute_pressure_coefficient (surface_velocities t ! (offset + i))
                (if unsteady_bernoulli p \<and> dt > 0
                 then (?P ! (offset + i) - previous_surface_velocity_potentials t ! (offset + i)) / dt
                 else 0)
                v_ref_squared"
    proof (cases "i = n")
      case True
      with r2 PC(3) show ?thesis by simp
    next
      case False
      with i have "i < n" by simp
      with PC(5) r1 r2 False show ?thesis by (simp add: nth_list_update)
    qed
  qed
  show ?case
    by (intro exI [of _ ?P] exI [of _ ?C] conjI) (rule step, rule len, rule len, rule frame, rule vals)
qed

lemma pressure_surface_values:
  "\<exists>P C.
     pressure_surface p g dt d (offset, t)
       = (offset + n_panels (surface d), t\<lparr>surface_velocity_potentials := P, pressure_coefficients := C\<rparr>)
     \<and> length P = length (surface_velocity_potentials t)
     \<and> length C = length (pressure_coefficients t)
     \<and> (\<forall>k. k < offset \<or> offset + n_panels (surface d) \<le> k \<longrightarrow>
            P ! k = surface_velocity_potentials t ! k \<and> C ! k = pressure_coefficients t ! k)
     \<and> (\<forall>i < n_panels (surface d). offset + i < length (surface_velocity_potentials t) \<longrightarrow>
                 offset + i < length (pressure_coefficients t) \<longrightarrow>
            C ! (offset + i) =
              compute_pressure_coefficient (surface_velocities t ! (offset + i))
                (if unsteady_bernoulli p \<and> dt > 0
                 then (P ! (offset + i) - previous_surface_velocity_potentials t ! (offset + i)) / dt
                 else 0)
                (compute_reference_velocity_squared t (body_of t (surface d))))"
proof -
  let ?F = "\<lambda>i s. compute_surface_velocity_potential p g s (surface d) offset i"
  let ?v = "compute_reference_velocity_squared t (body_of t (surface d))"
  let ?step = "\<lambda>i s.
             (let s = s\<lparr>surface_velocity_potentials := (surface_velocity_potentials s)[offset + i := ?F i s]\<rparr>;
                  dphidt = compute_surface_velocity_potential_time_derivative p s offset i dt
              in s\<lparr>pressure_coefficients := (pressure_coefficients s)
                     [offset + i := compute_pressure_coefficient
                                      (surface_velocities s ! (offset + i)) dphidt ?v]\<rparr>)"
  have eq: "pressure_surface p g dt d (offset, t)
              = (offset + n_panels (surface d), fold ?step [0 ..< n_panels (surface d)] t)"
    by (simp add: pressure_surface_def Let_def)
  from fold_pressure_values [of offset ?F p dt ?v "n_panels (surface d)" t]
  show ?thesis unfolding eq by simp
qed

lemma surface_offset_Suc:
  "surface_offset (d # ds) (Suc j) = n_panels (surface d) + surface_offset ds j"
  by (simp add: surface_offset_def)

lemma reference_velocity_frame:
  "compute_reference_velocity_squared
     (t\<lparr>surface_velocity_potentials := P, pressure_coefficients := C\<rparr>)
     (body_of (t\<lparr>surface_velocity_potentials := P, pressure_coefficients := C\<rparr>) sf)
   = compute_reference_velocity_squared t (body_of t sf)"
  by (simp add: compute_reference_velocity_squared_def body_of_def)

lemma fold_pressure_surface_values:
  "\<exists>offset' P C.
     fold (pressure_surface p g dt) ds (offset, t)
       = (offset', t\<lparr>surface_velocity_potentials := P, pressure_coefficients := C\<rparr>)
     \<and> length P = length (surface_velocity_potentials t)
     \<and> length C = length (pressure_coefficients t)
     \<and> (\<forall>k < offset. P ! k = surface_velocity_potentials t ! k \<and> C ! k = pressure_coefficients t ! k)
     \<and> (\<forall>j < length ds. \<forall>i < n_panels (surface (ds ! j)).
            offset + surface_offset ds j + i < length (surface_velocity_potentials t) \<longrightarrow>
            offset + surface_offset ds j + i < length (pressure_coefficients t) \<longrightarrow>
            C ! (offset + surface_offset ds j + i) =
              compute_pressure_coefficient (surface_velocities t ! (offset + surface_offset ds j + i))
                (if unsteady_bernoulli p \<and> dt > 0
                 then (P ! (offset + surface_offset ds j + i)
                         - previous_surface_velocity_potentials t ! (offset + surface_offset ds j + i)) / dt
                 else 0)
                (compute_reference_velocity_squared t (body_of t (surface (ds ! j)))))"
proof (induction ds arbitrary: offset t)
  case Nil
  show ?case
    by (intro exI [of _ offset] exI [of _ "surface_velocity_potentials t"]
          exI [of _ "pressure_coefficients t"]) simp
next
  case (Cons d ds)
  let ?n = "n_panels (surface d)"
  obtain P1 C1 where 1:
    "pressure_surface p g dt d (offset, t)
       = (offset + ?n, t\<lparr>surface_velocity_potentials := P1, pressure_coefficients := C1\<rparr>)"
    "length P1 = length (surface_velocity_potentials t)"
    "length C1 = length (pressure_coefficients t)"
    "\<forall>k. k < offset \<or> offset + ?n \<le> k \<longrightarrow>
            P1 ! k = surface_velocity_potentials t ! k \<and> C1 ! k = pressure_coefficients t ! k"
    "\<forall>i < ?n. offset + i < length (surface_velocity_potentials t) \<longrightarrow>
                 offset + i < length (pressure_coefficients t) \<longrightarrow>
            C1 ! (offset + i) =
              compute_pressure_coefficient (surface_velocities t ! (offset + i))
                (if unsteady_bernoulli p \<and> dt > 0
                 then (P1 ! (offset + i) - previous_surface_velocity_potentials t ! (offset + i)) / dt
                 else 0)
                (compute_reference_velocity_squared t (body_of t (surface d)))"
    using pressure_surface_values [of p g dt d offset t] by blast
  let ?t1 = "t\<lparr>surface_velocity_potentials := P1, pressure_coefficients := C1\<rparr>"
  obtain offset' P C where 2:
    "fold (pressure_surface p g dt) ds (offset + ?n, ?t1)
       = (offset', ?t1\<lparr>surface_velocity_potentials := P, pressure_coefficients := C\<rparr>)"
    "length P = length (surface_velocity_potentials ?t1)"
    "length C = length (pressure_coefficients ?t1)"
    "\<forall>k < offset + ?n. P ! k = surface_velocity_potentials ?t1 ! k \<and> C ! k = pressure_coefficients ?t1 ! k"
    "\<forall>j < length ds. \<forall>i < n_panels (surface (ds ! j)).
            offset + ?n + surface_offset ds j + i < length (surface_velocity_potentials ?t1) \<longrightarrow>
            offset + ?n + surface_offset ds j + i < length (pressure_coefficients ?t1) \<longrightarrow>
            C ! (offset + ?n + surface_offset ds j + i) =
              compute_pressure_coefficient (surface_velocities ?t1 ! (offset + ?n + surface_offset ds j + i))
                (if unsteady_bernoulli p \<and> dt > 0
                 then (P ! (offset + ?n + surface_offset ds j + i)
                         - previous_surface_velocity_potentials ?t1 ! (offset + ?n + surface_offset ds j + i)) / dt
                 else 0)
                (compute_reference_velocity_squared ?t1 (body_of ?t1 (surface (ds ! j))))"
    using Cons.IH [of "offset + ?n" ?t1] by blast
  have a: "fold (pressure_surface p g dt) (d # ds) (offset, t)
             = (offset', t\<lparr>surface_velocity_potentials := P, pressure_coefficients := C\<rparr>)"
    using 1(1) 2(1) by simp
  have b: "length P = length (surface_velocity_potentials t)" "length C = length (pressure_coefficients t)"
    using 1(2,3) 2(2,3) by simp_all
  have c: "\<forall>k < offset. P ! k = surface_velocity_potentials t ! k \<and> C ! k = pressure_coefficients t ! k"
    using 1(4) 2(4) by simp
  have e: "\<forall>j < length (d # ds). \<forall>i < n_panels (surface ((d # ds) ! j)).
            offset + surface_offset (d # ds) j + i < length (surface_velocity_potentials t) \<longrightarrow>
            offset + surface_offset (d # ds) j + i < length (pressure_coefficients t) \<longrightarrow>
            C ! (offset + surface_offset (d # ds) j + i) =
              compute_pressure_coefficient (surface_velocities t ! (offset + surface_offset (d # ds) j + i))
                (if unsteady_bernoulli p \<and> dt > 0
                 then (P ! (offset + surface_offset (d # ds) j + i)
                         - previous_surface_velocity_potentials t ! (offset + surface_offset (d # ds) j + i)) / dt
                 else 0)
                (compute_reference_velocity_squared t (body_of t (surface ((d # ds) ! j))))"
  proof (intro allI impI)
    fix j i
    assume j: "j < length (d # ds)" and i: "i < n_panels (surface ((d # ds) ! j))"
      and r1: "offset + surface_offset (d # ds) j + i < length (surface_velocity_potentials t)"
      and r2: "offset + surface_offset (d # ds) j + i < length (pressure_coefficients t)"
    show "C ! (offset + surface_offset (d # ds) j + i) =
              compute_pressure_coefficient (surface_velocities t ! (offset + surface_offset (d # ds) j + i))
                (if unsteady_bernoulli p \<and> dt > 0
                 then (P ! (offset + surface_offset (d # ds) j + i)
                         - previous_surface_velocity_potentials t ! (offset + surface_offset (d # ds) j + i)) / dt
                 else 0)
                (compute_reference_velocity_squared t (body_of t (surface ((d # ds) ! j))))"
    proof (cases j)
      case 0
      have z: "surface_offset (d # ds) 0 = 0" by (simp add: surface_offset_def)
      from i 0 have i': "i < ?n" by simp
      then have "offset + i < offset + ?n" by simp
      with 2(4) have "P ! (offset + i) = P1 ! (offset + i)" "C ! (offset + i) = C1 ! (offset + i)"
        by simp_all
      with 1(5) i' r1 r2 0 z show ?thesis by simp
    next
      case (Suc j')
      with j i have j': "j' < length ds" and i': "i < n_panels (surface (ds ! j'))" by simp_all
      have idx: "offset + surface_offset (d # ds) j + i = offset + ?n + surface_offset ds j' + i"
        using Suc by (simp add: surface_offset_Suc)
      from 2(5) j' i' have
        "offset + ?n + surface_offset ds j' + i < length (surface_velocity_potentials ?t1) \<longrightarrow>
         offset + ?n + surface_offset ds j' + i < length (pressure_coefficients ?t1) \<longrightarrow>
         C ! (offset + ?n + surface_offset ds j' + i) =
           compute_pressure_coefficient (surface_velocities ?t1 ! (offset + ?n + surface_offset ds j' + i))
             (if unsteady_bernoulli p \<and> dt > 0
              then (P ! (offset + ?n + surface_offset ds j' + i)
                      - previous_surface_velocity_potentials ?t1 ! (offset + ?n + surface_offset ds j' + i)) / dt
              else 0)
             (compute_reference_velocity_squared ?t1 (body_of ?t1 (surface (ds ! j'))))"
        by blast
      with r1 r2 1(2,3) Suc show ?thesis
        unfolding idx by (simp add: reference_velocity_frame cong: if_cong)
    qed
  qed
  from a b c e show ?case by blast
qed

lemma compute_pressure_distribution_values:
  "\<exists>P C.
     compute_pressure_distribution p g dt t
       = t\<lparr>surface_velocity_potentials := P, pressure_coefficients := C\<rparr>
     \<and> (\<forall>j < length (non_wake_surfaces t). \<forall>i < n_panels (surface (non_wake_surfaces t ! j)).
            surface_offset (non_wake_surfaces t) j + i < length (surface_velocity_potentials t) \<longrightarrow>
            surface_offset (non_wake_surfaces t) j + i < length (pressure_coefficients t) \<longrightarrow>
            C ! (surface_offset (non_wake_surfaces t) j + i) =
              compute_pressure_coefficient (surface_velocities t ! (surface_offset (non_wake_surfaces t) j + i))
                (if unsteady_bernoulli p \<and> dt > 0
                 then (P ! (surface_offset (non_wake_surfaces t) j + i)
                         - previous_surface_velocity_potentials t ! (surface_offset (non_wake_surfaces t) j + i)) / dt
                 else 0)
                (compute_reference_velocity_squared t (body_of t (surface (non_wake_surfaces t ! j)))))"
proof -
  obtain offset' P C where PC:
    "fold (pressure_surface p g dt) (non_wake_surfaces t) (0, t)
       = (offset', t\<lparr>surface_velocity_potentials := P, pressure_coefficients := C\<rparr>)"
    "\<forall>j < length (non_wake_surfaces t). \<forall>i < n_panels (surface (non_wake_surfaces t ! j)).
            0 + surface_offset (non_wake_surfaces t) j + i < length (surface_velocity_potentials t) \<longrightarrow>
            0 + surface_offset (non_wake_surfaces t) j + i < length (pressure_coefficients t) \<longrightarrow>
            C ! (0 + surface_offset (non_wake_surfaces t) j + i) =
              compute_pressure_coefficient (surface_velocities t ! (0 + surface_offset (non_wake_surfaces t) j + i))
                (if unsteady_bernoulli p \<and> dt > 0
                 then (P ! (0 + surface_offset (non_wake_surfaces t) j + i)
                         - previous_surface_velocity_potentials t ! (0 + surface_offset (non_wake_surfaces t) j + i)) / dt
                 else 0)
                (compute_reference_velocity_squared t (body_of t (surface (non_wake_surfaces t ! j))))"
    using fold_pressure_surface_values [of p g dt "non_wake_surfaces t" 0 t] by blast
  have eq: "compute_pressure_distribution p g dt t
              = t\<lparr>surface_velocity_potentials := P, pressure_coefficients := C\<rparr>"
    unfolding compute_pressure_distribution_def PC(1) by simp
  from PC(2) eq show ?thesis
    unfolding add_0 by blast
qed

lemma boundary_layer_pass_unchanged:
  fixes p g boundary_layer_iteration s
  defines "s' \<equiv> state_of (boundary_layer_pass p g boundary_layer_iteration s)"
  shows "bodies s' = bodies s \<and> non_wake_surfaces s' = non_wake_surfaces s
       \<and> surface_id_to_body s' = surface_id_to_body s
       \<and> freestream_velocity s' = freestream_velocity s
       \<and> surface_velocity_potentials s' = surface_velocity_potentials s
       \<and> previous_surface_velocity_potentials s' = previous_surface_velocity_potentials s
       \<and> pressure_coefficients s' = pressure_coefficients s"
proof -
  let ?s1 = "compute_source_distribution p g True s"
  let ?r = "compute_doublet_distribution p g ?s1"
  obtain v where v: "?s1 = s\<lparr>source_coefficients := v\<rparr>"
    using compute_source_distribution_frame by blast
  show ?thesis
  proof (cases "info ?r = Success")
    case False
    show ?thesis
      unfolding s'_def boundary_layer_pass_failure [OF False] by (simp add: v)
  next
    case True
    obtain s'' V B where s'':
      "boundary_layer_pass p g boundary_layer_iteration s = Break s''
       \<or> boundary_layer_pass p g boundary_layer_iteration s = Continue s''"
      "s'' = (update_wake_doublet_distribution (?s1\<lparr>doublet_coefficients := solution ?r\<rparr>))
               \<lparr>surface_velocities := V, boundary_layers := B\<rparr>"
      using boundary_layer_pass_success [OF True, of boundary_layer_iteration] by blast
    obtain W where W: "update_wake_doublet_distribution (?s1\<lparr>doublet_coefficients := solution ?r\<rparr>)
                         = ?s1\<lparr>doublet_coefficients := solution ?r, wakes := W\<rparr>"
      using update_wake_doublet_distribution_frame [of "?s1\<lparr>doublet_coefficients := solution ?r\<rparr>"] by auto
    from s''(1) have st: "s' = s''" unfolding s'_def by auto
    show ?thesis
      unfolding st s''(2) W by (simp add: v)
  qed
qed

lemma solve_loop_unchanged:
  "bodies (snd (snd (solve_loop p g boundary_layer_iteration s))) = bodies s
   \<and> non_wake_surfaces (snd (snd (solve_loop p g boundary_layer_iteration s))) = non_wake_surfaces s
   \<and> surface_id_to_body (snd (snd (solve_loop p g boundary_layer_iteration s))) = surface_id_to_body s
   \<and> freestream_velocity (snd (snd (solve_loop p g boundary_layer_iteration s))) = freestream_velocity s
   \<and> surface_velocity_potentials (snd (snd (solve_loop p g boundary_layer_iteration s)))
       = surface_velocity_potentials s
   \<and> previous_surface_velocity_potentials (snd (snd (solve_loop p g boundary_layer_iteration s)))
       = previous_surface_velocity_potentials s
   \<and> pressure_coefficients (snd (snd (solve_loop p g boundary_layer_iteration s)))
       = pressure_coefficients s"
proof (induction p g boundary_layer_iteration s rule: solve_loop.induct)
  case (1 p g boundary_layer_iteration s)
  note f = boundary_layer_pass_unchanged [of p g boundary_layer_iteration s]
  show ?case
  proof (cases "boundary_layer_pass p g boundary_layer_iteration s")
    case (Return_false s')
    with f show ?thesis by (simp add: solve_loop_Return_false)
  next
    case (Break s')
    with f show ?thesis by (simp add: solve_loop_Break)
  next
    case (Continue s')
    with f "1.IH" [OF Continue] show ?thesis
      by (simp add: solve_loop_Continue)
  qed
qed

lemma solve_true_pressure:
  assumes "fst (solve p g dt propagate0 s0)"
  shows "\<exists>t.
           bodies t = bodies s0 \<and> non_wake_surfaces t = non_wake_surfaces s0
         \<and> surface_id_to_body t = surface_id_to_body s0
         \<and> freestream_velocity t = freestream_velocity s0
         \<and> surface_velocity_potentials t = surface_velocity_potentials s0
         \<and> previous_surface_velocity_potentials t = previous_surface_velocity_potentials s0
         \<and> pressure_coefficients t = pressure_coefficients s0
         \<and> surface_velocities (snd (solve p g dt propagate0 s0)) = surface_velocities t
         \<and> surface_velocity_potentials (snd (solve p g dt propagate0 s0))
             = surface_velocity_potentials (compute_pressure_distribution p g dt t)
         \<and> pressure_coefficients (snd (solve p g dt propagate0 s0))
             = pressure_coefficients (compute_pressure_distribution p g dt t)"
proof -
  obtain ok n sL where loop: "solve_loop p g 0 s0 = (ok, n, sL)"
    by (cases "solve_loop p g 0 s0") auto
  with assms have ok: ok
    unfolding solve_def by (simp split: if_splits)
  have sL: "bodies sL = bodies s0" "non_wake_surfaces sL = non_wake_surfaces s0"
    "surface_id_to_body sL = surface_id_to_body s0"
    "freestream_velocity sL = freestream_velocity s0"
    "surface_velocity_potentials sL = surface_velocity_potentials s0"
    "previous_surface_velocity_potentials sL = previous_surface_velocity_potentials s0"
    "pressure_coefficients sL = pressure_coefficients s0"
    using solve_loop_unchanged [of p g 0 s0] unfolding loop by simp_all
  define t where "t = (if convect_wake p then compute_source_distribution p g False sL else sL)"
  obtain v where v: "t = sL\<lparr>source_coefficients := v\<rparr>"
  proof (cases "convect_wake p")
    case True
    then show ?thesis using that compute_source_distribution_frame [of sL p g False]
      unfolding t_def by auto
  next
    case False
    then show ?thesis using that [of "source_coefficients sL"] unfolding t_def by simp
  qed
  obtain P C where PC: "compute_pressure_distribution p g dt t
                          = t\<lparr>surface_velocity_potentials := P, pressure_coefficients := C\<rparr>"
    using compute_pressure_distribution_frame by blast
  have fin: "snd (solve p g dt propagate0 s0)
               = (if propagate0 then propagate (compute_pressure_distribution p g dt t)
                  else compute_pressure_distribution p g dt t)"
    unfolding solve_def loop t_def using ok by (simp add: Let_def)
  have t: "bodies t = bodies s0" "non_wake_surfaces t = non_wake_surfaces s0"
    "surface_id_to_body t = surface_id_to_body s0"
    "freestream_velocity t = freestream_velocity s0"
    "surface_velocity_potentials t = surface_velocity_potentials s0"
    "previous_surface_velocity_potentials t = previous_surface_velocity_potentials s0"
    "pressure_coefficients t = pressure_coefficients s0"
    unfolding v using sL by simp_all
  have r: "surface_velocities (snd (solve p g dt propagate0 s0)) = surface_velocities t"
    "surface_velocity_potentials (snd (solve p g dt propagate0 s0))
       = surface_velocity_potentials (compute_pressure_distribution p g dt t)"
    "pressure_coefficients (snd (solve p g dt propagate0 s0))
       = pressure_coefficients (compute_pressure_distribution p g dt t)"
    unfolding fin propagate_def by (simp_all add: PC)
  show ?thesis
    by (rule exI [of _ t]) (use t r in simp)
qed

lemma solve_pressure_coefficient:
  assumes "fst (solve p g dt propagate0 s0)"
      and "j < length (non_wake_surfaces s0)"
      and "i < n_panels (surface (non_wake_surfaces s0 ! j))"
      and "surface_id_to_body s0 (surface_id (surface (non_wake_surfaces s0 ! j))) = Some body"
      and "surface_offset (non_wake_surfaces s0) j + i < length (surface_velocity_potentials s0)"
      and "surface_offset (non_wake_surfaces s0) j + i < length (pressure_coefficients s0)"
  shows "pressure_coefficients (snd (solve p g dt propagate0 s0)) ! (surface_offset (non_wake_surfaces s0) j + i)
         = compute_pressure_coefficient
             (surface_velocities (snd (solve p g dt propagate0 s0)) ! (surface_offset (non_wake_surfaces s0) j + i))
             (if unsteady_bernoulli p \<and> dt > 0
              then (surface_velocity_potentials (snd (solve p g dt propagate0 s0))
                      ! (surface_offset (non_wake_surfaces s0) j + i)
                    - previous_surface_velocity_potentials s0 ! (surface_offset (non_wake_surfaces s0) j + i)) / dt
              else 0)
             (squaredNorm (velocity body - freestream_velocity s0))"
proof -
  let ?s' = "snd (solve p g dt propagate0 s0)"
  let ?k = "surface_offset (non_wake_surfaces s0) j + i"
  let ?V = "squaredNorm (velocity body - freestream_velocity s0)"
  obtain t where t:
    "non_wake_surfaces t = non_wake_surfaces s0"
    "surface_id_to_body t = surface_id_to_body s0"
    "freestream_velocity t = freestream_velocity s0"
    "surface_velocity_potentials t = surface_velocity_potentials s0"
    "previous_surface_velocity_potentials t = previous_surface_velocity_potentials s0"
    "pressure_coefficients t = pressure_coefficients s0"
    "surface_velocities ?s' = surface_velocities t"
    "surface_velocity_potentials ?s' = surface_velocity_potentials (compute_pressure_distribution p g dt t)"
    "pressure_coefficients ?s' = pressure_coefficients (compute_pressure_distribution p g dt t)"
    using solve_true_pressure [OF assms(1)] by blast
  obtain P C where v:
    "compute_pressure_distribution p g dt t
       = t\<lparr>surface_velocity_potentials := P, pressure_coefficients := C\<rparr>"
    "\<forall>j < length (non_wake_surfaces t). \<forall>i < n_panels (surface (non_wake_surfaces t ! j)).
            surface_offset (non_wake_surfaces t) j + i < length (surface_velocity_potentials t) \<longrightarrow>
            surface_offset (non_wake_surfaces t) j + i < length (pressure_coefficients t) \<longrightarrow>
            C ! (surface_offset (non_wake_surfaces t) j + i) =
              compute_pressure_coefficient (surface_velocities t ! (surface_offset (non_wake_surfaces t) j + i))
                (if unsteady_bernoulli p \<and> dt > 0
                 then (P ! (surface_offset (non_wake_surfaces t) j + i)
                         - previous_surface_velocity_potentials t ! (surface_offset (non_wake_surfaces t) j + i)) / dt
                 else 0)
                (compute_reference_velocity_squared t (body_of t (surface (non_wake_surfaces t ! j))))"
    using compute_pressure_distribution_values [of p g dt t] by blast
  have PC: "surface_velocity_potentials ?s' = P" "pressure_coefficients ?s' = C"
    unfolding t(8,9) v(1) by simp_all
  have ref: "compute_reference_velocity_squared t (body_of t (surface (non_wake_surfaces s0 ! j))) = ?V"
    unfolding compute_reference_velocity_squared_def body_of_def t(2,3) assms(4) by simp
  have "C ! ?k = compute_pressure_coefficient (surface_velocities t ! ?k)
                  (if unsteady_bernoulli p \<and> dt > 0
                   then (P ! ?k - previous_surface_velocity_potentials t ! ?k) / dt else 0)
                  (compute_reference_velocity_squared t (body_of t (surface (non_wake_surfaces s0 ! j))))"
    using v(2) [unfolded t(1), rule_format, OF assms(2,3)] assms(5,6)
    unfolding t(4,6) by simp
  then show ?thesis
    unfolding PC ref t(5,7) .
qed

text \<open>
  C4. When \<^verbatim>\<open>solve\<close> returns true, the pressure coefficient it has stored for panel \<open>i\<close> of
  the registered surface \<open>j\<close> (at index \<open>k\<close> of the global vectors, within their range) is
  \<open>1 - (\<parallel>v_surf\<parallel>\<^sup>2 + 2 dphidt) / V\<close>: \<open>v_surf\<close> is the surface velocity stored for the panel,
  \<open>V\<close> the squared norm of the velocity of the surface's body minus the freestream velocity,
  and \<open>dphidt\<close> is \<open>(phi - phi_prev) / dt\<close>, with \<open>phi\<close> the potential stored for the panel and
  \<open>phi_prev\<close> the previous potential, when \<^verbatim>\<open>unsteady_bernoulli\<close> is enabled and \<open>dt > 0\<close>, and
  \<open>0\<close> otherwise. So with \<^verbatim>\<open>unsteady_bernoulli\<close> disabled or \<open>dt = 0\<close> the coefficient is
  \<open>1 - \<parallel>v_surf\<parallel>\<^sup>2 / V\<close>, without the potentials. The quotient is that of the doubles: for
  \<open>V = 0\<close> it is not finite.
\<close>

theorem pressure_coefficient_formula:
  fixes p g dt propagate0 s0 j i body
  defines "s' \<equiv> snd (solve p g dt propagate0 s0)"
      and "k \<equiv> surface_offset (non_wake_surfaces s0) j + i"
      and "V \<equiv> squaredNorm (velocity body - freestream_velocity s0)"
  defines "dphidt \<equiv>
             (if unsteady_bernoulli p \<and> dt > 0
              then (surface_velocity_potentials s' ! k - previous_surface_velocity_potentials s0 ! k) / dt
              else 0)"
  assumes "fst (solve p g dt propagate0 s0)"
      and "j < length (non_wake_surfaces s0)"
      and "i < n_panels (surface (non_wake_surfaces s0 ! j))"
      and "surface_id_to_body s0 (surface_id (surface (non_wake_surfaces s0 ! j))) = Some body"
      and "k < length (surface_velocity_potentials s0)"
      and "k < length (pressure_coefficients s0)"
  shows "pressure_coefficients s' ! k =
           (if V = 0 then None
            else Some (1 - (squaredNorm (surface_velocities s' ! k) + 2 * dphidt) / V))
       \<and> (\<not> unsteady_bernoulli p \<or> dt = 0 \<longrightarrow>
            pressure_coefficients s' ! k =
              (if V = 0 then None else Some (1 - squaredNorm (surface_velocities s' ! k) / V)))"
proof -
  have "pressure_coefficients s' ! k = compute_pressure_coefficient (surface_velocities s' ! k) dphidt V"
    using solve_pressure_coefficient [OF assms(5,6,7,8) assms(9,10) [unfolded k_def]]
    unfolding s'_def k_def dphidt_def V_def .
  then show ?thesis
    unfolding compute_pressure_coefficient_def dphidt_def by (auto simp: Let_def)
qed

lemma example_solve_returns_true:
  "fst (solve example_parameters (example_externals Success) dt propagate0 s)"
proof -
  have "enters_pass example_parameters (example_externals Success) s 0 s"
    by (rule enters_pass.first_pass)
  from solve_loop_all_succeed [OF this] show ?thesis
    by (simp add: fst_solve example_linear_solve_info)
qed

theorem pressure_coefficient_formula_witness:
  "fst (solve example_parameters (example_externals Success) 1 True example_solver)
   \<and> pressure_coefficients (snd (solve example_parameters (example_externals Success) 1 True example_solver)) ! 3
     = Some (1 - (squaredNorm
                    (surface_velocities
                       (snd (solve example_parameters (example_externals Success) 1 True example_solver)) ! 3)
                  + 2 * (surface_velocity_potentials
                           (snd (solve example_parameters (example_externals Success) 1 True example_solver)) ! 3)))"
proof -
  have h1: "fst (solve example_parameters (example_externals Success) 1 True example_solver)"
    by (rule example_solve_returns_true)
  have h2: "1 < length (non_wake_surfaces example_solver)"
    by (simp add: example_solver_def)
  have h3: "1 < n_panels (surface (non_wake_surfaces example_solver ! 1))"
    by (simp add: example_solver_def example_lifting_data_def example_lifting_surface_def
          example_surface_def surface_data.truncate_def surface.truncate_def surface.extend_def)
  have h4: "surface_id_to_body example_solver (surface_id (surface (non_wake_surfaces example_solver ! 1)))
              = Some example_body"
    by (simp add: example_solver_def example_lifting_data_def example_lifting_surface_def
          example_surface_def surface_data.truncate_def surface.truncate_def surface.extend_def)
  have k: "surface_offset (non_wake_surfaces example_solver) 1 + 1 = 3"
    by (simp add: surface_offset_def example_solver_def example_non_lifting_data_def example_surface_def)
  have h5: "surface_offset (non_wake_surfaces example_solver) 1 + 1
              < length (surface_velocity_potentials example_solver)"
    and h6: "surface_offset (non_wake_surfaces example_solver) 1 + 1
              < length (pressure_coefficients example_solver)"
    unfolding k by (simp_all add: example_solver_def)
  have e: "squaredNorm (velocity example_body - freestream_velocity example_solver) = 1"
    "previous_surface_velocity_potentials example_solver ! 3 = 0"
    "unsteady_bernoulli example_parameters"
    by (simp_all add: example_body_def example_solver_def example_parameters_def squaredNorm_def
          dot_def minus_vec3_def)
  have k': "surface_offset (non_wake_surfaces example_solver) (Suc 0) = 2"
    using k by simp
  show ?thesis
    using h1 pressure_coefficient_formula [OF h1 h2 h3 h4 h5 h6]
    by (simp add: k' e)
qed

subsection \<open>Wake convection\<close>

lemma fold_add_range_length [simp]:
  "length (fold (\<lambda>i xs. xs[ix (length xs) i := xs ! ix (length xs) i + f i]) js xs) = length xs"
  by (induction js arbitrary: xs) simp_all

lemma fold_add_range_nth:
  fixes xs :: "vec3 list"
  assumes "base + n \<le> length xs" and "k < length xs"
  shows "fold (\<lambda>i xs. xs[base + i := xs ! (base + i) + f i]) [0 ..< n] xs ! k
           = (if base \<le> k \<and> k < base + n then xs ! k + f (k - base) else xs ! k)"
  using assms
proof (induction n arbitrary: k)
  case 0
  then show ?case by auto
next
  case (Suc n)
  let ?ys = "fold (\<lambda>i xs. xs[base + i := xs ! (base + i) + f i]) [0 ..< n] xs"
  have len: "length ?ys = length xs"
    using fold_add_range_length [of "\<lambda>l i. base + i" f "[0 ..< n]" xs] by simp
  have IH: "?ys ! j = (if base \<le> j \<and> j < base + n then xs ! j + f (j - base) else xs ! j)"
    if "j < length xs" for j
    using Suc.IH [of j] Suc.prems(1) that by simp
  have step: "fold (\<lambda>i xs. xs[base + i := xs ! (base + i) + f i]) [0 ..< Suc n] xs
                = ?ys[base + n := ?ys ! (base + n) + f n]"
    by simp
  show ?case
  proof (cases "k = base + n")
    case True
    with Suc.prems len IH [of "base + n"] show ?thesis
      unfolding step by simp
  next
    case False
    with Suc.prems len IH [of k] show ?thesis
      unfolding step by (auto simp: nth_list_update)
  qed
qed

lemma fold_add_to_wake_node:
  assumes "\<And>i t W. F i (t\<lparr>wakes := W\<rparr>) = F i t"
  shows "fold (\<lambda>i t. add_to_wake_node a (ix (length (wake_nodes (wakes t a))) i) (F i t) t) js t
         = t\<lparr>wakes := (wakes t)(a := (wakes t a)
              \<lparr>wake_nodes := fold (\<lambda>i xs. xs[ix (length xs) i := xs ! ix (length xs) i + F i t]) js
                               (wake_nodes (wakes t a))\<rparr>)\<rparr>"
proof (induction js arbitrary: t)
  case Nil
  show ?case by simp
next
  case (Cons j js)
  show ?case
    unfolding fold_simps
    by (subst Cons.IH) (simp add: add_to_wake_node_def assms)
qed

lemma fold_add_range_fixed_length:
  "fold (\<lambda>i xs. xs[ix (length xs) i := xs ! ix (length xs) i + f i]) js xs
     = fold (\<lambda>i ys. ys[ix (length xs) i := ys ! ix (length xs) i + f i]) js xs"
proof (induction js arbitrary: xs)
  case Nil
  show ?case by simp
next
  case (Cons j js)
  show ?case
    unfolding fold_simps
    by (subst Cons.IH) simp
qed

lemma trailing_edge_displacement_wakes:
  "compute_trailing_edge_vortex_displacement p (t\<lparr>wakes := W\<rparr>) body ls i dt
     = compute_trailing_edge_vortex_displacement p t body ls i dt"
  by (simp add: compute_trailing_edge_vortex_displacement_def)

lemma convect_wake_lifting_surface_step:
  assumes "n_spanwise_nodes (lifting_surface d) \<le> length (wake_nodes (wakes t (wake d)))"
  shows "convect_wake_lifting_surface p g dt wake_velocities body d (idx, t)
           = (idx + 1,
              t\<lparr>wakes := (wakes t)(wake d := convected_wake p g dt t body d (wake_velocities ! idx))\<rparr>)"
proof -
  let ?a = "wake d"
  let ?w = "wakes t ?a"
  let ?xs = "wake_nodes ?w"
  let ?n = "length ?xs"
  let ?nsn = "n_spanwise_nodes (lifting_surface d)"
  let ?m = "?n - ?nsn"
  let ?te = "\<lambda>i. compute_trailing_edge_vortex_displacement p t body (lifting_surface d) i dt"
  let ?lv = "\<lambda>i. scale dt (wake_velocities ! idx ! i)"
  let ?N1 = "fold (\<lambda>i ys. ys[?m + i := ys ! (?m + i) + ?te i]) [0 ..< ?nsn] ?xs"
  let ?N2 = "fold (\<lambda>i ys. ys[0 + i := ys ! (0 + i) + ?lv i]) [0 ..< ?m] ?N1"
  let ?t1 = "t\<lparr>wakes := (wakes t)(?a := ?w\<lparr>wake_nodes := ?N1\<rparr>)\<rparr>"
  let ?t2 = "t\<lparr>wakes := (wakes t)(?a := ?w\<lparr>wake_nodes := ?N2\<rparr>)\<rparr>"
  have len1: "length ?N1 = ?n"
    using fold_add_range_length [of "\<lambda>l i. ?m + i" ?te "[0 ..< ?nsn]" ?xs] by simp
  have len2: "length ?N2 = ?n"
    using fold_add_range_length [of "\<lambda>l i. 0 + i" ?lv "[0 ..< ?m]" ?N1] len1 by simp
  have f1: "fold (\<lambda>i s.
                add_to_wake_node ?a (length (wake_nodes (wakes s ?a)) - ?nsn + i)
                  (compute_trailing_edge_vortex_displacement p s body (lifting_surface d) i dt) s)
              [0 ..< ?nsn] t = ?t1"
    by (subst fold_add_to_wake_node
          [where ix = "\<lambda>l i. l - ?nsn + i"
             and F = "\<lambda>i s. compute_trailing_edge_vortex_displacement p s body (lifting_surface d) i dt"])
       (simp_all add: trailing_edge_displacement_wakes
          fold_add_range_fixed_length [where ix = "\<lambda>l i. l - ?nsn + i" and xs = ?xs])
  have f2: "fold (\<lambda>i s. add_to_wake_node ?a i (?lv i) s) [0 ..< length (wake_nodes (wakes ?t1 ?a)) - ?nsn] ?t1
              = ?t2"
    by (subst fold_add_to_wake_node [where ix = "\<lambda>l i. i" and F = "\<lambda>i s. ?lv i"])
       (simp_all add: len1)
  have N2: "?N2 = map (\<lambda>i. if i < ?m then ?xs ! i + ?lv i else ?xs ! i + ?te (i - ?m)) [0 ..< ?n]"
  proof (rule nth_equalityI)
    show "length ?N2 = length (map (\<lambda>i. if i < ?m then ?xs ! i + ?lv i else ?xs ! i + ?te (i - ?m)) [0 ..< ?n])"
      using len2 by simp
  next
    fix k assume "k < length ?N2"
    with len2 have k: "k < ?n" by simp
    have a: "?N1 ! k = (if ?m \<le> k \<and> k < ?m + ?nsn then ?xs ! k + ?te (k - ?m) else ?xs ! k)"
      using fold_add_range_nth [of ?m ?nsn ?xs k ?te] assms k by simp
    have b: "?N2 ! k = (if 0 \<le> k \<and> k < 0 + ?m then ?N1 ! k + ?lv (k - 0) else ?N1 ! k)"
      using fold_add_range_nth [of 0 ?m ?N1 k ?lv] len1 k by simp
    from a b k assms
    show "?N2 ! k = map (\<lambda>i. if i < ?m then ?xs ! i + ?lv i else ?xs ! i + ?te (i - ?m)) [0 ..< ?n] ! k"
      by auto
  qed
  show ?thesis
    unfolding convect_wake_lifting_surface_def Let_def prod.case f1 f2
    unfolding convected_wake_def Let_def N2 [symmetric]
    by simp
qed

lemma convected_wake_cong:
  "wakes t' (wake d) = wakes t (wake d) \<Longrightarrow> freestream_velocity t' = freestream_velocity t \<Longrightarrow>
   convected_wake p g dt t' body d local_wake_velocities
     = convected_wake p g dt t body d local_wake_velocities"
  by (simp add: convected_wake_def compute_trailing_edge_vortex_displacement_def Let_def cong: if_cong)

lemma fold_convect_wake_lifting_surface:
  assumes "distinct (map wake ds)"
      and "\<forall>d \<in> set ds. n_spanwise_nodes (lifting_surface d) \<le> length (wake_nodes (wakes t (wake d)))"
  shows "\<exists>W. fold (convect_wake_lifting_surface p g dt wake_velocities body) ds (idx, t)
               = (idx + length ds, t\<lparr>wakes := W\<rparr>)
           \<and> (\<forall>a. a \<notin> wake ` set ds \<longrightarrow> W a = wakes t a)
           \<and> (\<forall>l < length ds.
                  W (wake (ds ! l)) = convected_wake p g dt t body (ds ! l) (wake_velocities ! (idx + l)))"
  using assms
proof (induction ds arbitrary: idx t)
  case Nil
  show ?case by (rule exI [of _ "wakes t"]) simp
next
  case (Cons d ds)
  let ?cw = "convected_wake p g dt t body d (wake_velocities ! idx)"
  let ?t1 = "t\<lparr>wakes := (wakes t)(wake d := ?cw)\<rparr>"
  have step: "convect_wake_lifting_surface p g dt wake_velocities body d (idx, t) = (idx + 1, ?t1)"
    using Cons.prems(2) by (intro convect_wake_lifting_surface_step) simp
  have d1: "distinct (map wake ds)" and notin: "wake d \<notin> wake ` set ds"
    using Cons.prems(1) by auto
  have same: "wakes ?t1 (wake d') = wakes t (wake d')" if "d' \<in> set ds" for d'
  proof -
    from that notin have "wake d' \<noteq> wake d" by (auto simp: image_iff)
    then show ?thesis by simp
  qed
  have f1: "\<forall>d' \<in> set ds. n_spanwise_nodes (lifting_surface d') \<le> length (wake_nodes (wakes ?t1 (wake d')))"
    using Cons.prems(2) same by simp
  obtain W where W:
    "fold (convect_wake_lifting_surface p g dt wake_velocities body) ds (idx + 1, ?t1)
       = (idx + 1 + length ds, ?t1\<lparr>wakes := W\<rparr>)"
    "\<forall>a. a \<notin> wake ` set ds \<longrightarrow> W a = wakes ?t1 a"
    "\<forall>l < length ds.
        W (wake (ds ! l)) = convected_wake p g dt ?t1 body (ds ! l) (wake_velocities ! (idx + 1 + l))"
    using Cons.IH [OF d1 f1, of "idx + 1"] by blast
  have a: "fold (convect_wake_lifting_surface p g dt wake_velocities body) (d # ds) (idx, t)
             = (idx + length (d # ds), t\<lparr>wakes := W\<rparr>)"
    using step W(1) by simp
  have c: "\<forall>a. a \<notin> wake ` set (d # ds) \<longrightarrow> W a = wakes t a"
    using W(2) by simp
  have e: "\<forall>l < length (d # ds).
        W (wake ((d # ds) ! l))
          = convected_wake p g dt t body ((d # ds) ! l) (wake_velocities ! (idx + l))"
  proof (intro allI impI)
    fix l assume l: "l < length (d # ds)"
    show "W (wake ((d # ds) ! l))
            = convected_wake p g dt t body ((d # ds) ! l) (wake_velocities ! (idx + l))"
    proof (cases l)
      case 0
      have "W (wake d) = wakes ?t1 (wake d)" using W(2) notin by simp
      with 0 show ?thesis by simp
    next
      case (Suc l')
      with l have l': "l' < length ds" by simp
      then have mem: "ds ! l' \<in> set ds" by simp
      have "convected_wake p g dt ?t1 body (ds ! l') (wake_velocities ! (idx + 1 + l'))
              = convected_wake p g dt t body (ds ! l') (wake_velocities ! (idx + 1 + l'))"
        by (rule convected_wake_cong) (use same [OF mem] in simp_all)
      with W(3) l' Suc show ?thesis by simp
    qed
  qed
  from a c e show ?case by blast
qed

lemma fold_convect_wake_body:
  assumes "distinct (map wake (concat (map lifting_surfaces bs)))"
      and "\<forall>d \<in> set (concat (map lifting_surfaces bs)).
             n_spanwise_nodes (lifting_surface d) \<le> length (wake_nodes (wakes t (wake d)))"
  shows "\<exists>W. fold (\<lambda>body. fold (convect_wake_lifting_surface p g dt wake_velocities body)
                              (lifting_surfaces body)) bs (idx, t)
               = (idx + length (concat (map lifting_surfaces bs)), t\<lparr>wakes := W\<rparr>)
           \<and> (\<forall>a. a \<notin> wake ` set (concat (map lifting_surfaces bs)) \<longrightarrow> W a = wakes t a)
           \<and> (\<forall>b < length bs. \<forall>l < length (lifting_surfaces (bs ! b)).
                  W (wake (lifting_surfaces (bs ! b) ! l))
                    = convected_wake p g dt t (bs ! b) (lifting_surfaces (bs ! b) ! l)
                        (wake_velocities ! (idx + length (concat (map lifting_surfaces (take b bs))) + l)))"
  using assms
proof (induction bs arbitrary: idx t)
  case Nil
  show ?case by (rule exI [of _ "wakes t"]) simp
next
  case (Cons body bs)
  have dl: "distinct (map wake (lifting_surfaces body))"
    and dr: "distinct (map wake (concat (map lifting_surfaces bs)))"
    and disj: "wake ` set (lifting_surfaces body) \<inter> wake ` set (concat (map lifting_surfaces bs)) = {}"
    using Cons.prems(1) by auto
  have fl: "\<forall>d \<in> set (lifting_surfaces body).
              n_spanwise_nodes (lifting_surface d) \<le> length (wake_nodes (wakes t (wake d)))"
    using Cons.prems(2) by simp
  obtain W1 where W1:
    "fold (convect_wake_lifting_surface p g dt wake_velocities body) (lifting_surfaces body) (idx, t)
       = (idx + length (lifting_surfaces body), t\<lparr>wakes := W1\<rparr>)"
    "\<forall>a. a \<notin> wake ` set (lifting_surfaces body) \<longrightarrow> W1 a = wakes t a"
    "\<forall>l < length (lifting_surfaces body).
        W1 (wake (lifting_surfaces body ! l))
          = convected_wake p g dt t body (lifting_surfaces body ! l) (wake_velocities ! (idx + l))"
    using fold_convect_wake_lifting_surface [OF dl fl] by blast
  let ?t1 = "t\<lparr>wakes := W1\<rparr>"
  let ?i1 = "idx + length (lifting_surfaces body)"
  have same: "wakes ?t1 (wake d') = wakes t (wake d')" if "d' \<in> set (concat (map lifting_surfaces bs))" for d'
  proof -
    from that have "wake d' \<in> wake ` set (concat (map lifting_surfaces bs))" by blast
    with disj have "wake d' \<notin> wake ` set (lifting_surfaces body)" by blast
    with W1(2) show ?thesis by simp
  qed
  have fr: "\<forall>d \<in> set (concat (map lifting_surfaces bs)).
              n_spanwise_nodes (lifting_surface d) \<le> length (wake_nodes (wakes ?t1 (wake d)))"
    using Cons.prems(2) same by simp
  obtain W where W:
    "fold (\<lambda>body. fold (convect_wake_lifting_surface p g dt wake_velocities body) (lifting_surfaces body))
       bs (?i1, ?t1)
     = (?i1 + length (concat (map lifting_surfaces bs)), ?t1\<lparr>wakes := W\<rparr>)"
    "\<forall>a. a \<notin> wake ` set (concat (map lifting_surfaces bs)) \<longrightarrow> W a = wakes ?t1 a"
    "\<forall>b < length bs. \<forall>l < length (lifting_surfaces (bs ! b)).
        W (wake (lifting_surfaces (bs ! b) ! l))
          = convected_wake p g dt ?t1 (bs ! b) (lifting_surfaces (bs ! b) ! l)
              (wake_velocities ! (?i1 + length (concat (map lifting_surfaces (take b bs))) + l))"
    using Cons.IH [OF dr fr, of ?i1] by blast
  have a: "fold (\<lambda>body. fold (convect_wake_lifting_surface p g dt wake_velocities body)
                           (lifting_surfaces body)) (body # bs) (idx, t)
             = (idx + length (concat (map lifting_surfaces (body # bs))), t\<lparr>wakes := W\<rparr>)"
    using W1(1) W(1) by (simp add: add.assoc)
  have c: "\<forall>a. a \<notin> wake ` set (concat (map lifting_surfaces (body # bs))) \<longrightarrow> W a = wakes t a"
    using W(2) W1(2) by (auto simp: image_Un)
  have e: "\<forall>b < length (body # bs). \<forall>l < length (lifting_surfaces ((body # bs) ! b)).
        W (wake (lifting_surfaces ((body # bs) ! b) ! l))
          = convected_wake p g dt t ((body # bs) ! b) (lifting_surfaces ((body # bs) ! b) ! l)
              (wake_velocities ! (idx + length (concat (map lifting_surfaces (take b (body # bs)))) + l))"
  proof (intro allI impI)
    fix b l
    assume b: "b < length (body # bs)" and l: "l < length (lifting_surfaces ((body # bs) ! b))"
    show "W (wake (lifting_surfaces ((body # bs) ! b) ! l))
          = convected_wake p g dt t ((body # bs) ! b) (lifting_surfaces ((body # bs) ! b) ! l)
              (wake_velocities ! (idx + length (concat (map lifting_surfaces (take b (body # bs)))) + l))"
    proof (cases b)
      case 0
      with l have l': "l < length (lifting_surfaces body)" by simp
      then have "wake (lifting_surfaces body ! l) \<in> wake ` set (lifting_surfaces body)" by simp
      with disj have "wake (lifting_surfaces body ! l) \<notin> wake ` set (concat (map lifting_surfaces bs))"
        by blast
      with W(2) have "W (wake (lifting_surfaces body ! l)) = W1 (wake (lifting_surfaces body ! l))"
        by simp
      with W1(3) l' 0 show ?thesis by simp
    next
      case (Suc b')
      with b l have b': "b' < length bs" and l': "l < length (lifting_surfaces (bs ! b'))" by simp_all
      then have mem: "lifting_surfaces (bs ! b') ! l \<in> set (concat (map lifting_surfaces bs))"
        by (auto intro!: bexI [of _ "bs ! b'"])
      have "convected_wake p g dt ?t1 (bs ! b') (lifting_surfaces (bs ! b') ! l)
              (wake_velocities ! (?i1 + length (concat (map lifting_surfaces (take b' bs))) + l))
            = convected_wake p g dt t (bs ! b') (lifting_surfaces (bs ! b') ! l)
              (wake_velocities ! (?i1 + length (concat (map lifting_surfaces (take b' bs))) + l))"
        by (rule convected_wake_cong) (use same [OF mem] in simp_all)
      with W(3) b' l' Suc show ?thesis by (simp add: add.assoc)
    qed
  qed
  from a c e show ?case by blast
qed

lemma nth_concat_map_lifting_surfaces:
  "b < length bs \<Longrightarrow> l < length (lifting_surfaces (bs ! b)) \<Longrightarrow>
   concat (map (\<lambda>body. map h (lifting_surfaces body)) bs)
     ! (length (concat (map lifting_surfaces (take b bs))) + l)
   = h (lifting_surfaces (bs ! b) ! l)"
proof (induction bs arbitrary: b)
  case Nil
  then show ?case by simp
next
  case (Cons body bs)
  show ?case
  proof (cases b)
    case 0
    with Cons.prems show ?thesis by (simp add: nth_append)
  next
    case (Suc b')
    with Cons.prems Cons.IH [of b'] show ?thesis by (simp add: nth_append)
  qed
qed

text \<open>
  C7. With wake convection, \<^verbatim>\<open>update_wakes\<close> leaves every wake (each belonging to one lifting
  surface and holding at least the nodes of one strip) as follows: every node of the newest
  strip, the last \<^verbatim>\<open>n_spanwise_nodes\<close> ones, is displaced by
  \<^verbatim>\<open>compute_trailing_edge_vortex_displacement\<close> for its spanwise index; every other node is
  moved by \<open>dt\<close> times the stream velocity at its position, evaluated in the state in which
  \<^verbatim>\<open>update_wakes\<close> was called, that is before any node of any wake has moved; then the wake
  updates its properties and adds a layer.
\<close>

theorem update_wakes_convecting:
  fixes p g dt s b l
  defines "d \<equiv> lifting_surfaces (bodies s ! b) ! l"
  defines "w \<equiv> wakes s (wake d)"
  defines "n \<equiv> length (wake_nodes w)"
  defines "m \<equiv> n - n_spanwise_nodes (lifting_surface d)"
  assumes "convect_wake p"
      and "distinct (map wake (concat (map lifting_surfaces (bodies s))))"
      and "\<forall>d \<in> set (concat (map lifting_surfaces (bodies s))).
             n_spanwise_nodes (lifting_surface d) \<le> length (wake_nodes (wakes s (wake d)))"
      and "b < length (bodies s)"
      and "l < length (lifting_surfaces (bodies s ! b))"
  shows "update_wakes p g dt s = Some (convect_wakes p g dt s)
       \<and> wakes (convect_wakes p g dt s) (wake d) =
           add_layer g
             (update_properties g
                (w\<lparr>wake_nodes :=
                     map (\<lambda>i. if i < m
                              then wake_nodes w ! i + scale dt (stream_velocity g s (wake_nodes w ! i))
                              else wake_nodes w ! i
                                     + compute_trailing_edge_vortex_displacement p s (bodies s ! b)
                                         (lifting_surface d) (i - m) dt)
                       [0 ..< n]\<rparr>)
                dt)"
proof -
  let ?wv = "sample_wake_velocities g s"
  let ?h = "\<lambda>d. map (\<lambda>i. stream_velocity g s (wake_nodes (wakes s (wake d)) ! i))
                    [0 ..< length (wake_nodes (wakes s (wake d)))]"
  obtain W where W:
    "fold (\<lambda>body. fold (convect_wake_lifting_surface p g dt ?wv body) (lifting_surfaces body))
       (bodies s) (0, s)
     = (0 + length (concat (map lifting_surfaces (bodies s))), s\<lparr>wakes := W\<rparr>)"
    "\<forall>b < length (bodies s). \<forall>l < length (lifting_surfaces (bodies s ! b)).
        W (wake (lifting_surfaces (bodies s ! b) ! l))
          = convected_wake p g dt s (bodies s ! b) (lifting_surfaces (bodies s ! b) ! l)
              (?wv ! (0 + length (concat (map lifting_surfaces (take b (bodies s)))) + l))"
    using fold_convect_wake_body [OF assms(6,7), of p g dt ?wv 0] by blast
  have cw: "convect_wakes p g dt s = s\<lparr>wakes := W\<rparr>"
    unfolding convect_wakes_def Let_def W(1) by simp
  have wv: "?wv = concat (map (\<lambda>body. map ?h (lifting_surfaces body)) (bodies s))"
    unfolding sample_wake_velocities_def ..
  have local: "?wv ! (0 + length (concat (map lifting_surfaces (take b (bodies s)))) + l) = ?h d"
    unfolding wv d_def add_0
    by (rule nth_concat_map_lifting_surfaces [OF assms(8,9)])
  have Wd: "W (wake d) = convected_wake p g dt s (bodies s ! b) d (?h d)"
    using W(2) [rule_format, OF assms(8,9)] unfolding local d_def [symmetric] .
  have nodes: "map (\<lambda>i. if i < m then wake_nodes w ! i + scale dt (?h d ! i)
                          else wake_nodes w ! i
                                 + compute_trailing_edge_vortex_displacement p s (bodies s ! b)
                                     (lifting_surface d) (i - m) dt) [0 ..< n]
             = map (\<lambda>i. if i < m
                              then wake_nodes w ! i + scale dt (stream_velocity g s (wake_nodes w ! i))
                              else wake_nodes w ! i
                                     + compute_trailing_edge_vortex_displacement p s (bodies s ! b)
                                         (lifting_surface d) (i - m) dt)
                       [0 ..< n]"
  proof (rule map_cong [OF refl])
    fix i assume "i \<in> set [0 ..< n]"
    then have "i < n" by simp
    then have "?h d ! i = stream_velocity g s (wake_nodes w ! i)"
      unfolding w_def n_def by simp
    then show "(if i < m then wake_nodes w ! i + scale dt (?h d ! i)
                else wake_nodes w ! i
                       + compute_trailing_edge_vortex_displacement p s (bodies s ! b)
                           (lifting_surface d) (i - m) dt)
             = (if i < m
                then wake_nodes w ! i + scale dt (stream_velocity g s (wake_nodes w ! i))
                else wake_nodes w ! i
                       + compute_trailing_edge_vortex_displacement p s (bodies s ! b)
                           (lifting_surface d) (i - m) dt)"
      by simp
  qed
  have cwd: "convected_wake p g dt s (bodies s ! b) d (?h d)
        = add_layer g
             (update_properties g
                (w\<lparr>wake_nodes :=
                     map (\<lambda>i. if i < m then wake_nodes w ! i + scale dt (?h d ! i)
                          else wake_nodes w ! i
                                 + compute_trailing_edge_vortex_displacement p s (bodies s ! b)
                                     (lifting_surface d) (i - m) dt) [0 ..< n]\<rparr>)
                dt)"
    unfolding convected_wake_def Let_def w_def n_def m_def ..
  have up: "update_wakes p g dt s = Some (convect_wakes p g dt s)"
    unfolding update_wakes_def using assms(5) by simp
  have "wakes (convect_wakes p g dt s) (wake d) = W (wake d)"
    unfolding cw by simp
  also note Wd
  also note cwd
  also note nodes
  finally show ?thesis using up by simp
qed

lemma example_fields:
  "bodies example_solver = [example_body]"
  "lifting_surfaces example_body = [example_lifting_data]"
  "wake example_lifting_data = 0"
  "wakes example_solver a = example_wake"
  "n_spanwise_nodes (lifting_surface example_lifting_data) = 2"
  "n_spanwise_panels (lifting_surface example_lifting_data) = 1"
  "freestream_velocity example_solver = Vector3d 0 0 0"
  "convect_wake example_parameters"
  by (simp_all add: example_solver_def example_body_def example_lifting_data_def
        example_lifting_surface_def surface.extend_def lifting_surface.fields_def
        example_parameters_def)

lemma example_stream_velocity:
  "stream_velocity (example_externals reported) example_solver x = Vector3d 0 0 (27 / 2)"
  unfolding stream_velocity_def compute_disturbance_velocity_def
  by (simp add: example_fields surface_panels_velocity_def wake_panels_velocity_def
        example_solver_def example_non_lifting_data_def example_lifting_data_def
        example_lifting_surface_def example_surface_def example_externals_def example_wake_def
        example_body_def
        surface_data.truncate_def surface.truncate_def surface.extend_def lifting_surface.fields_def
        scale_def plus_vec3_def upt_rec [of _ "numeral _"] upt_rec [of _ "Suc _"])

lemma example_trailing_edge_displacement:
  "compute_trailing_edge_vortex_displacement example_parameters example_solver example_body
     (lifting_surface example_lifting_data) i 2 = Vector3d (1 / 2) 0 0"
  unfolding compute_trailing_edge_vortex_displacement_def
  by (simp add: example_fields example_parameters_def example_body_def scale_def
        minus_vec3_def uminus_vec3_def)

lemma example_wake_updates:
  "update_properties (example_externals reported) w dt = w"
  "add_layer (example_externals reported) w
     = w\<lparr>wake_nodes := wake_nodes w @ [Vector3d 0 0 0, Vector3d 0 1 0],
          wake_n_panels := wake_n_panels w + 1,
          wake_doublet_coefficients := wake_doublet_coefficients w @ [0]\<rparr>"
  by (simp_all add: example_externals_def)

theorem update_wakes_convecting_witness:
  "convect_wake example_parameters
   \<and> distinct (map wake (concat (map lifting_surfaces (bodies example_solver))))
   \<and> list_all (\<lambda>d. n_spanwise_nodes (lifting_surface d)
                        \<le> length (wake_nodes (wakes example_solver (wake d))))
        (concat (map lifting_surfaces (bodies example_solver)))
   \<and> update_wakes example_parameters (example_externals Success) 2 example_solver
       = Some (convect_wakes example_parameters (example_externals Success) 2 example_solver)
   \<and> wake_nodes (wakes (convect_wakes example_parameters (example_externals Success) 2 example_solver) 0)
       = [Vector3d 3 0 27, Vector3d 3 1 27, Vector3d 2 0 27, Vector3d 2 1 27,
          Vector3d (3 / 2) 0 0, Vector3d (3 / 2) 1 0,
          Vector3d 0 0 0, Vector3d 0 1 0]"
proof -
  have h1: "convect_wake example_parameters"
    by (simp add: example_fields)
  have h2: "distinct (map wake (concat (map lifting_surfaces (bodies example_solver))))"
    by (simp add: example_fields)
  have h3: "\<forall>d \<in> set (concat (map lifting_surfaces (bodies example_solver))).
              n_spanwise_nodes (lifting_surface d) \<le> length (wake_nodes (wakes example_solver (wake d)))"
    by (simp add: example_fields example_wake_def)
  have h4: "0 < length (bodies example_solver)"
    "0 < length (lifting_surfaces (bodies example_solver ! 0))"
    by (simp_all add: example_fields)
  show ?thesis
    using h1 h2 h3 update_wakes_convecting [OF h1 h2 h3 h4, of "example_externals Success" 2]
    by (simp add: example_fields example_stream_velocity example_trailing_edge_displacement
          list_all_iff example_wake_def example_wake_updates scale_def plus_vec3_def
          upt_rec [of _ "numeral _"] upt_rec [of _ "Suc _"])
qed

subsection \<open>Surface velocity in Marcov mode\<close>

lemma marcov_compute_surface_velocity:
  assumes "marcov_surface_velocity p"
  shows "compute_surface_velocity p g s sf offset panel =
           (let tangential_velocity =
                  uninitialized_Vector3d g offset panel
                    - (panel_kinematic_velocity (body_of s sf) sf panel - freestream_velocity s);
                normal = panel_normal sf panel
            in tangential_velocity - scale (dot tangential_velocity normal) normal)"
  using assms unfolding compute_surface_velocity_def Let_def by simp

lemma marcov_compute_surface_velocity_ignores_coefficients:
  assumes "marcov_surface_velocity p"
  shows "compute_surface_velocity p g
           (s\<lparr>doublet_coefficients := mu, source_coefficients := sigma, wakes := W\<rparr>) sf offset panel
         = compute_surface_velocity p g s sf offset panel"
  unfolding marcov_compute_surface_velocity [OF assms]
  by (simp add: body_of_def)

lemma example_disturbance_velocity:
  "compute_disturbance_velocity (example_externals reported) example_solver x = Vector3d 0 0 (27 / 2)"
  using example_stream_velocity [of reported x]
  unfolding stream_velocity_def
  by (simp add: example_fields plus_vec3_def vec3.expand)

lemma example_surface_fields:
  "panel_normal (example_surface a i) panel = Vector3d 0 0 1"
  "panel_collocation_point (example_surface a i) panel flag = Vector3d (real panel) 0 0"
  "scalar_field_gradient (example_surface a i) mu offset panel = Vector3d (mu ! (offset + panel)) 0 0"
  "surface_id (example_surface a i) = i"
  "n_panels (example_surface a i) = 2"
  by (simp_all add: example_surface_def)

lemma example_bodies:
  "body_of example_solver (example_surface a 10) = example_body"
  "panel_kinematic_velocity example_body sf panel = Vector3d (- 1) 0 0"
  "node_kinematic_velocity example_body sf node = Vector3d (- 1) 0 0"
  "velocity example_body = Vector3d (- 1) 0 0"
  "doublet_coefficients example_solver = [1, 2, 7, 3]"
  by (simp_all add: body_of_def example_solver_def example_surface_fields example_body_def)

text \<open>
  C2, at a panel of the small configuration with the Marcov switch on. The specified value is
  \<open>(1/2, 0, 0)\<close>; \<^verbatim>\<open>compute_surface_velocity\<close> returns \<open>(10, 9, 0)\<close>, made of the content
  \<open>(9, 9, 9)\<close> of the uninitialised vector and the apparent velocity \<open>(-1, 0, 0)\<close>: the
  disturbance velocity and the gradient do not reach the result.
\<close>

theorem marcov_surface_velocity_reads_uninitialized_vector:
  "compute_surface_velocity (example_parameters\<lparr>marcov_surface_velocity := True\<rparr>)
     (example_externals Success) example_solver (example_surface 1 10) 0 0 = Vector3d 10 9 0
   \<and> specified_marcov_surface_velocity (example_externals Success) example_solver
       (example_surface 1 10) 0 0 = Vector3d (1 / 2) 0 0"
proof -
  have u: "uninitialized_Vector3d (example_externals Success) 0 0 = Vector3d 9 9 9"
    by (simp add: example_externals_def)
  have a: "compute_surface_velocity (example_parameters\<lparr>marcov_surface_velocity := True\<rparr>)
             (example_externals Success) example_solver (example_surface 1 10) 0 0 = Vector3d 10 9 0"
    by (subst marcov_compute_surface_velocity)
       (simp_all add: u example_bodies example_fields example_surface_fields
          minus_vec3_def scale_def dot_def)
  have b: "specified_marcov_surface_velocity (example_externals Success) example_solver
             (example_surface 1 10) 0 0 = Vector3d (1 / 2) 0 0"
    unfolding specified_marcov_surface_velocity_def example_disturbance_velocity
    by (simp add: example_bodies example_fields example_surface_fields
          minus_vec3_def scale_def dot_def)
  from a b show ?thesis by simp
qed

subsection \<open>Fluid and bodies at rest\<close>

lemma scale_zero: "scale 0 v = 0"
  unfolding scale_def zero_vec3_def by simp

lemma dot_zero: "dot 0 v = 0"
  unfolding dot_def zero_vec3_def by simp

lemma squaredNorm_zero: "squaredNorm 0 = 0"
  unfolding squaredNorm_def by (rule dot_zero)

lemma old_wake_panels_zero:
  assumes "\<forall>k < wake_n_panels (wakes s (wake d)) - n_spanwise_panels (lifting_surface d).
             wake_doublet_coefficients (wakes s (wake d)) ! k = 0"
  shows "old_wake_panels g s sf panel d u = u"
proof -
  have "\<forall>k \<in> set xs. c ! k = (0::real) \<Longrightarrow> fold (\<lambda>k u. u - scale (c ! k) (F k)) xs u = u"
    for xs c F
    by (induction xs arbitrary: u) (simp_all add: scale_zero)
  then show ?thesis
    unfolding old_wake_panels_def using assms by simp
qed

lemma fold_old_wake_panels_zero:
  assumes "\<forall>d \<in> set ds. \<forall>k < wake_n_panels (wakes s (wake d)) - n_spanwise_panels (lifting_surface d).
             wake_doublet_coefficients (wakes s (wake d)) ! k = 0"
  shows "fold (\<lambda>d u. old_wake_panels g s sf panel d u) ds u = u"
  using assms by (induction ds arbitrary: u) (simp_all add: old_wake_panels_zero)

lemma fold_bodies_old_wake_panels_zero:
  assumes "\<forall>b \<in> set bs. \<forall>d \<in> set (lifting_surfaces b).
             \<forall>k < wake_n_panels (wakes s (wake d)) - n_spanwise_panels (lifting_surface d).
               wake_doublet_coefficients (wakes s (wake d)) ! k = 0"
  shows "fold (\<lambda>body u. fold (\<lambda>d u. old_wake_panels g s sf panel d u) (lifting_surfaces body) u) bs u = u"
  using assms by (induction bs arbitrary: u) (simp_all add: fold_old_wake_panels_zero)

lemma compute_source_coefficient_at_rest:
  assumes "freestream_velocity s = 0"
      and "panel_kinematic_velocity body0 sf panel = 0"
      and "convect_wake p \<and> w \<longrightarrow>
             (\<forall>b \<in> set (bodies s). \<forall>d \<in> set (lifting_surfaces b).
                \<forall>k < wake_n_panels (wakes s (wake d)) - n_spanwise_panels (lifting_surface d).
                  wake_doublet_coefficients (wakes s (wake d)) ! k = 0)"
  shows "compute_source_coefficient p g s body0 sf panel DummyBoundaryLayer w = 0"
proof (cases "convect_wake p \<and> w")
  case True
  with assms(3) have "fold (\<lambda>body u. fold (\<lambda>d u. old_wake_panels g s sf panel d u) (lifting_surfaces body) u)
                        (bodies s) u = u" for u
    by (intro fold_bodies_old_wake_panels_zero) simp
  then show ?thesis
    unfolding compute_source_coefficient_def Let_def using assms(1,2) by (simp add: dot_zero)
next
  case False
  then show ?thesis
    unfolding compute_source_coefficient_def Let_def using assms(1,2) by (auto simp: dot_zero)
qed

lemma compute_source_coefficient_frame:
  "compute_source_coefficient p g (s\<lparr>source_coefficients := v\<rparr>) = compute_source_coefficient p g s"
  unfolding compute_source_coefficient_def old_wake_panels_def by (intro ext) (simp add: Let_def cong: if_cong)

lemma fold_source_coefficients_zero:
  assumes "set (source_coefficients s) \<subseteq> {0}"
      and "\<forall>i \<in> set xs. \<forall>v. F i (s\<lparr>source_coefficients := v\<rparr>) = 0"
  shows "\<exists>v. set v \<subseteq> {0}
     \<and> fold (\<lambda>i s. s\<lparr>source_coefficients := (source_coefficients s)[k i := F i s]\<rparr>) xs s
         = s\<lparr>source_coefficients := v\<rparr>"
  using assms
proof (induction xs arbitrary: s)
  case Nil
  show ?case by (rule exI [of _ "source_coefficients s"]) (use Nil in simp)
next
  case (Cons x xs)
  let ?s1 = "s\<lparr>source_coefficients := (source_coefficients s)[k x := 0]\<rparr>"
  from Cons.prems(2) have "\<forall>v. F x (s\<lparr>source_coefficients := v\<rparr>) = 0" by simp
  from this [rule_format, of "source_coefficients s"] have x: "F x s = 0" by simp
  have "set (source_coefficients ?s1) \<subseteq> {0}"
    using Cons.prems(1) set_update_subset_insert [of "source_coefficients s" "k x" 0] by auto
  moreover have "\<forall>i \<in> set xs. \<forall>v. F i (?s1\<lparr>source_coefficients := v\<rparr>) = 0"
    using Cons.prems(2) by simp
  ultimately obtain v where v: "set v \<subseteq> {0}"
    "fold (\<lambda>i s. s\<lparr>source_coefficients := (source_coefficients s)[k i := F i s]\<rparr>) xs ?s1
       = ?s1\<lparr>source_coefficients := v\<rparr>"
    using Cons.IH [of ?s1] by blast
  show ?case
    by (rule exI [of _ v]) (simp add: x v)
qed

lemma fold_source_distribution_surface_zero:
  assumes "freestream_velocity s = 0"
      and "\<forall>d \<in> set ds. \<exists>body. surface_id_to_body s (surface_id (surface d)) = Some body
             \<and> (\<forall>i < n_panels (surface d). panel_kinematic_velocity body (surface d) i = 0)"
      and "\<forall>d \<in> set ds. boundary_layers s (boundary_layer d) = DummyBoundaryLayer"
      and "convect_wake p \<and> w \<longrightarrow>
             (\<forall>b \<in> set (bodies s). \<forall>d \<in> set (lifting_surfaces b).
                \<forall>k < wake_n_panels (wakes s (wake d)) - n_spanwise_panels (lifting_surface d).
                  wake_doublet_coefficients (wakes s (wake d)) ! k = 0)"
      and "set (source_coefficients s) \<subseteq> {0}"
  shows "\<exists>offset' v. set v \<subseteq> {0}
     \<and> fold (source_distribution_surface p g w) ds (offset, s) = (offset', s\<lparr>source_coefficients := v\<rparr>)"
  using assms
proof (induction ds arbitrary: offset s)
  case Nil
  show ?case
    by (intro exI [of _ offset] exI [of _ "source_coefficients s"]) (use Nil in simp)
next
  case (Cons d ds)
  obtain body where body: "surface_id_to_body s (surface_id (surface d)) = Some body"
    "\<forall>i < n_panels (surface d). panel_kinematic_velocity body (surface d) i = 0"
    using Cons.prems(2) by auto
  have bl: "boundary_layers s (boundary_layer d) = DummyBoundaryLayer"
    using Cons.prems(3) by simp
  have zero: "compute_source_coefficient p g s body (surface d) i DummyBoundaryLayer w = 0"
    if "i < n_panels (surface d)" for i
    using compute_source_coefficient_at_rest [OF Cons.prems(1) _ Cons.prems(4)] body(2) that by simp
  have "\<forall>i \<in> set [0 ..< n_panels (surface d)]. \<forall>v.
          compute_source_coefficient p g (s\<lparr>source_coefficients := v\<rparr>) body (surface d) i
            (boundary_layers (s\<lparr>source_coefficients := v\<rparr>) (boundary_layer d)) w = 0"
    by (simp add: compute_source_coefficient_frame bl zero)
  from fold_source_coefficients_zero [OF Cons.prems(5) this, of "\<lambda>i. offset + i"]
  obtain v where v: "set v \<subseteq> {0}"
    "fold (\<lambda>i s. s\<lparr>source_coefficients := (source_coefficients s)
                     [offset + i := compute_source_coefficient p g s body (surface d) i
                                      (boundary_layers s (boundary_layer d)) w]\<rparr>)
       [0 ..< n_panels (surface d)] s
       = s\<lparr>source_coefficients := v\<rparr>"
    by blast
  have step: "source_distribution_surface p g w d (offset, s)
                = (offset + n_panels (surface d), s\<lparr>source_coefficients := v\<rparr>)"
    unfolding source_distribution_surface_def
    by (simp add: Let_def body_of_def body(1) v(2))
  let ?s1 = "s\<lparr>source_coefficients := v\<rparr>"
  have "\<exists>offset' v'. set v' \<subseteq> {0}
          \<and> fold (source_distribution_surface p g w) ds (offset + n_panels (surface d), ?s1)
              = (offset', ?s1\<lparr>source_coefficients := v'\<rparr>)"
    by (rule Cons.IH) (use Cons.prems v(1) in simp_all)
  then obtain offset' v' where "set v' \<subseteq> {0}"
    "fold (source_distribution_surface p g w) ds (offset + n_panels (surface d), ?s1)
       = (offset', ?s1\<lparr>source_coefficients := v'\<rparr>)"
    by blast
  then show ?case
    by (intro exI [of _ offset'] exI [of _ v']) (simp add: step)
qed

lemma compute_source_distribution_at_rest:
  assumes "freestream_velocity s = 0"
      and "\<forall>d \<in> set (non_wake_surfaces s). \<exists>body. surface_id_to_body s (surface_id (surface d)) = Some body
             \<and> (\<forall>i < n_panels (surface d). panel_kinematic_velocity body (surface d) i = 0)"
      and "\<forall>d \<in> set (non_wake_surfaces s). boundary_layers s (boundary_layer d) = DummyBoundaryLayer"
      and "convect_wake p \<and> w \<longrightarrow>
             (\<forall>b \<in> set (bodies s). \<forall>d \<in> set (lifting_surfaces b).
                \<forall>k < wake_n_panels (wakes s (wake d)) - n_spanwise_panels (lifting_surface d).
                  wake_doublet_coefficients (wakes s (wake d)) ! k = 0)"
      and "set (source_coefficients s) \<subseteq> {0}"
  shows "\<exists>v. set v \<subseteq> {0} \<and> compute_source_distribution p g w s = s\<lparr>source_coefficients := v\<rparr>"
proof -
  obtain offset' v where "set v \<subseteq> {0}"
    "fold (source_distribution_surface p g w) (non_wake_surfaces s) (0, s)
       = (offset', s\<lparr>source_coefficients := v\<rparr>)"
    using fold_source_distribution_surface_zero [OF assms, of g 0] by blast
  then show ?thesis unfolding compute_source_distribution_def by auto
qed

lemma matrix_times_zero_vector:
  assumes "set v \<subseteq> {0}"
  shows "set (matrix_times_vector M v) \<subseteq> {0}"
proof -
  have "(\<Sum>(a, x) \<leftarrow> zip row v. a * x) = 0" for row :: "real list"
  proof -
    have "\<forall>y \<in> set ys. f y = (0::real) \<Longrightarrow> sum_list (map f ys) = 0" for f and ys :: "(real \<times> real) list"
      by (induction ys) simp_all
    moreover have "\<forall>y \<in> set (zip row v). (case y of (a, x) \<Rightarrow> a * x) = 0"
      using assms by (auto dest: set_zip_rightD)
    ultimately show ?thesis by blast
  qed
  then show ?thesis unfolding matrix_times_vector_def by auto
qed

lemma fold_recalculate_surface_dummy:
  assumes "\<forall>d \<in> set ds. boundary_layers s (boundary_layer d) = DummyBoundaryLayer"
  shows "snd (fold recalculate_surface ds (offset, have_boundary_layer, s)) = (have_boundary_layer, s)"
  using assms
  by (induction ds arbitrary: offset) (simp_all add: recalculate_surface_def)

lemma recompute_boundary_layers_dummy:
  assumes "\<forall>d \<in> set (non_wake_surfaces s). boundary_layers s (boundary_layer d) = DummyBoundaryLayer"
  shows "recompute_boundary_layers s = (False, s)"
  unfolding recompute_boundary_layers_def using fold_recalculate_surface_dummy [OF assms] .

lemma boundary_layer_pass_dummy:
  assumes "info (compute_doublet_distribution p g (compute_source_distribution p g True s)) = Success"
      and "\<forall>d \<in> set (non_wake_surfaces s). boundary_layers s (boundary_layer d) = DummyBoundaryLayer"
  shows "\<exists>W V. boundary_layer_pass p g boundary_layer_iteration s
           = Break ((compute_source_distribution p g True s)
                      \<lparr>doublet_coefficients :=
                         solution (compute_doublet_distribution p g (compute_source_distribution p g True s)),
                       wakes := W, surface_velocities := V\<rparr>)"
proof -
  let ?s1 = "compute_source_distribution p g True s"
  let ?r = "compute_doublet_distribution p g ?s1"
  let ?s2 = "?s1\<lparr>doublet_coefficients := solution ?r\<rparr>"
  obtain v where v: "?s1 = s\<lparr>source_coefficients := v\<rparr>"
    using compute_source_distribution_frame by blast
  obtain W where W: "update_wake_doublet_distribution ?s2 = ?s2\<lparr>wakes := W\<rparr>"
    using update_wake_doublet_distribution_frame [of ?s2] by auto
  let ?s3 = "?s2\<lparr>wakes := W\<rparr>"
  obtain V where V: "compute_surface_velocity_distribution p g ?s3 = ?s3\<lparr>surface_velocities := V\<rparr>"
    using compute_surface_velocity_distribution_frame by blast
  let ?s4 = "?s3\<lparr>surface_velocities := V\<rparr>"
  have "\<forall>d \<in> set (non_wake_surfaces ?s4). boundary_layers ?s4 (boundary_layer d) = DummyBoundaryLayer"
    using assms(2) by (simp add: v)
  then have B: "recompute_boundary_layers ?s4 = (False, ?s4)"
    by (rule recompute_boundary_layers_dummy)
  have "boundary_layer_pass p g boundary_layer_iteration s = Break ?s4"
    unfolding boundary_layer_pass_def Let_def
    using assms(1) by (simp add: W V B)
  then show ?thesis by blast
qed

lemma compute_doublet_distribution_zero:
  assumes "set (source_coefficients s) \<subseteq> {0}"
      and "\<forall>A b guess. set b \<subseteq> {0} \<longrightarrow>
             info (solveWithGuess g (linear_solver_max_iterations p) (linear_solver_tolerance p) A b guess)
               = Success
             \<and> set (solution (solveWithGuess g (linear_solver_max_iterations p) (linear_solver_tolerance p)
                                A b guess)) \<subseteq> {0}"
  shows "info (compute_doublet_distribution p g s) = Success
       \<and> set (solution (compute_doublet_distribution p g s)) \<subseteq> {0}"
proof -
  obtain A S where AS: "influence_coefficients g s = (A, S)"
    by (cases "influence_coefficients g s") auto
  have "set (matrix_times_vector S (source_coefficients s)) \<subseteq> {0}"
    using assms(1) by (rule matrix_times_zero_vector)
  with assms(2) show ?thesis
    unfolding compute_doublet_distribution_def AS Let_def by simp
qed

lemma solve_pressure_coefficient_at_rest:
  assumes "fst (solve p g dt propagate0 s0)"
      and "j < length (non_wake_surfaces s0)"
      and "i < n_panels (surface (non_wake_surfaces s0 ! j))"
      and "surface_id_to_body s0 (surface_id (surface (non_wake_surfaces s0 ! j))) = Some body"
      and "velocity body = freestream_velocity s0"
      and "surface_offset (non_wake_surfaces s0) j + i < length (surface_velocity_potentials s0)"
      and "surface_offset (non_wake_surfaces s0) j + i < length (pressure_coefficients s0)"
  shows "pressure_coefficients (snd (solve p g dt propagate0 s0)) ! (surface_offset (non_wake_surfaces s0) j + i)
         = None"
  unfolding solve_pressure_coefficient [OF assms(1,2,3,4,6,7)] assms(5)
  by (simp add: compute_pressure_coefficient_def squaredNorm_zero)

text \<open>
  C6. With the freestream velocity zero, every registered surface on a body whose velocity
  and panel velocities are zero, only dummy boundary layers, no circulation in the wake
  strips below the newest ones (when wakes are convected), the source coefficients zero
  before the call, and a linear solver that answers the zero right-hand side with success
  and the zero vector, \<^verbatim>\<open>solve\<close> returns true with all source coefficients and all doublet
  coefficients zero. The pressure coefficients are not zero: the reference velocity is zero,
  and each stored coefficient of a registered panel is the quotient by zero of
  \<^verbatim>\<open>compute_pressure_coefficient\<close>, which is not a finite number.
\<close>

theorem still_fluid_solve:
  fixes p g dt propagate0 s0
  defines "s' \<equiv> snd (solve p g dt propagate0 s0)"
  assumes "freestream_velocity s0 = 0"
      and "\<forall>d \<in> set (non_wake_surfaces s0).
             \<exists>body. surface_id_to_body s0 (surface_id (surface d)) = Some body \<and> velocity body = 0
               \<and> (\<forall>i < n_panels (surface d). panel_kinematic_velocity body (surface d) i = 0)"
      and "\<forall>d \<in> set (non_wake_surfaces s0). boundary_layers s0 (boundary_layer d) = DummyBoundaryLayer"
      and "convect_wake p \<longrightarrow>
             (\<forall>b \<in> set (bodies s0). \<forall>d \<in> set (lifting_surfaces b).
                \<forall>k < wake_n_panels (wakes s0 (wake d)) - n_spanwise_panels (lifting_surface d).
                  wake_doublet_coefficients (wakes s0 (wake d)) ! k = 0)"
      and "set (source_coefficients s0) \<subseteq> {0}"
      and "\<forall>A b guess. set b \<subseteq> {0} \<longrightarrow>
             info (solveWithGuess g (linear_solver_max_iterations p) (linear_solver_tolerance p) A b guess)
               = Success
             \<and> set (solution (solveWithGuess g (linear_solver_max_iterations p) (linear_solver_tolerance p)
                                A b guess)) \<subseteq> {0}"
  shows "fst (solve p g dt propagate0 s0)
       \<and> length (source_coefficients s') = length (source_coefficients s0)
       \<and> set (source_coefficients s') \<subseteq> {0}
       \<and> set (doublet_coefficients s') \<subseteq> {0}
       \<and> (\<forall>j < length (non_wake_surfaces s0). \<forall>i < n_panels (surface (non_wake_surfaces s0 ! j)).
             surface_offset (non_wake_surfaces s0) j + i < length (surface_velocity_potentials s0) \<longrightarrow>
             surface_offset (non_wake_surfaces s0) j + i < length (pressure_coefficients s0) \<longrightarrow>
             pressure_coefficients s' ! (surface_offset (non_wake_surfaces s0) j + i) = None)"
proof -
  have bodies0: "\<forall>d \<in> set (non_wake_surfaces s0).
                   \<exists>body. surface_id_to_body s0 (surface_id (surface d)) = Some body
                     \<and> (\<forall>i < n_panels (surface d). panel_kinematic_velocity body (surface d) i = 0)"
    using assms(3) by blast
  let ?s1 = "compute_source_distribution p g True s0"
  let ?r = "compute_doublet_distribution p g ?s1"
  have wk: "convect_wake p \<and> True \<longrightarrow>
             (\<forall>b \<in> set (bodies s0). \<forall>d \<in> set (lifting_surfaces b).
                \<forall>k < wake_n_panels (wakes s0 (wake d)) - n_spanwise_panels (lifting_surface d).
                  wake_doublet_coefficients (wakes s0 (wake d)) ! k = 0)"
    using assms(5) by simp
  obtain v where v: "set v \<subseteq> {0}" "?s1 = s0\<lparr>source_coefficients := v\<rparr>"
    using compute_source_distribution_at_rest [OF assms(2) bodies0 assms(4) wk assms(6), of g] by blast
  obtain v0 where v0: "length v0 = length (source_coefficients s0)" "?s1 = s0\<lparr>source_coefficients := v0\<rparr>"
    using compute_source_distribution_frame [of s0 p g True] by blast
  have "source_coefficients (s0\<lparr>source_coefficients := v\<rparr>) = source_coefficients (s0\<lparr>source_coefficients := v0\<rparr>)"
    using v(2) v0(2) by simp
  then have lv: "length v = length (source_coefficients s0)"
    using v0(1) by simp
  have "set (source_coefficients ?s1) \<subseteq> {0}"
    unfolding v(2) using v(1) by simp
  from compute_doublet_distribution_zero [OF this assms(7)]
  have r: "info ?r = Success" "set (solution ?r) \<subseteq> {0}"
    by simp_all
  have "\<forall>d \<in> set (non_wake_surfaces s0). boundary_layers s0 (boundary_layer d) = DummyBoundaryLayer"
    by (rule assms(4))
  from boundary_layer_pass_dummy [OF r(1) this, of 0]
  obtain W V where pass: "boundary_layer_pass p g 0 s0
                            = Break (?s1\<lparr>doublet_coefficients := solution ?r, wakes := W, surface_velocities := V\<rparr>)"
    by blast
  let ?s4 = "?s1\<lparr>doublet_coefficients := solution ?r, wakes := W, surface_velocities := V\<rparr>"
  define t where "t = (if convect_wake p then compute_source_distribution p g False ?s4 else ?s4)"
  have fin: "solve p g dt propagate0 s0
               = (True, if propagate0 then propagate (compute_pressure_distribution p g dt t)
                        else compute_pressure_distribution p g dt t)"
    unfolding solve_of_last_pass [OF enters_pass.first_pass pass] t_def Let_def by simp
  have "\<exists>v'. set v' \<subseteq> {0} \<and> length v' = length (source_coefficients s0)
             \<and> t = ?s4\<lparr>source_coefficients := v'\<rparr>"
  proof (cases "convect_wake p")
    case False
    show ?thesis
      by (rule exI [of _ v]) (simp add: t_def False v lv)
  next
    case True
    have a1: "freestream_velocity ?s4 = 0"
      using assms(2) by (simp add: v(2))
    have a2: "\<forall>d \<in> set (non_wake_surfaces ?s4).
                \<exists>body. surface_id_to_body ?s4 (surface_id (surface d)) = Some body
                  \<and> (\<forall>i < n_panels (surface d). panel_kinematic_velocity body (surface d) i = 0)"
      using bodies0 by (simp add: v(2))
    have a3: "\<forall>d \<in> set (non_wake_surfaces ?s4). boundary_layers ?s4 (boundary_layer d) = DummyBoundaryLayer"
      using assms(4) by (simp add: v(2))
    have a4: "convect_wake p \<and> False \<longrightarrow>
             (\<forall>b \<in> set (bodies ?s4). \<forall>d \<in> set (lifting_surfaces b).
                \<forall>k < wake_n_panels (wakes ?s4 (wake d)) - n_spanwise_panels (lifting_surface d).
                  wake_doublet_coefficients (wakes ?s4 (wake d)) ! k = 0)"
      by simp
    have a5: "set (source_coefficients ?s4) \<subseteq> {0}"
      using v(1) by (simp add: v(2))
    obtain v' where v': "set v' \<subseteq> {0}"
      "compute_source_distribution p g False ?s4 = ?s4\<lparr>source_coefficients := v'\<rparr>"
      using compute_source_distribution_at_rest [OF a1 a2 a3 a4 a5, of g] by blast
    obtain v1 where v1: "length v1 = length (source_coefficients ?s4)"
      "compute_source_distribution p g False ?s4 = ?s4\<lparr>source_coefficients := v1\<rparr>"
      using compute_source_distribution_frame [of ?s4 p g False] by blast
    have "source_coefficients (?s4\<lparr>source_coefficients := v'\<rparr>)
            = source_coefficients (?s4\<lparr>source_coefficients := v1\<rparr>)"
      using v'(2) v1(2) by simp
    then have "length v' = length (source_coefficients s0)"
      using v1(1) lv by (simp add: v(2))
    with v' show ?thesis
      by (intro exI [of _ v']) (simp add: t_def True)
  qed
  then obtain v' where v': "set v' \<subseteq> {0}" "length v' = length (source_coefficients s0)"
    "t = ?s4\<lparr>source_coefficients := v'\<rparr>"
    by blast
  obtain P C where PC: "compute_pressure_distribution p g dt t
                          = t\<lparr>surface_velocity_potentials := P, pressure_coefficients := C\<rparr>"
    using compute_pressure_distribution_frame [of t p g dt] by blast
  have c1: "fst (solve p g dt propagate0 s0)"
    unfolding fin by simp
  have c2: "source_coefficients s' = v'"
    unfolding s'_def fin propagate_def PC by (simp add: v'(3))
  have c3: "doublet_coefficients s' = solution ?r"
    unfolding s'_def fin propagate_def PC by (simp add: v'(3))
  have c4: "pressure_coefficients s' ! (surface_offset (non_wake_surfaces s0) j + i) = None"
    if "j < length (non_wake_surfaces s0)" "i < n_panels (surface (non_wake_surfaces s0 ! j))"
       "surface_offset (non_wake_surfaces s0) j + i < length (surface_velocity_potentials s0)"
       "surface_offset (non_wake_surfaces s0) j + i < length (pressure_coefficients s0)"
    for j i
  proof -
    have "non_wake_surfaces s0 ! j \<in> set (non_wake_surfaces s0)"
      using that(1) by simp
    with assms(3) obtain body where
      "surface_id_to_body s0 (surface_id (surface (non_wake_surfaces s0 ! j))) = Some body"
      "velocity body = 0"
      by blast
    with assms(2) show ?thesis
      unfolding s'_def
      by (intro solve_pressure_coefficient_at_rest [OF c1 that(1,2) _ _ that(3,4)]) simp_all
  qed
  show ?thesis
    using c1 c4 r(2) v'(1,2) unfolding c2 c3 by simp
qed

lemma example_at_rest_fields:
  "non_wake_surfaces example_solver_at_rest = [example_non_lifting_data, surface_data.truncate example_lifting_data]"
  "bodies example_solver_at_rest = [example_body_at_rest]"
  "freestream_velocity example_solver_at_rest = 0"
  "boundary_layers example_solver_at_rest = (\<lambda>a. DummyBoundaryLayer)"
  "wakes example_solver_at_rest = (\<lambda>a. example_wake\<lparr>wake_doublet_coefficients := [0, 0]\<rparr>)"
  "source_coefficients example_solver_at_rest = [0, 0, 0, 0]"
  "surface_velocity_potentials example_solver_at_rest = [0, 0, 0, 0]"
  "pressure_coefficients example_solver_at_rest = [Some 0, Some 0, Some 0, Some 0]"
  "surface_id_to_body example_solver_at_rest 10 = Some example_body_at_rest"
  "surface_id_to_body example_solver_at_rest 20 = Some example_body_at_rest"
  "velocity example_body_at_rest = 0"
  "panel_kinematic_velocity example_body_at_rest = (\<lambda>sf panel. 0)"
  "lifting_surfaces example_body_at_rest = [example_lifting_data]"
  by (simp_all add: example_solver_at_rest_def example_solver_def example_body_at_rest_def
        example_body_def zero_vec3_def)

lemma example_at_rest_surfaces:
  "n_panels (surface example_non_lifting_data) = 2"
  "n_panels (surface (surface_data.truncate example_lifting_data)) = 2"
  "surface_id (surface example_non_lifting_data) = 10"
  "surface_id (surface (surface_data.truncate example_lifting_data)) = 20"
  "boundary_layer example_non_lifting_data = 0"
  "boundary_layer (surface_data.truncate example_lifting_data) = 1"
  "n_spanwise_panels (lifting_surface example_lifting_data) = 1"
  "wake_n_panels example_wake = 2"
  by (simp_all add: example_non_lifting_data_def example_lifting_data_def example_lifting_surface_def
        example_surface_def example_wake_def surface_data.truncate_def surface.truncate_def
        surface.extend_def lifting_surface.fields_def)

lemma example_at_rest_offsets:
  "surface_offset (non_wake_surfaces example_solver_at_rest) 0 = 0"
  "surface_offset (non_wake_surfaces example_solver_at_rest) 1 = 2"
  "surface_offset (non_wake_surfaces example_solver_at_rest) (Suc 0) = 2"
  by (simp_all add: surface_offset_def example_at_rest_fields example_at_rest_surfaces)

lemma example_linear_solve_zero:
  "\<forall>A b guess. set b \<subseteq> {0} \<longrightarrow>
     info (solveWithGuess (example_externals Success) (linear_solver_max_iterations example_parameters)
             (linear_solver_tolerance example_parameters) A b guess) = Success
     \<and> set (solution (solveWithGuess (example_externals Success) (linear_solver_max_iterations example_parameters)
                        (linear_solver_tolerance example_parameters) A b guess)) \<subseteq> {0}"
  by (simp add: example_externals_def)

theorem still_fluid_solve_witness:
  "fst (solve example_parameters (example_externals Success) 1 True example_solver_at_rest)
   \<and> length (source_coefficients
               (snd (solve example_parameters (example_externals Success) 1 True example_solver_at_rest))) = 4
   \<and> set (source_coefficients
            (snd (solve example_parameters (example_externals Success) 1 True example_solver_at_rest))) \<subseteq> {0}
   \<and> set (doublet_coefficients
            (snd (solve example_parameters (example_externals Success) 1 True example_solver_at_rest))) \<subseteq> {0}
   \<and> pressure_coefficients
        (snd (solve example_parameters (example_externals Success) 1 True example_solver_at_rest)) ! 3 = None"
proof -
  have h2: "freestream_velocity example_solver_at_rest = 0"
    by (rule example_at_rest_fields)
  have h3: "\<forall>d \<in> set (non_wake_surfaces example_solver_at_rest).
             \<exists>body. surface_id_to_body example_solver_at_rest (surface_id (surface d)) = Some body
               \<and> velocity body = 0
               \<and> (\<forall>i < n_panels (surface d). panel_kinematic_velocity body (surface d) i = 0)"
    by (simp add: example_at_rest_fields example_at_rest_surfaces)
  have h4: "\<forall>d \<in> set (non_wake_surfaces example_solver_at_rest).
              boundary_layers example_solver_at_rest (boundary_layer d) = DummyBoundaryLayer"
    by (simp add: example_at_rest_fields)
  have h5: "convect_wake example_parameters \<longrightarrow>
             (\<forall>b \<in> set (bodies example_solver_at_rest). \<forall>d \<in> set (lifting_surfaces b).
                \<forall>k < wake_n_panels (wakes example_solver_at_rest (wake d))
                        - n_spanwise_panels (lifting_surface d).
                  wake_doublet_coefficients (wakes example_solver_at_rest (wake d)) ! k = 0)"
    by (simp add: example_at_rest_fields example_at_rest_surfaces)
  have h6: "set (source_coefficients example_solver_at_rest) \<subseteq> {0}"
    by (simp add: example_at_rest_fields)
  note r = still_fluid_solve [OF h2 h3 h4 h5 h6 example_linear_solve_zero, of 1 True]
  have k: "surface_offset (non_wake_surfaces example_solver_at_rest) 1 + 1 = 3"
    by (simp add: example_at_rest_offsets)
  have j: "1 < length (non_wake_surfaces example_solver_at_rest)"
    by (simp add: example_at_rest_fields)
  have i: "1 < n_panels (surface (non_wake_surfaces example_solver_at_rest ! 1))"
    by (simp add: example_at_rest_fields example_at_rest_surfaces)
  have l1: "surface_offset (non_wake_surfaces example_solver_at_rest) 1 + 1
              < length (surface_velocity_potentials example_solver_at_rest)"
    unfolding k by (simp add: example_at_rest_fields)
  have l2: "surface_offset (non_wake_surfaces example_solver_at_rest) 1 + 1
              < length (pressure_coefficients example_solver_at_rest)"
    unfolding k by (simp add: example_at_rest_fields)
  note pr = r [THEN conjunct2, THEN conjunct2, THEN conjunct2, THEN conjunct2, rule_format, OF j i l1 l2,
               unfolded k]
  have len: "length (source_coefficients example_solver_at_rest) = 4"
    by (simp add: example_at_rest_fields)
  show ?thesis
    using r [THEN conjunct1] r [THEN conjunct2, THEN conjunct1, unfolded len]
      r [THEN conjunct2, THEN conjunct2, THEN conjunct1]
      r [THEN conjunct2, THEN conjunct2, THEN conjunct2, THEN conjunct1] pr
    by simp
qed

text \<open>
  The small configuration at rest: \<^verbatim>\<open>solve\<close> returns true, and none of the four stored
  pressure coefficients is zero (none is a finite number).
\<close>

theorem still_fluid_pressure_not_finite:
  "freestream_velocity example_solver_at_rest = 0
   \<and> velocity example_body_at_rest = 0
   \<and> fst (solve example_parameters (example_externals Success) 1 True example_solver_at_rest)
   \<and> pressure_coefficients
        (snd (solve example_parameters (example_externals Success) 1 True example_solver_at_rest)) ! 0 = None
   \<and> pressure_coefficients
        (snd (solve example_parameters (example_externals Success) 1 True example_solver_at_rest)) ! 1 = None
   \<and> pressure_coefficients
        (snd (solve example_parameters (example_externals Success) 1 True example_solver_at_rest)) ! 2 = None
   \<and> pressure_coefficients
        (snd (solve example_parameters (example_externals Success) 1 True example_solver_at_rest)) ! 3 = None"
proof -
  let ?s' = "snd (solve example_parameters (example_externals Success) 1 True example_solver_at_rest)"
  have ok: "fst (solve example_parameters (example_externals Success) 1 True example_solver_at_rest)"
    by (rule example_solve_returns_true)
  have p: "pressure_coefficients ?s' ! (surface_offset (non_wake_surfaces example_solver_at_rest) j + i) = None"
    if "j < 2" "i < 2" for j i
  proof (rule solve_pressure_coefficient_at_rest [OF ok, where body = example_body_at_rest])
    have j: "j = 0 \<or> j = 1" using that(1) by auto
    show "j < length (non_wake_surfaces example_solver_at_rest)"
      using that(1) by (simp add: example_at_rest_fields)
    show "i < n_panels (surface (non_wake_surfaces example_solver_at_rest ! j))"
      using j that(2) by (auto simp: example_at_rest_fields example_at_rest_surfaces)
    show "surface_id_to_body example_solver_at_rest
            (surface_id (surface (non_wake_surfaces example_solver_at_rest ! j))) = Some example_body_at_rest"
      using j by (auto simp: example_at_rest_fields example_at_rest_surfaces)
    show "velocity example_body_at_rest = freestream_velocity example_solver_at_rest"
      by (simp add: example_at_rest_fields)
    show "surface_offset (non_wake_surfaces example_solver_at_rest) j + i
            < length (surface_velocity_potentials example_solver_at_rest)"
      using j that(2) by (auto simp: example_at_rest_offsets example_at_rest_fields(7))
    show "surface_offset (non_wake_surfaces example_solver_at_rest) j + i
            < length (pressure_coefficients example_solver_at_rest)"
      using j that(2) by (auto simp: example_at_rest_offsets example_at_rest_fields(8))
  qed
  from p [of 0 0] p [of 0 1] p [of 1 0] p [of 1 1] ok show ?thesis
    by (simp add: example_at_rest_offsets example_at_rest_fields(3,11))
qed

end
